theory Spec2Isabelle
  imports Main
begin

section \<open>JavaScript strings\<close>

text \<open>
  A JavaScript string is a sequence of UTF-16 code units; \<open>length\<close>, \<open>slice\<close>,
  \<open>split\<close> and the regular expressions of the sources (none has the \<open>u\<close> flag) all
  count code units. A code unit is modelled by its number, a string by the list of its
  code units. \<open>js\<close> embeds an ASCII literal.
\<close>

type_synonym jschar = nat
type_synonym jsstring = "jschar list"

definition js :: "string \<Rightarrow> jsstring" where
  "js s = map of_char s"

text \<open>
  ECMAScript \<open>WhiteSpace\<close> and \<open>LineTerminator\<close>: the code units that
  \<open>String.prototype.trim\<close> strips and that the class \<open>\s\<close> matches.
\<close>

definition isLineTerminator :: "jschar \<Rightarrow> bool" where
  "isLineTerminator c = (c = 0x0A \<or> c = 0x0D \<or> c = 0x2028 \<or> c = 0x2029)"

definition isWhiteSpace :: "jschar \<Rightarrow> bool" where
  "isWhiteSpace c =
     (c = 0x09 \<or> c = 0x0A \<or> c = 0x0B \<or> c = 0x0C \<or> c = 0x0D \<or> c = 0x20 \<or> c = 0xA0
      \<or> c = 0x1680 \<or> (0x2000 \<le> c \<and> c \<le> 0x200A) \<or> c = 0x2028 \<or> c = 0x2029
      \<or> c = 0x202F \<or> c = 0x205F \<or> c = 0x3000 \<or> c = 0xFEFF)"

text \<open>The class \<open>\w\<close>: \<open>[A-Za-z0-9_]\<close>.\<close>

definition isWordChar :: "jschar \<Rightarrow> bool" where
  "isWordChar c =
     ((0x41 \<le> c \<and> c \<le> 0x5A) \<or> (0x61 \<le> c \<and> c \<le> 0x7A) \<or> (0x30 \<le> c \<and> c \<le> 0x39)
      \<or> c = 0x5F)"

definition trim :: "jsstring \<Rightarrow> jsstring" where
  "trim s = rev (dropWhile isWhiteSpace (rev (dropWhile isWhiteSpace s)))"

text \<open>\<open>s.split(c)\<close> for a separator of one code unit; \<open>''''.split(c)\<close> is \<open>['''']\<close>.\<close>

fun split_on :: "jschar \<Rightarrow> jsstring \<Rightarrow> jsstring list" where
  "split_on c [] = [[]]"
| "split_on c (x # xs) =
     (if x = c then [] # split_on c xs
      else (case split_on c xs of
              [] \<Rightarrow> [[x]]
            | p # ps \<Rightarrow> (x # p) # ps))"

text \<open>\<open>s.split('''')\<close>: one string per code unit.\<close>

definition split_units :: "jsstring \<Rightarrow> jsstring list" where
  "split_units s = map (\<lambda>c. [c]) s"

text \<open>\<open>parts.join(sep)\<close>.\<close>

fun join :: "jsstring \<Rightarrow> jsstring list \<Rightarrow> jsstring" where
  "join sep [] = []"
| "join sep [p] = p"
| "join sep (p # q # ps) = p @ sep @ join sep (q # ps)"

text \<open>
  \<open>s.slice(b, e)\<close> for integral arguments: a negative index counts from the end, and
  both are clamped to the string.
\<close>

definition slice_index :: "nat \<Rightarrow> int \<Rightarrow> nat" where
  "slice_index n k = (if k < 0 then nat (max (int n + k) 0) else min (nat k) n)"

definition slice :: "jsstring \<Rightarrow> int \<Rightarrow> int \<Rightarrow> jsstring" where
  "slice s b e =
     (let from = slice_index (length s) b; to = slice_index (length s) e
      in take (to - from) (drop from s))"

definition slice_from :: "jsstring \<Rightarrow> int \<Rightarrow> jsstring" where
  "slice_from s b = drop (slice_index (length s) b) s"

definition startsWith :: "jsstring \<Rightarrow> jsstring \<Rightarrow> bool" where
  "startsWith s p = (take (length p) s = p)"

definition endsWith :: "jsstring \<Rightarrow> jsstring \<Rightarrow> bool" where
  "endsWith s p = (length p \<le> length s \<and> drop (length s - length p) s = p)"

text \<open>\<open>s.indexOf(p)\<close> from the start of \<open>s\<close>; \<open>None\<close> stands for \<open>-1\<close>.\<close>

fun indexOf :: "jsstring \<Rightarrow> jsstring \<Rightarrow> nat option" where
  "indexOf [] p = (if p = [] then Some 0 else None)"
| "indexOf (x # xs) p =
     (if startsWith (x # xs) p then Some 0 else map_option Suc (indexOf xs p))"

definition js_includes :: "jsstring \<Rightarrow> jsstring \<Rightarrow> bool" where
  "js_includes s p = (indexOf s p \<noteq> None)"

text \<open>\<open>s.lastIndexOf(c)\<close> for one code unit, as the integer JavaScript returns.\<close>

fun lastIndexOf :: "jsstring \<Rightarrow> jschar \<Rightarrow> int" where
  "lastIndexOf [] c = -1"
| "lastIndexOf (x # xs) c =
     (let r = lastIndexOf xs c
      in if r \<ge> 0 then r + 1 else if x = c then 0 else -1)"

text \<open>
  The errors the modelled code raises. \<open>Error\<close> is \<open>new Error(message)\<close> of the
  sources; \<open>TypeError\<close> is the engine's, raised by reading a property of
  \<open>undefined\<close> or \<open>null\<close>; \<open>SyntaxError\<close> is \<open>JSON.parse\<close>'s. Each carries its
  message.
\<close>

datatype js_error = Error jsstring | TypeError jsstring | SyntaxError jsstring

fun message_of :: "js_error \<Rightarrow> jsstring" where
  "message_of (Error m) = m"
| "message_of (TypeError m) = m"
| "message_of (SyntaxError m) = m"

text \<open>
  The message of the \<open>TypeError\<close> for reading property \<open>key\<close> of \<open>undefined\<close> or
  \<open>null\<close> (\<open>base\<close> names which), in V8's wording.
\<close>

definition cannot_read :: "jsstring \<Rightarrow> jsstring \<Rightarrow> jsstring" where
  "cannot_read base key =
     js ''Cannot read properties of '' @ base @ js '' (reading '' @ [0x27] @ key @ [0x27] @ js '')''"

section \<open>Prompt builder: truncation\<close>

text \<open>
  \<open>PromptBuilderConfig\<close>: every field is optional; \<open>None\<close> is a field the caller left
  out. The constructor spreads the caller's object over the defaults
  \<open>{includeCodeSummary: true, maxCodeLength: 50000}\<close>. \<open>maxCodeLength\<close> is a
  \<open>number\<close> in the source; the model takes the integral ones. A field the caller
  sets to \<open>undefined\<close>, which the spread copies over the default, is not modelled: the
  builders of the model are those with a number for a budget.
\<close>

record PromptBuilderConfig =
  includeCodeSummary :: "bool option"
  maxCodeLength :: "int option"
  language :: "jsstring option"

record PromptBuilder =
  cfg_includeCodeSummary :: bool
  cfg_maxCodeLength :: int
  cfg_language :: "jsstring option"

definition new_PromptBuilder :: "PromptBuilderConfig \<Rightarrow> PromptBuilder" where
  "new_PromptBuilder config =
     \<lparr> cfg_includeCodeSummary = (case includeCodeSummary config of None \<Rightarrow> True | Some b \<Rightarrow> b),
       cfg_maxCodeLength = (case maxCodeLength config of None \<Rightarrow> 50000 | Some m \<Rightarrow> m),
       cfg_language = language config \<rparr>"

definition default_config :: PromptBuilderConfig where
  "default_config = \<lparr> includeCodeSummary = None, maxCodeLength = None, language = None \<rparr>"

text \<open>
  The truncation marker: two line feeds, then \<open>// ... \<close>, eight CJK code units
  (U+4EE3 U+7801 U+8FC7 U+957F U+FF0C U+5DF2 U+622A U+65AD) and \<open> ...\<close>.
\<close>

definition truncation_marker :: jsstring where
  "truncation_marker =
     js ''\<newline>\<newline>// ... '' @ [0x4EE3, 0x7801, 0x8FC7, 0x957F, 0xFF0C, 0x5DF2, 0x622A, 0x65AD]
       @ js '' ...''"

definition truncateCode :: "PromptBuilder \<Rightarrow> jsstring \<Rightarrow> jsstring" where
  "truncateCode this code =
     (if int (length code) \<le> cfg_maxCodeLength this then code
      else
        (let truncated = slice code 0 (cfg_maxCodeLength this);
             lastNewline = lastIndexOf truncated 0x0A
         in (if lastNewline > 0 then slice truncated 0 lastNewline else truncated)
              @ truncation_marker))"

section \<open>Backend C: credentials\<close>

datatype Provider = zhipu | ernie | xfyun

text \<open>
  \<open>LLMConfig\<close>. An optional field is \<open>None\<close> when the caller left it out. The
  source tests fields for truthiness: an absent and an empty string both fail.
\<close>

record LLMConfig =
  provider :: Provider
  apiKey :: jsstring
  model :: "jsstring option"
  secretKey :: "jsstring option"
  appId :: "jsstring option"
  apiSecret :: "jsstring option"

definition truthy_str :: "jsstring option \<Rightarrow> bool" where
  "truthy_str v = (case v of None \<Rightarrow> False | Some s \<Rightarrow> s \<noteq> [])"

record XfyunCredentials =
  xf_appId :: jsstring
  xf_apiKey :: jsstring
  xf_apiSecret :: jsstring

text \<open>The format both configuration errors name: \<open>APPID:APIKey:APISecret\<close>.\<close>

definition xfyun_format :: jsstring where
  "xfyun_format = js ''APPID:APIKey:APISecret''"

definition xfyun_format_error :: jsstring where
  "xfyun_format_error =
     [0x8BAF, 0x98DE, 0x661F, 0x706B] @ js '' API Key '' @ [0x683C, 0x5F0F, 0x9519, 0x8BEF, 0xFF0C,
       0x6B63, 0x786E, 0x683C, 0x5F0F] @ js '': '' @ xfyun_format"

definition xfyun_missing_error :: jsstring where
  "xfyun_missing_error =
     [0x8BAF, 0x98DE, 0x661F, 0x706B, 0x9700, 0x8981] @ js '' APPID'' @ [0x3001] @ js ''APIKey ''
       @ [0x548C] @ js '' APISecret'' @ [0xFF0C, 0x8BF7, 0x63D0, 0x4F9B, 0x5206, 0x79BB, 0x5B57, 0x6BB5,
       0x6216, 0x4F7F, 0x7528, 0x683C, 0x5F0F] @ js '' '' @ [0x22] @ xfyun_format @ [0x22]"

text \<open>
  \<open>XfyunSparkAdapter.parseConfig\<close>, the whole of what the constructor does after
  storing the configuration: no request is made.
\<close>

definition parseConfig :: "LLMConfig \<Rightarrow> js_error + XfyunCredentials" where
  "parseConfig config =
     (if truthy_str (appId config) \<and> apiKey config \<noteq> [] \<and> truthy_str (apiSecret config) then
        Inr \<lparr> xf_appId = the (appId config), xf_apiKey = apiKey config,
              xf_apiSecret = the (apiSecret config) \<rparr>
      else if apiKey config \<noteq> [] \<and> js_includes (apiKey config) (js '':'') then
        (let parts = split_on 0x3A (apiKey config)
         in if length parts \<noteq> 3 then Inl (Error xfyun_format_error)
            else Inr \<lparr> xf_appId = parts ! 0, xf_apiKey = parts ! 1, xf_apiSecret = parts ! 2 \<rparr>)
      else Inl (Error xfyun_missing_error))"

text \<open>The three separate credential fields are all present and non-empty.\<close>

definition separate_fields :: "LLMConfig \<Rightarrow> bool" where
  "separate_fields config =
     (truthy_str (appId config) \<and> apiKey config \<noteq> [] \<and> truthy_str (apiSecret config))"

section \<open>Python analyzer: block extraction\<close>

text \<open>\<open>line.match(/^(\s*)/)[1].length\<close>: the length of the leading white space.\<close>

definition indent_of :: "jsstring \<Rightarrow> nat" where
  "indent_of line = length (takeWhile isWhiteSpace line)"

text \<open>\<open>!line.trim()\<close>: the trimmed line is the empty string.\<close>

definition blank :: "jsstring \<Rightarrow> bool" where
  "blank line = (trim line = [])"

text \<open>
  The \<open>for\<close> loop of \<open>extractPythonBlock\<close> over the lines after the header: a blank
  line is kept, a line indented no deeper than the header ends the loop, any other line
  is kept.
\<close>

fun block_scan :: "nat \<Rightarrow> jsstring list \<Rightarrow> jsstring list" where
  "block_scan startIndent [] = []"
| "block_scan startIndent (line # rest) =
     (if blank line then line # block_scan startIndent rest
      else if indent_of line \<le> startIndent then []
      else line # block_scan startIndent rest)"

text \<open>
  \<open>extractPythonBlock(lines, startIndex)\<close>. Out of range \<open>lines[startIndex]\<close> is
  \<open>undefined\<close> and \<open>startLine.match\<close> raises a \<open>TypeError\<close>.
\<close>

definition extractPythonBlock :: "jsstring list \<Rightarrow> nat \<Rightarrow> js_error + jsstring list" where
  "extractPythonBlock lines startIndex =
     (if startIndex < length lines then
        (let startLine = lines ! startIndex;
             startIndent = indent_of startLine
         in Inr (startLine # block_scan startIndent (drop (startIndex + 1) lines)))
      else Inl (TypeError (cannot_read (js ''undefined'') (js ''match''))))"

text \<open>A line the scan keeps: blank, or indented deeper than the header.\<close>

definition in_block :: "nat \<Rightarrow> jsstring \<Rightarrow> bool" where
  "in_block startIndent line = (blank line \<or> startIndent < indent_of line)"

section \<open>JavaScript values read from JSON\<close>

text \<open>
  What \<open>JSON.parse\<close> returns, and \<open>undefined\<close> for a property that is not there.
  Numbers are the integral ones. An object lists each key once.
\<close>

datatype jsval =
    JUndefined
  | JNull
  | JBool bool
  | JNum int
  | JStr jsstring
  | JArr "jsval list"
  | JObj "(jsstring \<times> jsval) list"

definition nullish :: "jsval \<Rightarrow> bool" where
  "nullish v = (v = JUndefined \<or> v = JNull)"

fun truthy :: "jsval \<Rightarrow> bool" where
  "truthy JUndefined = False"
| "truthy JNull = False"
| "truthy (JBool b) = b"
| "truthy (JNum n) = (n \<noteq> 0)"
| "truthy (JStr s) = (s \<noteq> [])"
| "truthy (JArr xs) = True"
| "truthy (JObj kv) = True"

text \<open>\<open>a || b\<close>.\<close>

definition or_else :: "jsval \<Rightarrow> jsval \<Rightarrow> jsval" where
  "or_else a b = (if truthy a then a else b)"

text \<open>
  \<open>v.key\<close> for a value that is neither \<open>undefined\<close> nor \<open>null\<close>, and a key that no
  prototype defines (every key the sources read from parsed JSON is one): the own
  property of an object, \<open>undefined\<close> otherwise.
\<close>

fun own_prop :: "jsval \<Rightarrow> jsstring \<Rightarrow> jsval" where
  "own_prop (JObj kv) key = (case map_of kv key of None \<Rightarrow> JUndefined | Some v \<Rightarrow> v)"
| "own_prop v key = JUndefined"

text \<open>\<open>v.key\<close>: a \<open>TypeError\<close> on \<open>undefined\<close> and \<open>null\<close>.\<close>

definition get :: "jsval \<Rightarrow> jsstring \<Rightarrow> js_error + jsval" where
  "get v key =
     (if v = JUndefined then Inl (TypeError (cannot_read (js ''undefined'') key))
      else if v = JNull then Inl (TypeError (cannot_read (js ''null'') key))
      else Inr (own_prop v key))"

text \<open>\<open>v?.key\<close>.\<close>

definition opt_get :: "jsval \<Rightarrow> jsstring \<Rightarrow> jsval" where
  "opt_get v key = (if nullish v then JUndefined else own_prop v key)"

text \<open>
  \<open>v?.[0]\<close>, and \<open>v[0]\<close> for a \<open>v\<close> known to be truthy: the first element of an
  array, the first code unit of a string, the property \<open>0\<close> of an object.
\<close>

fun index0 :: "jsval \<Rightarrow> jsval" where
  "index0 (JArr xs) = (case xs of [] \<Rightarrow> JUndefined | x # rest \<Rightarrow> x)"
| "index0 (JStr s) = (case s of [] \<Rightarrow> JUndefined | c # rest \<Rightarrow> JStr [c])"
| "index0 (JObj kv) = own_prop (JObj kv) (js ''0'')"
| "index0 v = JUndefined"

text \<open>\<open>v.length\<close> for a \<open>v\<close> that is neither \<open>undefined\<close> nor \<open>null\<close>.\<close>

fun length_of :: "jsval \<Rightarrow> jsval" where
  "length_of (JArr xs) = JNum (int (length xs))"
| "length_of (JStr s) = JNum (int (length s))"
| "length_of (JObj kv) = own_prop (JObj kv) (js ''length'')"
| "length_of v = JUndefined"

text \<open>Decimal digits of a natural number, and \<open>String(n)\<close> for an integer.\<close>

fun show_nat :: "nat \<Rightarrow> jsstring" where
  "show_nat n = (if n < 10 then [0x30 + n] else show_nat (n div 10) @ [0x30 + n mod 10])"

declare show_nat.simps [simp del]

definition show_int :: "int \<Rightarrow> jsstring" where
  "show_int i = (if i < 0 then 0x2D # show_nat (nat (- i)) else show_nat (nat i))"

text \<open>
  \<open>String(v)\<close>, which string concatenation and template literals apply: an array joins
  its elements with commas, \<open>undefined\<close> and \<open>null\<close> elements as empty strings. The
  numbers of the model are the integers, written in decimal digits as JavaScript writes
  them below \<open>10\<^sup>2\<^sup>1\<close>; fractions, and the exponent form JavaScript uses from there on,
  are not modelled.
\<close>

fun to_string :: "jsval \<Rightarrow> jsstring"
  and array_strings :: "jsval list \<Rightarrow> jsstring list" where
  "to_string JUndefined = js ''undefined''"
| "to_string JNull = js ''null''"
| "to_string (JBool b) = (if b then js ''true'' else js ''false'')"
| "to_string (JNum n) = show_int n"
| "to_string (JStr s) = s"
| "to_string (JArr xs) = join (js '','') (array_strings xs)"
| "to_string (JObj kv) = js ''[object Object]''"
| "array_strings [] = []"
| "array_strings (x # xs) =
     (if x = JUndefined \<or> x = JNull then [] else to_string x) # array_strings xs"

text \<open>
  The built-ins of the engine that the sources call and whose results the repository
  does not determine: \<open>JSON.parse\<close> (\<open>Inl\<close> is the message of the \<open>SyntaxError\<close> it
  raises) and the conversion of a string to a number (\<open>None\<close> is \<open>NaN\<close>).
\<close>

record engine =
  JSON_parse :: "jsstring \<Rightarrow> jsstring + jsval"
  StringToNumber :: "jsstring \<Rightarrow> int option"

text \<open>\<open>Number(v)\<close>, as arithmetic and comparison apply it; \<open>None\<close> is \<open>NaN\<close>.\<close>

fun to_number :: "engine \<Rightarrow> jsval \<Rightarrow> int option" where
  "to_number eng JUndefined = None"
| "to_number eng JNull = Some 0"
| "to_number eng (JBool b) = Some (if b then 1 else 0)"
| "to_number eng (JNum n) = Some n"
| "to_number eng (JStr s) = StringToNumber eng s"
| "to_number eng (JArr xs) = StringToNumber eng (to_string (JArr xs))"
| "to_number eng (JObj kv) = None"

section \<open>Responses, usage and the chunk callback\<close>

record tokenUsage =
  promptTokens :: jsval
  completionTokens :: jsval
  totalTokens :: jsval

text \<open>
  \<open>LLMResponse\<close>. The non-streaming paths store whatever value the provider sent as
  the content; the streaming paths store the accumulated string.
\<close>

record LLMResponse =
  resp_content :: jsval
  resp_usage :: "tokenUsage option"

text \<open>
  The optional \<open>onChunk\<close>: \<open>None\<close> when the caller passed none. A callback is
  caller's code: given how many times it has been called and the chunk, it returns
  (\<open>None\<close>) or throws.
\<close>

type_synonym callback = "(nat \<Rightarrow> jsval \<Rightarrow> js_error option) option"

text \<open>
  The state of a streaming call: the accumulated text, the usage seen last, and the
  chunks handed to the callback so far, in call order.
\<close>

record stream_state =
  fullContent :: jsstring
  usage :: "tokenUsage option"
  calls :: "jsval list"

definition initial_stream :: stream_state where
  "initial_stream = \<lparr> fullContent = [], usage = None, calls = [] \<rparr>"

text \<open>
  \<open>fullContent += content; onChunk?.(content)\<close>: the new state, and the error the
  callback threw, if it did.
\<close>

definition deliver :: "callback \<Rightarrow> stream_state \<Rightarrow> jsval \<Rightarrow> stream_state \<times> js_error option" where
  "deliver onChunk st content =
     (let st1 = st\<lparr> fullContent := fullContent st @ to_string content \<rparr>
      in case onChunk of
           None \<Rightarrow> (st1, None)
         | Some f \<Rightarrow> (st1\<lparr> calls := calls st1 @ [content] \<rparr>, f (length (calls st1)) content))"

text \<open>
  An HTTP response as the adapters read it: \<open>response.ok\<close>, \<open>response.status\<close>,
  \<open>await response.text()\<close>, and the reads of \<open>response.body?.getReader()\<close> after
  decoding (\<open>None\<close> when there is no body): each read yields a piece of text or fails;
  the end of the list is \<open>done\<close>.
\<close>

datatype stream_read = Chunk jsstring | ReadFails js_error

record http_response =
  ok :: bool
  status :: nat
  body_text :: jsstring
  body_reads :: "stream_read list option"

text \<open>\<open>chunk.split('\n').filter(line => line.trim())\<close>.\<close>

definition stream_lines :: "jsstring \<Rightarrow> jsstring list" where
  "stream_lines chunk = filter (\<lambda>line. trim line \<noteq> []) (split_on 0x0A chunk)"

text \<open>
  \<open>for (const line of lines)\<close> and the \<open>while (true)\<close> loop over the reads around it,
  for a line handler that returns the new state and the error it raised, if any. An error
  ends both loops.
\<close>

fun for_each_line ::
  "(stream_state \<Rightarrow> jsstring \<Rightarrow> stream_state \<times> js_error option) \<Rightarrow> stream_state \<Rightarrow> jsstring list
     \<Rightarrow> stream_state \<times> js_error option" where
  "for_each_line handle st [] = (st, None)"
| "for_each_line handle st (line # rest) =
     (case handle st line of
        (st1, Some e) \<Rightarrow> (st1, Some e)
      | (st1, None) \<Rightarrow> for_each_line handle st1 rest)"

fun read_loop ::
  "(stream_state \<Rightarrow> jsstring \<Rightarrow> stream_state \<times> js_error option) \<Rightarrow> stream_state \<Rightarrow> stream_read list
     \<Rightarrow> stream_state \<times> js_error option" where
  "read_loop handle st [] = (st, None)"
| "read_loop handle st (ReadFails e # rest) = (st, Some e)"
| "read_loop handle st (Chunk text # rest) =
     (case for_each_line handle st (stream_lines text) of
        (st1, Some e) \<Rightarrow> (st1, Some e)
      | (st1, None) \<Rightarrow> read_loop handle st1 rest)"

text \<open>
  What a streaming call yields: the \<open>LLMResponse\<close> it returns or the error it throws,
  with the chunks its callback received.
\<close>

type_synonym stream_result = "(js_error + LLMResponse) \<times> jsval list"

definition finish :: "stream_state \<times> js_error option \<Rightarrow> stream_result" where
  "finish r =
     (case r of
        (st, Some e) \<Rightarrow> (Inl e, calls st)
      | (st, None) \<Rightarrow> (Inr \<lparr> resp_content = JStr (fullContent st), resp_usage = usage st \<rparr>, calls st))"

text \<open>
  The part of the streaming methods of Backends A and B after \<open>fetch\<close>: a response that
  is not \<open>ok\<close> raises \<open>prefix + status + '' - '' + text\<close>, a response without a body raises,
  otherwise the reads are processed.
\<close>

definition no_stream_error :: jsstring where
  "no_stream_error = [0x65E0, 0x6CD5, 0x83B7, 0x53D6, 0x54CD, 0x5E94, 0x6D41]"

definition sse_stream ::
  "jsstring \<Rightarrow> (stream_state \<Rightarrow> jsstring \<Rightarrow> stream_state \<times> js_error option)
     \<Rightarrow> js_error + http_response \<Rightarrow> stream_result" where
  "sse_stream failure_prefix handle fetched =
     (case fetched of
        Inl e \<Rightarrow> (Inl e, [])
      | Inr response \<Rightarrow>
          if \<not> ok response then
            (Inl (Error (failure_prefix @ show_nat (status response) @ js '' - '' @ body_text response)), [])
          else (case body_reads response of
                  None \<Rightarrow> (Inl (Error no_stream_error), [])
                | Some reads \<Rightarrow> finish (read_loop handle initial_stream reads)))"

section \<open>Backend A: the SSE stream\<close>

definition zhipu_failure :: jsstring where
  "zhipu_failure = [0x667A, 0x8C31] @ js ''API'' @ [0x8C03, 0x7528, 0x5931, 0x8D25] @ js '': ''"

text \<open>
  The \<open>try\<close> block of \<open>ZhipuGLMAdapter.generateDocStream\<close> with its empty \<open>catch\<close>: an
  error of \<open>JSON.parse\<close>, of reading \<open>parsed.choices\<close> or of the callback leaves the
  block; nothing is raised.
\<close>

definition zhipu_frame :: "engine \<Rightarrow> callback \<Rightarrow> stream_state \<Rightarrow> jsstring \<Rightarrow> stream_state" where
  "zhipu_frame eng onChunk st data =
     (case JSON_parse eng data of
        Inl msg \<Rightarrow> st
      | Inr parsed \<Rightarrow>
          (case get parsed (js ''choices'') of
             Inl e \<Rightarrow> st
           | Inr choices \<Rightarrow>
               (let content = or_else (opt_get (opt_get (index0 choices) (js ''delta'')) (js ''content''))
                                (JStr [])
                in case (if truthy content then deliver onChunk st content else (st, None)) of
                     (st1, Some e) \<Rightarrow> st1
                   | (st1, None) \<Rightarrow>
                       (let u = own_prop parsed (js ''usage'')
                        in if truthy u then
                             st1\<lparr> usage := Some \<lparr> promptTokens = own_prop u (js ''prompt_tokens''),
                                                  completionTokens = own_prop u (js ''completion_tokens''),
                                                  totalTokens = own_prop u (js ''total_tokens'') \<rparr> \<rparr>
                           else st1))))"

text \<open>The body of \<open>for (const line of lines)\<close> in Backend A.\<close>

definition zhipu_line ::
  "engine \<Rightarrow> callback \<Rightarrow> stream_state \<Rightarrow> jsstring \<Rightarrow> stream_state \<times> js_error option" where
  "zhipu_line eng onChunk st line =
     (if startsWith line (js ''data: '') then
        (let data = slice_from line 6
         in if data = js ''[DONE]'' then (st, None)
            else (zhipu_frame eng onChunk st data, None))
      else (st, None))"

definition zhipu_generateDocStream ::
  "engine \<Rightarrow> callback \<Rightarrow> js_error + http_response \<Rightarrow> stream_result" where
  "zhipu_generateDocStream eng onChunk fetched =
     sse_stream zhipu_failure (zhipu_line eng onChunk) fetched"

section \<open>Backend B: the SSE stream\<close>

text \<open>
  The marker the adapter puts at the start of the message of the errors it raises for a
  provider-reported error (U+6587 U+5FC3 U+4E00 U+8A00 \<open>API\<close> U+9519 U+8BEF), and by
  which its \<open>catch\<close> recognises them.
\<close>

definition ernie_marker :: jsstring where
  "ernie_marker = [0x6587, 0x5FC3, 0x4E00, 0x8A00] @ js ''API'' @ [0x9519, 0x8BEF]"

definition ernie_failure :: jsstring where
  "ernie_failure = [0x6587, 0x5FC3, 0x4E00, 0x8A00] @ js ''API'' @ [0x8C03, 0x7528, 0x5931, 0x8D25] @ js '': ''"

definition unknown_error :: jsstring where
  "unknown_error = [0x672A, 0x77E5, 0x9519, 0x8BEF]"

text \<open>
  \<open>catch (e) { if (e instanceof Error && e.message.includes(marker)) throw e; }\<close>: every
  error of the model is an \<open>Error\<close> instance.
\<close>

definition ernie_catch :: "stream_state \<Rightarrow> js_error \<Rightarrow> stream_state \<times> js_error option" where
  "ernie_catch st e = (if js_includes (message_of e) ernie_marker then (st, Some e) else (st, None))"

text \<open>
  \<open>src/lib/llm/ernie.ts\<close> (the bearer-key revision): the \<open>try\<close> block of
  \<open>generateDocStream\<close> with its \<open>catch\<close>.
\<close>

definition ernie_frame ::
  "engine \<Rightarrow> callback \<Rightarrow> stream_state \<Rightarrow> jsstring \<Rightarrow> stream_state \<times> js_error option" where
  "ernie_frame eng onChunk st data =
     (case JSON_parse eng data of
        Inl msg \<Rightarrow> ernie_catch st (SyntaxError msg)
      | Inr parsed \<Rightarrow>
          (case get parsed (js ''error'') of
             Inl e \<Rightarrow> ernie_catch st e
           | Inr err \<Rightarrow>
               if truthy err then
                 ernie_catch st (Error (ernie_marker @ js '': ''
                     @ to_string (or_else (own_prop err (js ''code'')) (JStr (js ''unknown'')))
                     @ js '' - ''
                     @ to_string (or_else (own_prop err (js ''message'')) (JStr unknown_error))))
               else
                 (let content = or_else (opt_get (opt_get (index0 (own_prop parsed (js ''choices'')))
                                    (js ''delta'')) (js ''content'')) (JStr [])
                  in case (if truthy content then deliver onChunk st content else (st, None)) of
                       (st1, Some e) \<Rightarrow> ernie_catch st1 e
                     | (st1, None) \<Rightarrow>
                         (let u = own_prop parsed (js ''usage'')
                          in if truthy u then
                               (st1\<lparr> usage := Some
                                   \<lparr> promptTokens = or_else (own_prop u (js ''prompt_tokens'')) (JNum 0),
                                     completionTokens = or_else (own_prop u (js ''completion_tokens'')) (JNum 0),
                                     totalTokens = or_else (own_prop u (js ''total_tokens'')) (JNum 0) \<rparr> \<rparr>,
                                None)
                             else (st1, None)))))"

definition ernie_line ::
  "engine \<Rightarrow> callback \<Rightarrow> stream_state \<Rightarrow> jsstring \<Rightarrow> stream_state \<times> js_error option" where
  "ernie_line eng onChunk st line =
     (if startsWith line (js ''data: '') then
        (let data = slice_from line 6
         in if data = js ''[DONE]'' then (st, None)
            else ernie_frame eng onChunk st data)
      else (st, None))"

definition ernie_generateDocStream ::
  "engine \<Rightarrow> callback \<Rightarrow> js_error + http_response \<Rightarrow> stream_result" where
  "ernie_generateDocStream eng onChunk fetched =
     sse_stream ernie_failure (ernie_line eng onChunk) fetched"

section \<open>Backend B with the credential exchange\<close>

text \<open>
  The revision of \<open>ErnieAdapter\<close> that exchanges its credentials for an access token
  (the one with \<open>getAccessToken\<close>), with the two fields it caches the token in.
  \<open>tokenExpiry\<close> is a number of milliseconds; \<open>None\<close> is \<open>NaN\<close>.
\<close>

record ErnieAdapter =
  ernie_config :: LLMConfig
  accessToken :: jsval
  tokenExpiry :: "int option"

definition new_ErnieAdapter :: "LLMConfig \<Rightarrow> ErnieAdapter" where
  "new_ErnieAdapter config = \<lparr> ernie_config = config, accessToken = JNull, tokenExpiry = Some 0 \<rparr>"

text \<open>
  The requests an adapter sends: the credential exchange with its \<open>client_id\<close> and
  \<open>client_secret\<close>, and the chat call with its endpoint and access token.
\<close>

datatype request = TokenExchange jsstring jsstring | Completion jsstring jsval

text \<open>
  What the world answers to one \<open>getAccessToken\<close>: \<open>Date.now()\<close> at the validity test,
  the outcome of the exchange's \<open>fetch\<close> should it be sent, and \<open>Date.now()\<close> when the
  expiry is stored.
\<close>

record token_io =
  now_at_check :: int
  exchange_response :: "js_error + http_response"
  now_at_store :: int

definition ernie_credentials_error :: jsstring where
  "ernie_credentials_error =
     [0x6587, 0x5FC3, 0x4E00, 0x8A00, 0x9700, 0x8981] @ js '' API Key '' @ [0x548C] @ js '' Secret Key''
       @ [0xFF0C, 0x683C, 0x5F0F, 0x4E3A] @ js '' '' @ [0x22] @ js ''apiKey:secretKey'' @ [0x22]"

definition ernie_token_failed :: jsstring where
  "ernie_token_failed =
     [0x83B7, 0x53D6, 0x6587, 0x5FC3, 0x4E00, 0x8A00, 0x8BBF, 0x95EE, 0x4EE4, 0x724C, 0x5931, 0x8D25]"

text \<open>\<open>Date.now() < this.tokenExpiry\<close>: false for \<open>NaN\<close>.\<close>

definition before_expiry :: "int \<Rightarrow> int option \<Rightarrow> bool" where
  "before_expiry now expiry = (case expiry of None \<Rightarrow> False | Some t \<Rightarrow> now < t)"

text \<open>
  \<open>getAccessToken\<close>: the token or the error, the adapter with its cache fields as the
  call leaves them, and the requests the call sent. \<open>await response.json()\<close> parses the
  body's text.
\<close>

definition getAccessToken ::
  "engine \<Rightarrow> token_io \<Rightarrow> ErnieAdapter \<Rightarrow> (js_error + jsval) \<times> ErnieAdapter \<times> request list" where
  "getAccessToken eng io this =
     (if truthy (accessToken this) \<and> before_expiry (now_at_check io) (tokenExpiry this) then
        (Inr (accessToken this), this, [])
      else
        (let parts = split_on 0x3A (apiKey (ernie_config this));
             key = (case parts of [] \<Rightarrow> None | k # rest \<Rightarrow> Some k);
             secretKey = (case parts of k # s # rest \<Rightarrow> Some s | short \<Rightarrow> None)
         in if \<not> truthy_str key \<or> \<not> truthy_str secretKey then
              (Inl (Error ernie_credentials_error), this, [])
            else
              (let sent = [TokenExchange (the key) (the secretKey)]
               in case exchange_response io of
                    Inl e \<Rightarrow> (Inl e, this, sent)
                  | Inr response \<Rightarrow>
                      if \<not> ok response then (Inl (Error ernie_token_failed), this, sent)
                      else
                        (case JSON_parse eng (body_text response) of
                           Inl msg \<Rightarrow> (Inl (SyntaxError msg), this, sent)
                         | Inr data \<Rightarrow>
                             (case get data (js ''access_token'') of
                                Inl e \<Rightarrow> (Inl e, this, sent)
                              | Inr token \<Rightarrow>
                                  (Inr token,
                                   this\<lparr> accessToken := token,
                                         tokenExpiry :=
                                           map_option (\<lambda>lifetime. now_at_store io + (lifetime - 300) * 1000)
                                             (to_number eng (own_prop data (js ''expires_in''))) \<rparr>,
                                   sent))))))"

text \<open>
  \<open>getModelEndpoint\<close>: \<open>modelEndpoints[this.config.model || 'ernie-4.0-8k'] ||
  'completions_pro'\<close>. The table is looked up by the five keys it is written with. A
  model named like a member of \<open>Object.prototype\<close> (\<open>constructor\<close>, \<open>toString\<close>,
  ...), for which the source's object literal yields that member and not the default, is
  not modelled.
\<close>

definition modelEndpoints :: "(jsstring \<times> jsstring) list" where
  "modelEndpoints =
     [(js ''ernie-4.0-8k'', js ''completions_pro''),
      (js ''ernie-4.0-turbo-8k'', js ''ernie-4.0-turbo-8k''),
      (js ''ernie-3.5-8k'', js ''completions''),
      (js ''ernie-speed-8k'', js ''ernie_speed''),
      (js ''ernie-lite-8k'', js ''ernie-lite-8k'')]"

definition getModelEndpoint :: "ErnieAdapter \<Rightarrow> jsstring" where
  "getModelEndpoint this =
     (let m = (if truthy_str (model (ernie_config this)) then the (model (ernie_config this))
               else js ''ernie-4.0-8k'')
      in case map_of modelEndpoints m of
           None \<Rightarrow> js ''completions_pro''
         | Some endpoint \<Rightarrow> if endpoint = [] then js ''completions_pro'' else endpoint)"

text \<open>
  What the world answers to one generation call: the answers to its \<open>getAccessToken\<close>
  and the outcome of the chat \<open>fetch\<close>.
\<close>

record generate_io =
  token_answers :: token_io
  chat_response :: "js_error + http_response"

definition usage_of :: "jsval \<Rightarrow> tokenUsage" where
  "usage_of u = \<lparr> promptTokens = own_prop u (js ''prompt_tokens''),
                  completionTokens = own_prop u (js ''completion_tokens''),
                  totalTokens = own_prop u (js ''total_tokens'') \<rparr>"

text \<open>The non-streaming \<open>generateDoc\<close> of this revision, after the token is there.\<close>

definition oauth_completion :: "engine \<Rightarrow> js_error + http_response \<Rightarrow> js_error + LLMResponse" where
  "oauth_completion eng fetched =
     (case fetched of
        Inl e \<Rightarrow> Inl e
      | Inr response \<Rightarrow>
          if \<not> ok response then
            Inl (Error (ernie_failure @ show_nat (status response) @ js '' - '' @ body_text response))
          else
            (case JSON_parse eng (body_text response) of
               Inl msg \<Rightarrow> Inl (SyntaxError msg)
             | Inr data \<Rightarrow>
                 (case get data (js ''error_code'') of
                    Inl e \<Rightarrow> Inl e
                  | Inr code \<Rightarrow>
                      if truthy code then
                        Inl (Error (ernie_marker @ js '': '' @ to_string code @ js '' - ''
                               @ to_string (own_prop data (js ''error_msg''))))
                      else
                        Inr \<lparr> resp_content = or_else (own_prop data (js ''result'')) (JStr []),
                              resp_usage = (let u = own_prop data (js ''usage'')
                                            in if truthy u then Some (usage_of u) else None) \<rparr>)))"

definition oauth_generateDoc ::
  "engine \<Rightarrow> generate_io \<Rightarrow> ErnieAdapter
     \<Rightarrow> (js_error + LLMResponse) \<times> ErnieAdapter \<times> request list" where
  "oauth_generateDoc eng io this =
     (case getAccessToken eng (token_answers io) this of
        (Inl e, this1, sent) \<Rightarrow> (Inl e, this1, sent)
      | (Inr token, this1, sent) \<Rightarrow>
          (oauth_completion eng (chat_response io), this1,
           sent @ [Completion (getModelEndpoint this1) token]))"

text \<open>The streaming method of this revision: its \<open>try\<close> block, line handler and call.\<close>

definition oauth_frame ::
  "engine \<Rightarrow> callback \<Rightarrow> stream_state \<Rightarrow> jsstring \<Rightarrow> stream_state \<times> js_error option" where
  "oauth_frame eng onChunk st data =
     (case JSON_parse eng data of
        Inl msg \<Rightarrow> ernie_catch st (SyntaxError msg)
      | Inr parsed \<Rightarrow>
          (case get parsed (js ''error_code'') of
             Inl e \<Rightarrow> ernie_catch st e
           | Inr code \<Rightarrow>
               if truthy code then
                 ernie_catch st (Error (ernie_marker @ js '': '' @ to_string code @ js '' - ''
                     @ to_string (own_prop parsed (js ''error_msg''))))
               else
                 (let content = or_else (own_prop parsed (js ''result'')) (JStr [])
                  in case (if truthy content then deliver onChunk st content else (st, None)) of
                       (st1, Some e) \<Rightarrow> ernie_catch st1 e
                     | (st1, None) \<Rightarrow>
                         (if truthy (own_prop parsed (js ''is_end''))
                             \<and> truthy (own_prop parsed (js ''usage''))
                          then (st1\<lparr> usage := Some (usage_of (own_prop parsed (js ''usage''))) \<rparr>, None)
                          else (st1, None)))))"

definition oauth_line ::
  "engine \<Rightarrow> callback \<Rightarrow> stream_state \<Rightarrow> jsstring \<Rightarrow> stream_state \<times> js_error option" where
  "oauth_line eng onChunk st line =
     (if startsWith line (js ''data: '') then oauth_frame eng onChunk st (slice_from line 6)
      else (st, None))"

definition oauth_generateDocStream ::
  "engine \<Rightarrow> callback \<Rightarrow> generate_io \<Rightarrow> ErnieAdapter
     \<Rightarrow> stream_result \<times> ErnieAdapter \<times> request list" where
  "oauth_generateDocStream eng onChunk io this =
     (case getAccessToken eng (token_answers io) this of
        (Inl e, this1, sent) \<Rightarrow> ((Inl e, []), this1, sent)
      | (Inr token, this1, sent) \<Rightarrow>
          (sse_stream ernie_failure (oauth_line eng onChunk) (chat_response io), this1,
           sent @ [Completion (getModelEndpoint this1) token]))"

text \<open>How many credential exchanges a list of requests holds.\<close>

fun is_exchange :: "request \<Rightarrow> bool" where
  "is_exchange (TokenExchange k s) = True"
| "is_exchange (Completion endpoint token) = False"

definition exchanges :: "request list \<Rightarrow> nat" where
  "exchanges sent = length (filter is_exchange sent)"

section \<open>Backend C: the WebSocket stream\<close>

text \<open>
  What happens on the socket of one \<open>generateDocStream\<close>, in order: it opens, a frame
  arrives, it reports an error, it closes, the 60 second timer fires.
\<close>

datatype ws_event = WsOpen | WsMessage jsstring | WsError jsstring | WsClose | WsTimeout

text \<open>
  The variables the event handlers share, whether \<open>ws.readyState\<close> is \<open>OPEN\<close>, and how
  the promise was settled, if it was.
\<close>

record xfyun_state =
  stream :: stream_state
  ready_open :: bool
  settled :: "(js_error + LLMResponse) option"

definition xfyun_initial :: xfyun_state where
  "xfyun_initial = \<lparr> stream = initial_stream, ready_open = False, settled = None \<rparr>"

definition xfyun_api_error :: jsstring where
  "xfyun_api_error = [0x8BAF, 0x98DE] @ js ''API'' @ [0x9519, 0x8BEF] @ js '': ''"

definition xfyun_socket_error :: jsstring where
  "xfyun_socket_error = [0x8BAF, 0x98DE] @ js ''WebSocket'' @ [0x9519, 0x8BEF] @ js '': ''"

definition xfyun_closed_error :: jsstring where
  "xfyun_closed_error = [0x8FDE, 0x63A5, 0x5173, 0x95ED, 0x4F46, 0x672A, 0x6536, 0x5230, 0x54CD, 0x5E94]"

definition xfyun_timeout_error :: jsstring where
  "xfyun_timeout_error = [0x8BF7, 0x6C42, 0x8D85, 0x65F6]"

definition xfyun_load_error :: jsstring where
  "xfyun_load_error = [0x65E0, 0x6CD5, 0x52A0, 0x8F7D] @ js ''WebSocket'' @ [0x6A21, 0x5757] @ js '': ''"

text \<open>\<open>v > 0\<close>.\<close>

definition number_positive :: "engine \<Rightarrow> jsval \<Rightarrow> bool" where
  "number_positive eng v = (case to_number eng v of None \<Rightarrow> False | Some n \<Rightarrow> 0 < n)"

text \<open>
  The part of the \<open>message\<close> handler from the extraction of the text on, for a frame
  whose header code is 0. An error raised in it is caught and logged: the handler ends.
\<close>

definition xfyun_payload ::
  "engine \<Rightarrow> callback \<Rightarrow> xfyun_state \<Rightarrow> jsval \<Rightarrow> jsval \<Rightarrow> xfyun_state" where
  "xfyun_payload eng onChunk st response header =
     (let text = opt_get (opt_get (own_prop response (js ''payload'')) (js ''choices'')) (js ''text'');
          delivered =
            (if truthy text \<and> number_positive eng (length_of text) then
               (case get (index0 text) (js ''content'') of
                  Inl e \<Rightarrow> (stream st, Some e)
                | Inr c \<Rightarrow> deliver onChunk (stream st) (or_else c (JStr [])))
             else (stream st, None))
      in case delivered of
           (s1, Some e) \<Rightarrow> st\<lparr> stream := s1 \<rparr>
         | (s1, None) \<Rightarrow>
             (let u = opt_get (opt_get (own_prop response (js ''payload'')) (js ''usage'')) (js ''text'');
                  s2 = (if truthy u then
                          s1\<lparr> usage := Some
                              \<lparr> promptTokens = or_else (own_prop u (js ''prompt_tokens'')) (JNum 0),
                                completionTokens = or_else (own_prop u (js ''completion_tokens'')) (JNum 0),
                                totalTokens = or_else (own_prop u (js ''total_tokens'')) (JNum 0) \<rparr> \<rparr>
                        else s1)
              in if own_prop header (js ''status'') = JNum 2 then
                   st\<lparr> stream := s2, ready_open := False,
                       settled := Some (Inr \<lparr> resp_content = JStr (fullContent s2),
                                               resp_usage = usage s2 \<rparr>) \<rparr>
                 else st\<lparr> stream := s2 \<rparr>))"

text \<open>The \<open>message\<close> handler.\<close>

definition xfyun_message :: "engine \<Rightarrow> callback \<Rightarrow> xfyun_state \<Rightarrow> jsstring \<Rightarrow> xfyun_state" where
  "xfyun_message eng onChunk st data =
     (case JSON_parse eng data of
        Inl msg \<Rightarrow> st
      | Inr response \<Rightarrow>
          (case get response (js ''header'') of
             Inl e \<Rightarrow> st
           | Inr header \<Rightarrow>
               (case get header (js ''code'') of
                  Inl e \<Rightarrow> st
                | Inr code \<Rightarrow>
                    if code \<noteq> JNum 0 then
                      st\<lparr> ready_open := False,
                          settled := Some (Inl (Error (xfyun_api_error @ to_string code @ js '' - ''
                                        @ to_string (own_prop header (js ''message''))))) \<rparr>
                    else xfyun_payload eng onChunk st response header)))"

text \<open>One event, handled while the promise is pending.\<close>

fun xfyun_event :: "engine \<Rightarrow> callback \<Rightarrow> xfyun_state \<Rightarrow> ws_event \<Rightarrow> xfyun_state" where
  "xfyun_event eng onChunk st WsOpen = st\<lparr> ready_open := True \<rparr>"
| "xfyun_event eng onChunk st (WsMessage data) = xfyun_message eng onChunk st data"
| "xfyun_event eng onChunk st (WsError msg) =
     st\<lparr> settled := Some (Inl (Error (xfyun_socket_error @ msg))) \<rparr>"
| "xfyun_event eng onChunk st WsClose =
     (if fullContent (stream st) = [] then
        st\<lparr> ready_open := False, settled := Some (Inl (Error xfyun_closed_error)) \<rparr>
      else st\<lparr> ready_open := False \<rparr>)"
| "xfyun_event eng onChunk st WsTimeout =
     (if ready_open st then
        st\<lparr> ready_open := False, settled := Some (Inl (Error xfyun_timeout_error)) \<rparr>
      else st)"

text \<open>
  The events are handled until one settles the promise: the call then yields that
  result and the chunks its callback has received. \<open>None\<close>: the events ran out with
  the promise pending, and the call has not returned.
\<close>

fun xfyun_events ::
  "engine \<Rightarrow> callback \<Rightarrow> xfyun_state \<Rightarrow> ws_event list
     \<Rightarrow> (js_error + LLMResponse) option \<times> jsval list" where
  "xfyun_events eng onChunk st [] = (None, calls (stream st))"
| "xfyun_events eng onChunk st (ev # rest) =
     (let st1 = xfyun_event eng onChunk st ev
      in case settled st1 of
           Some r \<Rightarrow> (Some r, calls (stream st1))
         | None \<Rightarrow> xfyun_events eng onChunk st1 rest)"

text \<open>
  \<open>XfyunSparkAdapter.generateDocStream\<close>. \<open>setup\<close> is the error of loading the
  \<open>ws\<close> module or of creating the socket, if there was one: the promise is rejected.
\<close>

definition xfyun_generateDocStream ::
  "engine \<Rightarrow> callback \<Rightarrow> js_error option \<Rightarrow> ws_event list
     \<Rightarrow> (js_error + LLMResponse) option \<times> jsval list" where
  "xfyun_generateDocStream eng onChunk setup events =
     (case setup of
        Some e \<Rightarrow> (Some (Inl (Error (xfyun_load_error @ message_of e))), [])
      | None \<Rightarrow> xfyun_events eng onChunk xfyun_initial events)"

section \<open>Regular expressions\<close>

text \<open>
  The regular expressions of the sources, as syntax trees, and a matcher that follows the
  ECMAScript backtracking semantics: for a pattern and a start position it lists every
  way the pattern can match there, in the order backtracking tries them, so that the
  head of the list is the match \<open>RegExp.prototype.exec\<close> finds.
\<close>

datatype cset =
    Lit jschar            \<comment> \<open>one code unit\<close>
  | Space                 \<comment> \<open>\<open>\s\<close>\<close>
  | NotSpace              \<comment> \<open>\<open>\S\<close>\<close>
  | Word                  \<comment> \<open>\<open>\w\<close>\<close>
  | Dot                   \<comment> \<open>\<open>.\<close>: anything but a line terminator\<close>
  | Any                   \<comment> \<open>\<open>[\s\S]\<close>\<close>
  | NoneOf "jschar list"  \<comment> \<open>\<open>[^...]\<close>\<close>

fun in_cset :: "cset \<Rightarrow> jschar \<Rightarrow> bool" where
  "in_cset (Lit a) c = (c = a)"
| "in_cset Space c = isWhiteSpace c"
| "in_cset NotSpace c = (\<not> isWhiteSpace c)"
| "in_cset Word c = isWordChar c"
| "in_cset Dot c = (\<not> isLineTerminator c)"
| "in_cset Any c = True"
| "in_cset (NoneOf cs) c = (c \<notin> set cs)"

datatype regex =
    Chr cset
  | Seq "regex list"
  | Alt regex regex
  | Rep regex nat "nat option" bool   \<comment> \<open>atom, least, most (\<open>None\<close>: unbounded), greedy\<close>
  | Group nat regex                   \<comment> \<open>capturing group with its number\<close>
  | Bol                               \<comment> \<open>\<open>^\<close> without the \<open>m\<close> flag\<close>
  | BolM                              \<comment> \<open>\<open>^\<close> with the \<open>m\<close> flag\<close>
  | Eol                               \<comment> \<open>\<open>$\<close> without the \<open>m\<close> flag\<close>
  | EolM                              \<comment> \<open>\<open>$\<close> with the \<open>m\<close> flag\<close>

text \<open>The quantifiers and a literal word.\<close>

definition many :: "regex \<Rightarrow> regex" where "many r = Rep r 0 None True"
definition many1 :: "regex \<Rightarrow> regex" where "many1 r = Rep r 1 None True"
definition maybe :: "regex \<Rightarrow> regex" where "maybe r = Rep r 0 (Some 1) True"
definition lazy_many :: "regex \<Rightarrow> regex" where "lazy_many r = Rep r 0 None False"
definition lits :: "jsstring \<Rightarrow> regex" where "lits s = Seq (map (\<lambda>c. Chr (Lit c)) s)"

text \<open>
  A matcher state: the code unit ahead of the position (\<open>None\<close> at the start of the
  input), the input from the position on, and the groups captured so far.
\<close>

type_synonym captures = "(nat \<times> jsstring) list"
type_synonym mstate = "jschar option \<times> jsstring \<times> captures"

definition rest_of :: "mstate \<Rightarrow> jsstring" where
  "rest_of s = fst (snd s)"

definition caps_of :: "mstate \<Rightarrow> captures" where
  "caps_of s = snd (snd s)"

definition set_cap :: "nat \<Rightarrow> jsstring \<Rightarrow> mstate \<Rightarrow> mstate" where
  "set_cap k text s = (fst s, rest_of s, (k, text) # filter (\<lambda>p. fst p \<noteq> k) (caps_of s))"

definition clear_caps :: "nat list \<Rightarrow> mstate \<Rightarrow> mstate" where
  "clear_caps ks s = (fst s, rest_of s, filter (\<lambda>p. fst p \<notin> set ks) (caps_of s))"

text \<open>The numbers of the capturing groups inside a pattern.\<close>

fun groups_in :: "regex \<Rightarrow> nat list" where
  "groups_in (Chr cs) = []"
| "groups_in (Seq rs) = concat (map groups_in rs)"
| "groups_in (Alt a b) = groups_in a @ groups_in b"
| "groups_in (Rep r least most greedy) = groups_in r"
| "groups_in (Group k r) = k # groups_in r"
| "groups_in Bol = []"
| "groups_in BolM = []"
| "groups_in Eol = []"
| "groups_in EolM = []"

text \<open>
  ECMAScript's \<open>RepeatMatcher\<close> for an atom with matcher \<open>m\<close>: each iteration starts
  with the atom's groups cleared; once the least count is reached, an iteration that
  consumes nothing is rejected; a greedy quantifier tries another iteration ahead of
  stopping, a lazy one stops first.
\<close>

function repeat ::
  "(mstate \<Rightarrow> mstate list) \<Rightarrow> nat \<Rightarrow> nat option \<Rightarrow> bool \<Rightarrow> nat list \<Rightarrow> mstate \<Rightarrow> mstate list" where
  "repeat m least most greedy inner x =
     (if most = Some 0 then [x]
      else
        (let more = concat (map
                (\<lambda>y. if least = 0 \<and> \<not> length (rest_of y) < length (rest_of x) then []
                     else repeat m (least - 1) (map_option (\<lambda>k. k - 1) most) greedy inner y)
                (m (clear_caps inner x)))
         in if least \<noteq> 0 then more
            else if greedy then more @ [x]
            else x # more))"
  by pat_completeness auto
termination
  by (relation "measures [\<lambda>(m, least, most, greedy, inner, x). least,
                          \<lambda>(m, least, most, greedy, inner, x). length (rest_of x)]") auto

declare repeat.simps [simp del]

text \<open>Every way a pattern matches at a state, in backtracking order.\<close>

fun match :: "regex \<Rightarrow> mstate \<Rightarrow> mstate list"
  and match_seq :: "regex list \<Rightarrow> mstate \<Rightarrow> mstate list" where
  "match (Chr cs) s =
     (case rest_of s of
        [] \<Rightarrow> []
      | c # rest \<Rightarrow> if in_cset cs c then [(Some c, rest, caps_of s)] else [])"
| "match (Seq rs) s = match_seq rs s"
| "match (Alt a b) s = match a s @ match b s"
| "match (Rep r least most greedy) s = repeat (match r) least most greedy (groups_in r) s"
| "match (Group k r) s =
     map (\<lambda>y. set_cap k (take (length (rest_of s) - length (rest_of y)) (rest_of s)) y) (match r s)"
| "match Bol s = (if fst s = None then [s] else [])"
| "match BolM s = (case fst s of None \<Rightarrow> [s] | Some c \<Rightarrow> if isLineTerminator c then [s] else [])"
| "match Eol s = (if rest_of s = [] then [s] else [])"
| "match EolM s =
     (case rest_of s of [] \<Rightarrow> [s] | c # rest \<Rightarrow> if isLineTerminator c then [s] else [])"
| "match_seq [] s = [s]"
| "match_seq (r # rs) s = concat (map (match_seq rs) (match r s))"

text \<open>
  A successful match: where it starts and ends in the input, the text it covers
  (\<open>match[0]\<close>) and its groups (\<open>match[k]\<close>; a group that took no part is
  \<open>undefined\<close>, here \<open>None\<close>).
\<close>

record rmatch =
  m_index :: nat
  m_end :: nat
  m_text :: jsstring
  m_groups :: captures

definition group_of :: "rmatch \<Rightarrow> nat \<Rightarrow> jsstring option" where
  "group_of m k = map_of (m_groups m) k"

text \<open>
  The leftmost match at or after a position: \<open>prev\<close> is the code unit ahead of the
  position, \<open>input\<close> the text from it on, \<open>index\<close> its number.
\<close>

fun search :: "regex \<Rightarrow> nat \<Rightarrow> jschar option \<Rightarrow> jsstring \<Rightarrow> rmatch option" where
  "search r index prev [] =
     (case match r (prev, [], []) of
        [] \<Rightarrow> None
      | y # ys \<Rightarrow> Some \<lparr> m_index = index, m_end = index, m_text = [], m_groups = caps_of y \<rparr>)"
| "search r index prev (c # cs) =
     (case match r (prev, c # cs, []) of
        [] \<Rightarrow> search r (Suc index) (Some c) cs
      | y # ys \<Rightarrow>
          (let n = length (c # cs) - length (rest_of y)
           in Some \<lparr> m_index = index, m_end = index + n, m_text = take n (c # cs),
                     m_groups = caps_of y \<rparr>))"

text \<open>
  \<open>regex.exec(input)\<close> with \<open>regex.lastIndex = lastIndex\<close>, and \<open>input.match(regex)\<close>
  for a pattern without the \<open>g\<close> flag.
\<close>

definition exec :: "regex \<Rightarrow> jsstring \<Rightarrow> nat \<Rightarrow> rmatch option" where
  "exec r input lastIndex =
     (if length input < lastIndex then None
      else search r lastIndex (if lastIndex = 0 then None else Some (input ! (lastIndex - 1)))
             (drop lastIndex input))"

definition match_first :: "regex \<Rightarrow> jsstring \<Rightarrow> rmatch option" where
  "match_first r input = exec r input 0"

definition regex_test :: "regex \<Rightarrow> jsstring \<Rightarrow> bool" where
  "regex_test r input = (match_first r input \<noteq> None)"

section \<open>Code metadata\<close>

text \<open>
  The interfaces of \<open>types.ts\<close>. An optional field is an \<open>option\<close>. Field names
  carry the record's prefix where two interfaces share a name.
\<close>

datatype Visibility = Public | Private | Protected

datatype CommentType = line_comment | block_comment | jsdoc_comment

datatype ExportType = export_class | export_function | export_variable | export_interface
  | export_type

record ParamInfo =
  p_name :: jsstring
  p_type :: "jsstring option"
  p_isOptional :: bool
  p_defaultValue :: "jsstring option"

record PropertyInfo =
  prop_name :: jsstring
  prop_type :: "jsstring option"
  prop_isOptional :: bool
  prop_isReadonly :: bool

record MethodInfo =
  method_name :: jsstring
  method_params :: "ParamInfo list"
  method_returnType :: "jsstring option"
  method_isAsync :: bool
  method_isStatic :: bool
  visibility :: Visibility

record MethodSignature =
  sig_name :: jsstring
  sig_params :: "ParamInfo list"
  sig_returnType :: "jsstring option"

record ClassInfo =
  class_name :: jsstring
  superClass :: "jsstring option"
  class_implements :: "jsstring list option"
  class_properties :: "PropertyInfo list"
  class_methods :: "MethodInfo list"
  class_comments :: "jsstring list option"
  class_startLine :: nat
  class_endLine :: nat

record FunctionInfo =
  fn_name :: jsstring
  fn_params :: "ParamInfo list"
  fn_returnType :: "jsstring option"
  fn_isAsync :: bool
  fn_isExported :: bool
  fn_comments :: "jsstring list option"
  fn_startLine :: nat
  fn_endLine :: nat

record InterfaceInfo =
  iface_name :: jsstring
  iface_extends :: "jsstring list option"
  iface_properties :: "PropertyInfo list"
  iface_methods :: "MethodSignature list"
  iface_comments :: "jsstring list option"
  iface_startLine :: nat
  iface_endLine :: nat

record ImportInfo =
  import_source :: jsstring
  import_specifiers :: "jsstring list"
  isDefault :: bool

record ExportInfo =
  export_name :: jsstring
  export_isDefault :: bool
  export_kind :: ExportType

record CommentInfo =
  comment_type :: CommentType
  comment_content :: jsstring
  comment_startLine :: nat
  comment_endLine :: nat

record CodeMetadata =
  md_fileName :: jsstring
  md_language :: jsstring
  md_classes :: "ClassInfo list"
  md_functions :: "FunctionInfo list"
  md_interfaces :: "InterfaceInfo list"
  md_imports :: "ImportInfo list"
  md_exports :: "ExportInfo list"
  md_comments :: "CommentInfo list"
  rawCode :: jsstring

text \<open>The metadata both analyzers start from: every collection empty.\<close>

definition empty_metadata :: "jsstring \<Rightarrow> jsstring \<Rightarrow> jsstring \<Rightarrow> CodeMetadata" where
  "empty_metadata name lang code =
     \<lparr> md_fileName = name, md_language = lang, md_classes = [], md_functions = [], md_interfaces = [],
       md_imports = [], md_exports = [], md_comments = [], rawCode = code \<rparr>"

section \<open>Outcomes of the analyzer's functions\<close>

text \<open>
  A call returns a value, throws, or never returns: a \<open>while ((match = re.exec(code)) !==
  null)\<close> loop whose pattern matches the empty string at \<open>lastIndex\<close> finds the same
  match forever.
\<close>

datatype 'a outcome = Returns 'a | Throws js_error | Diverges

fun bind :: "'a outcome \<Rightarrow> ('a \<Rightarrow> 'b outcome) \<Rightarrow> 'b outcome" where
  "bind (Returns x) f = f x"
| "bind (Throws e) f = Throws e"
| "bind Diverges f = Diverges"

text \<open>
  The \<open>exec\<close> loop of a pattern with the \<open>g\<close> flag from \<open>lastIndex\<close> on: the body
  yields the item it pushes, or \<open>None\<close> for \<open>continue\<close>.
\<close>

function exec_loop ::
  "regex \<Rightarrow> jsstring \<Rightarrow> (rmatch \<Rightarrow> 'a option outcome) \<Rightarrow> nat \<Rightarrow> 'a list outcome" where
  "exec_loop r input body lastIndex =
     (case exec r input lastIndex of
        None \<Rightarrow> Returns []
      | Some m \<Rightarrow>
          (case body m of
             Throws e \<Rightarrow> Throws e
           | Diverges \<Rightarrow> Diverges
           | Returns item \<Rightarrow>
               if m_end m \<le> lastIndex then Diverges
               else (case exec_loop r input body (m_end m) of
                       Returns items \<Rightarrow> Returns (case item of None \<Rightarrow> items | Some x \<Rightarrow> x # items)
                     | Throws e \<Rightarrow> Throws e
                     | Diverges \<Rightarrow> Diverges)))"
  by pat_completeness auto
termination
  by (relation "measure (\<lambda>(r, input, body, lastIndex). Suc (length input) - lastIndex)")
    (auto simp: exec_def split: if_splits)

declare exec_loop.simps [simp del]

text \<open>The text of a group that takes part in every match of its pattern.\<close>

definition group_text :: "rmatch \<Rightarrow> nat \<Rightarrow> jsstring" where
  "group_text m k = (case group_of m k of None \<Rightarrow> [] | Some s \<Rightarrow> s)"

text \<open>\<open>code.slice(0, index).split('\n').length\<close>: the 1-based line of an index.\<close>

definition line_of :: "jsstring \<Rightarrow> nat \<Rightarrow> nat" where
  "line_of code index = length (split_on 0x0A (take index code))"

section \<open>Python analyzer: imports and comments\<close>

text \<open>\<open>/^import\s+(\S+)(?:\s+as\s+(\S+))?/gm\<close>\<close>

definition simpleImportRegex :: regex where
  "simpleImportRegex =
     Seq [BolM, lits (js ''import''), many1 (Chr Space), Group 1 (many1 (Chr NotSpace)),
          maybe (Seq [many1 (Chr Space), lits (js ''as''), many1 (Chr Space),
                         Group 2 (many1 (Chr NotSpace))])]"

text \<open>\<open>/^from\s+(\S+)\s+import\s+(.+)$/gm\<close>\<close>

definition fromImportRegex :: regex where
  "fromImportRegex =
     Seq [BolM, lits (js ''from''), many1 (Chr Space), Group 1 (many1 (Chr NotSpace)),
          many1 (Chr Space), lits (js ''import''), many1 (Chr Space), Group 2 (many1 (Chr Dot)),
          EolM]"

text \<open>\<open>/(\S+)\s+as\s+(\S+)/\<close>\<close>

definition asRegex :: regex where
  "asRegex =
     Seq [Group 1 (many1 (Chr NotSpace)), many1 (Chr Space), lits (js ''as''), many1 (Chr Space),
          Group 2 (many1 (Chr NotSpace))]"

definition import_specifier :: "jsstring \<Rightarrow> jsstring" where
  "import_specifier s = (case match_first asRegex s of None \<Rightarrow> s | Some m \<Rightarrow> group_text m 2)"

definition extractPythonImports :: "jsstring \<Rightarrow> ImportInfo list outcome" where
  "extractPythonImports code =
     bind (exec_loop simpleImportRegex code
             (\<lambda>m. Returns (Some \<lparr> import_source = group_text m 1,
                                   import_specifiers = [if truthy_str (group_of m 2) then group_text m 2
                                                 else group_text m 1],
                                   isDefault = True \<rparr>)) 0)
       (\<lambda>simple.
          bind (exec_loop fromImportRegex code
                  (\<lambda>m. Returns (Some \<lparr> import_source = group_text m 1,
                                        import_specifiers =
                                          map import_specifier
                                            (filter (\<lambda>s. s \<noteq> [] \<and> \<not> startsWith s (js ''#''))
                                               (map trim (split_on 0x2C (group_text m 2)))),
                                        isDefault = False \<rparr>)) 0)
            (\<lambda>from. Returns (simple @ from)))"

text \<open>
  The comment of a line that starts with \<open>#\<close> once trimmed; \<open>index\<close> is the line's
  0-based number.
\<close>

definition line_comments :: "jsstring list \<Rightarrow> CommentInfo list" where
  "line_comments lines =
     concat (map (\<lambda>(index, line).
                    (let trimmed = trim line
                     in if startsWith trimmed (js ''#'') then
                          [\<lparr> comment_type = line_comment, comment_content = trim (slice_from trimmed 1),
                             comment_startLine = index + 1, comment_endLine = index + 1 \<rparr>]
                        else []))
        (zip [0 ..< length lines] lines))"

text \<open>\<open>/"""([\s\S]*?)"""|'''([\s\S]*?)'''/g\<close>: the quotes are U+0022 and U+0027.\<close>

definition docstringRegex :: regex where
  "docstringRegex =
     Alt (Seq [lits [0x22, 0x22, 0x22], Group 1 (lazy_many (Chr Any)), lits [0x22, 0x22, 0x22]])
         (Seq [lits [0x27, 0x27, 0x27], Group 2 (lazy_many (Chr Any)), lits [0x27, 0x27, 0x27]])"

text \<open>
  \<open>(match[1] || match[2]).trim()\<close>: when the first group is empty or took no part the
  second is taken, and \<open>undefined.trim()\<close> is a \<open>TypeError\<close>.
\<close>

definition docstring_content :: "rmatch \<Rightarrow> jsstring outcome" where
  "docstring_content m =
     (if truthy_str (group_of m 1) then Returns (trim (group_text m 1))
      else (case group_of m 2 of
              None \<Rightarrow> Throws (TypeError (cannot_read (js ''undefined'') (js ''trim'')))
            | Some s \<Rightarrow> Returns (trim s)))"

definition extractPythonComments :: "jsstring \<Rightarrow> jsstring list \<Rightarrow> CommentInfo list outcome" where
  "extractPythonComments code lines =
     bind (exec_loop docstringRegex code
             (\<lambda>m. bind (docstring_content m)
                     (\<lambda>content. Returns (Some
                        \<lparr> comment_type = block_comment, comment_content = content,
                          comment_startLine = line_of code (m_index m),
                          comment_endLine = line_of code (m_index m + length (m_text m)) \<rparr>))) 0)
       (\<lambda>blocks. Returns (line_comments lines @ blocks))"

section \<open>Python analyzer: parameters, methods, properties, docstrings\<close>

text \<open>\<open>/^(\*{0,2}\w+)(?:\s*:\s*([^=]+))?(?:\s*=\s*(.+))?$/\<close>\<close>

definition paramRegex :: regex where
  "paramRegex =
     Seq [Bol, Group 1 (Seq [Rep (Chr (Lit 0x2A)) 0 (Some 2) True, many1 (Chr Word)]),
          maybe (Seq [many (Chr Space), Chr (Lit 0x3A), many (Chr Space),
                         Group 2 (many1 (Chr (NoneOf [0x3D])))]),
          maybe (Seq [many (Chr Space), Chr (Lit 0x3D), many (Chr Space),
                         Group 3 (many1 (Chr Dot))]),
          Eol]"

definition parsePythonParams :: "jsstring \<Rightarrow> ParamInfo list" where
  "parsePythonParams paramsStr =
     (if trim paramsStr = [] then []
      else concat (map
        (\<lambda>part.
           (let trimmed = trim part
            in if trimmed = [] \<or> trimmed = js ''self'' \<or> trimmed = js ''cls'' then []
               else (case match_first paramRegex trimmed of
                       None \<Rightarrow> []
                     | Some m \<Rightarrow>
                         [\<lparr> p_name = group_text m 1,
                            p_type = map_option trim (group_of m 2),
                            p_isOptional = truthy_str (group_of m 3),
                            p_defaultValue = map_option trim (group_of m 3) \<rparr>])))
        (split_on 0x2C paramsStr)))"

text \<open>
  The part the function and method patterns share:
  \<open>(async\s+)?def\s+(\w+)\s*\(([^)]*)\)(?:\s*->\s*(\S+))?:\<close>
\<close>

definition def_pattern :: "regex list" where
  "def_pattern =
     [maybe (Group 1 (Seq [lits (js ''async''), many1 (Chr Space)])), lits (js ''def''),
      many1 (Chr Space), Group 2 (many1 (Chr Word)), many (Chr Space), Chr (Lit 0x28),
      Group 3 (many (Chr (NoneOf [0x29]))), Chr (Lit 0x29),
      maybe (Seq [many (Chr Space), lits (js ''->''), many (Chr Space),
                     Group 4 (many1 (Chr NotSpace))]),
      Chr (Lit 0x3A)]"

text \<open>\<open>/^\s+(async\s+)?def\s+(\w+)\s*\(([^)]*)\)(?:\s*->\s*(\S+))?:/\<close>\<close>

definition methodRegex :: regex where
  "methodRegex = Seq ([Bol, many1 (Chr Space)] @ def_pattern)"

text \<open>\<open>value || undefined\<close> for an optional string.\<close>

definition or_undefined :: "jsstring option \<Rightarrow> jsstring option" where
  "or_undefined v = (if truthy_str v then v else None)"

text \<open>
  The visibility \<open>extractClassMethods\<close> gives a method name: the second test is reached
  by every name the first one lets through, also by one with two leading and two
  trailing underscores.
\<close>

definition method_visibility :: "jsstring \<Rightarrow> Visibility" where
  "method_visibility methodName =
     (if startsWith methodName (js ''__'') \<and> \<not> endsWith methodName (js ''__'') then Private
      else if startsWith methodName (js ''_'') then Protected
      else Public)"

definition extractClassMethods :: "jsstring list \<Rightarrow> MethodInfo list" where
  "extractClassMethods classBody =
     concat (map
       (\<lambda>line.
          (case match_first methodRegex line of
             None \<Rightarrow> []
           | Some m \<Rightarrow>
               [\<lparr> method_name = group_text m 2,
                  method_params = parsePythonParams (group_text m 3),
                  method_returnType = or_undefined (group_of m 4),
                  method_isAsync = truthy_str (group_of m 1),
                  method_isStatic = (startsWith (trim (group_text m 3)) (js ''cls'')
                                     \<or> js_includes line (js ''@staticmethod'')),
                  visibility = method_visibility (group_text m 2) \<rparr>]))
       classBody)"

text \<open>
  The patterns of \<open>extractClassProperties\<close>: \<open>/^\s+def\s+__init__\s*\(/\<close>, \<open>/^\s/\<close>,
  \<open>/^(\s+)/\<close>, \<open>/^\s+def\s+/\<close>, \<open>/self\.(\w+)\s*(?::\s*(\S+))?\s*=/\<close> and
  \<open>/^\s{4}(\w+)\s*(?::\s*(\S+))?\s*=/\<close>.
\<close>

definition initRegex :: regex where
  "initRegex =
     Seq [Bol, many1 (Chr Space), lits (js ''def''), many1 (Chr Space), lits (js ''__init__''),
          many (Chr Space), Chr (Lit 0x28)]"

definition leadingSpaceRegex :: regex where
  "leadingSpaceRegex = Seq [Bol, Chr Space]"

definition indentRegex :: regex where
  "indentRegex = Seq [Bol, Group 1 (many1 (Chr Space))]"

definition defRegex :: regex where
  "defRegex = Seq [Bol, many1 (Chr Space), lits (js ''def''), many1 (Chr Space)]"

definition assigned :: "regex list" where
  "assigned =
     [Group 1 (many1 (Chr Word)), many (Chr Space),
      maybe (Seq [Chr (Lit 0x3A), many (Chr Space), Group 2 (many1 (Chr NotSpace))]),
      many (Chr Space), Chr (Lit 0x3D)]"

definition selfPropRegex :: regex where
  "selfPropRegex = Seq ([lits (js ''self''), Chr (Lit 0x2E)] @ assigned)"

definition classPropRegex :: regex where
  "classPropRegex = Seq ([Bol, Rep (Chr Space) 4 (Some 4) True] @ assigned)"

definition property_of :: "rmatch \<Rightarrow> PropertyInfo" where
  "property_of m =
     \<lparr> prop_name = group_text m 1, prop_type = or_undefined (group_of m 2),
       prop_isOptional = False, prop_isReadonly = False \<rparr>"

text \<open>
  The first loop of \<open>extractClassProperties\<close>, over the lines that are left, with its
  variables \<open>inInit\<close> and \<open>initIndent\<close>, the names seen and the properties pushed so
  far; it yields the last two.
\<close>

fun init_properties ::
  "bool \<Rightarrow> nat \<Rightarrow> jsstring list \<Rightarrow> PropertyInfo list \<Rightarrow> jsstring list
     \<Rightarrow> jsstring list \<times> PropertyInfo list" where
  "init_properties inInit initIndent seen props [] = (seen, props)"
| "init_properties inInit initIndent seen props (line # rest) =
     (if regex_test initRegex line then
        init_properties True
          (case match_first indentRegex line of None \<Rightarrow> 0 | Some m \<Rightarrow> length (group_text m 1))
          seen props rest
      else if inInit then
        (if (trim line \<noteq> [] \<and> \<not> regex_test leadingSpaceRegex line)
            \<or> ((case match_first indentRegex line of
                   None \<Rightarrow> False
                 | Some m \<Rightarrow> length (group_text m 1) \<le> initIndent)
                \<and> regex_test defRegex line)
         then init_properties False initIndent seen props rest
         else (case match_first selfPropRegex line of
                 None \<Rightarrow> init_properties inInit initIndent seen props rest
               | Some m \<Rightarrow>
                   if group_text m 1 \<in> set seen then
                     init_properties inInit initIndent seen props rest
                   else init_properties inInit initIndent (seen @ [group_text m 1])
                          (props @ [property_of m]) rest))
      else init_properties inInit initIndent seen props rest)"

text \<open>The second loop, over the class-level assignments.\<close>

fun class_level_properties ::
  "jsstring list \<Rightarrow> PropertyInfo list \<Rightarrow> jsstring list \<Rightarrow> PropertyInfo list" where
  "class_level_properties seen props [] = props"
| "class_level_properties seen props (line # rest) =
     (case match_first classPropRegex line of
        None \<Rightarrow> class_level_properties seen props rest
      | Some m \<Rightarrow>
          if group_text m 1 \<notin> set seen \<and> \<not> js_includes line (js ''def '') then
            class_level_properties (seen @ [group_text m 1]) (props @ [property_of m]) rest
          else class_level_properties seen props rest)"

definition extractClassProperties :: "jsstring list \<Rightarrow> PropertyInfo list" where
  "extractClassProperties classBody =
     (case init_properties False 0 [] [] classBody of
        (seen, props) \<Rightarrow> class_level_properties seen props classBody)"

text \<open>
  \<open>extractDocstring\<close>. The inner loop, from line \<open>j\<close> on: the text up to the closing
  quotes, or \<open>None\<close> when the block ends without them.
\<close>

fun docstring_tail :: "jsstring \<Rightarrow> jsstring \<Rightarrow> jsstring list \<Rightarrow> jsstring option" where
  "docstring_tail quote docstring [] = None"
| "docstring_tail quote docstring (nextLine # rest) =
     (case indexOf nextLine quote of
        Some at \<Rightarrow> Some (trim (docstring @ [0x0A] @ take at nextLine))
      | None \<Rightarrow> docstring_tail quote (docstring @ [0x0A] @ trim nextLine) rest)"

text \<open>
  The outer loop over the lines \<open>block[i]\<close> for \<open>i\<close> from 1 while \<open>i < min(length, 5)\<close>:
  \<open>budget\<close> counts the lines it may still look at, \<open>later\<close> are the lines from \<open>i\<close> on.
\<close>

fun docstring_scan :: "nat \<Rightarrow> jsstring list \<Rightarrow> jsstring option" where
  "docstring_scan budget [] = None"
| "docstring_scan budget (l # later) =
     (if budget = 0 then None
      else
        (let line = trim l
         in if startsWith line [0x22, 0x22, 0x22] \<or> startsWith line [0x27, 0x27, 0x27] then
              (let quote = take 3 line
               in if endsWith line quote \<and> 6 < length line then
                    Some (trim (slice line 3 (- 3)))
                  else (case docstring_tail quote (slice_from line 3) later of
                          Some d \<Rightarrow> Some d
                        | None \<Rightarrow> docstring_scan (budget - 1) later))
            else docstring_scan (budget - 1) later))"

definition extractDocstring :: "jsstring list \<Rightarrow> jsstring option" where
  "extractDocstring block = docstring_scan 4 (drop 1 block)"

text \<open>\<open>if (docstring) info.comments = [docstring]\<close>\<close>

definition docstring_comments :: "jsstring list \<Rightarrow> jsstring list option" where
  "docstring_comments block =
     (case extractDocstring block of
        None \<Rightarrow> None
      | Some d \<Rightarrow> if d = [] then None else Some [d])"

section \<open>Python analyzer: classes, functions and the whole file\<close>

text \<open>\<open>/^class\s+(\w+)(?:\(([^)]*)\))?:/gm\<close>\<close>

definition classRegex :: regex where
  "classRegex =
     Seq [BolM, lits (js ''class''), many1 (Chr Space), Group 1 (many1 (Chr Word)),
          maybe (Seq [Chr (Lit 0x28), Group 2 (many (Chr (NoneOf [0x29]))), Chr (Lit 0x29)]),
          Chr (Lit 0x3A)]"

text \<open>The base classes named in the parentheses, when there are any.\<close>

definition bases_of :: "jsstring option \<Rightarrow> jsstring list" where
  "bases_of inheritance =
     (if truthy_str inheritance then
        filter (\<lambda>s. s \<noteq> []) (map trim (split_on 0x2C (the inheritance)))
      else [])"

text \<open>\<open>lifted r\<close>: a result of the error type of the block extraction as an outcome.\<close>

fun lifted :: "js_error + 'a \<Rightarrow> 'a outcome" where
  "lifted (Inl e) = Throws e"
| "lifted (Inr x) = Returns x"

definition extractPythonClasses :: "jsstring \<Rightarrow> jsstring list \<Rightarrow> ClassInfo list outcome" where
  "extractPythonClasses code lines =
     exec_loop classRegex code
       (\<lambda>m. (let startLine = line_of code (m_index m);
                  bases = bases_of (group_of m 2)
              in bind (lifted (extractPythonBlock lines (startLine - 1)))
                   (\<lambda>classBody. Returns (Some
                      \<lparr> class_name = group_text m 1,
                        superClass = (case bases of [] \<Rightarrow> None | b # bs \<Rightarrow> Some b),
                        class_implements = (case bases of b # b2 # bs \<Rightarrow> Some (b2 # bs) | few \<Rightarrow> None),
                        class_properties = extractClassProperties classBody,
                        class_methods = extractClassMethods classBody,
                        class_comments = docstring_comments classBody,
                        class_startLine = startLine,
                        class_endLine = startLine + length classBody - 1 \<rparr>)))) 0"

text \<open>\<open>/^(async\s+)?def\s+(\w+)\s*\(([^)]*)\)(?:\s*->\s*(\S+))?:/gm\<close> and \<open>/^\s+/\<close>\<close>

definition funcRegex :: regex where
  "funcRegex = Seq (BolM # def_pattern)"

definition indentedRegex :: regex where
  "indentedRegex = Seq [Bol, many1 (Chr Space)]"

text \<open>
  \<open>lines[startLine - 1]\<close> is within the lines, since \<open>startLine\<close> counts line feeds of
  \<open>code\<close>; out of range it is \<open>undefined\<close>, which the test lets through to the block
  extraction.
\<close>

definition extractPythonFunctions :: "jsstring \<Rightarrow> jsstring list \<Rightarrow> FunctionInfo list outcome" where
  "extractPythonFunctions code lines =
     exec_loop funcRegex code
       (\<lambda>m. (let startLine = line_of code (m_index m)
              in if startLine - 1 < length lines \<and> lines ! (startLine - 1) \<noteq> []
                    \<and> regex_test indentedRegex (lines ! (startLine - 1))
                 then Returns None
                 else bind (lifted (extractPythonBlock lines (startLine - 1)))
                        (\<lambda>funcBody. Returns (Some
                           \<lparr> fn_name = group_text m 2,
                             fn_params = parsePythonParams (group_text m 3),
                             fn_returnType = or_undefined (group_of m 4),
                             fn_isAsync = truthy_str (group_of m 1),
                             fn_isExported = True,
                             fn_comments = docstring_comments funcBody,
                             fn_startLine = startLine,
                             fn_endLine = startLine + length funcBody - 1 \<rparr>)))) 0"

definition parsePython :: "jsstring \<Rightarrow> jsstring \<Rightarrow> CodeMetadata outcome" where
  "parsePython code fileName =
     (let lines = split_on 0x0A code
      in bind (extractPythonImports code) (\<lambda>found_imports.
         bind (extractPythonComments code lines) (\<lambda>found_comments.
         bind (extractPythonClasses code lines) (\<lambda>found_classes.
         bind (extractPythonFunctions code lines) (\<lambda>found_functions.
           Returns ((empty_metadata fileName (js ''python'') code)
             \<lparr> md_imports := found_imports, md_comments := found_comments,
               md_classes := found_classes, md_functions := found_functions \<rparr>))))))"

section \<open>JavaScript and TypeScript analyzer\<close>

text \<open>
  \<open>parseJavaScript\<close> hands the text to \<open>@babel/parser\<close> and walks the tree with
  \<open>@babel/traverse\<close>; both are libraries. What the repository's visitor functions
  read of a node is modelled by the datatypes below: one constructor or field for each
  test and each property read, \<open>None\<close> where the source falls back to \<open>unknown\<close>,
  \<open>Anonymous\<close> or a missing annotation. A \<open>loc\<close> is the start and the end line.
\<close>

datatype ts_type =
    TSStringKeyword | TSNumberKeyword | TSBooleanKeyword | TSAnyKeyword | TSVoidKeyword
  | TSNullKeyword | TSUndefinedKeyword | TSUnknownKeyword | TSNeverKeyword
  | TSTypeReference "jsstring option" "ts_type list"
      \<comment> \<open>the name when \<open>typeName\<close> is an identifier; the type arguments, none when absent\<close>
  | TSArrayType ts_type
  | TSUnionType "ts_type list"
  | TSFunctionType "jsstring option list" "ts_type option"
      \<comment> \<open>each parameter's name when it is an identifier; the annotated return type\<close>
  | TSTypeLiteral
  | TSOther

datatype node_key = Identifier jsstring | PrivateName jsstring | OtherKey

datatype param_node =
    ParamIdentifier jsstring "bool option" "ts_type option"   \<comment> \<open>name, \<open>optional\<close>, annotation\<close>
  | AssignmentPattern "jsstring option"                       \<comment> \<open>\<open>left\<close>'s name when an identifier\<close>
  | RestElement "jsstring option"                             \<comment> \<open>\<open>argument\<close>'s name when an identifier\<close>
  | OtherParam

datatype class_member =
    ClassProperty node_key "bool option" "ts_type option"     \<comment> \<open>key, \<open>readonly\<close>, annotation\<close>
  | ClassMethod node_key "param_node list" bool bool bool "Visibility option" "ts_type option"
      \<comment> \<open>key, params, \<open>async\<close>, \<open>static\<close>, is a \<open>ClassPrivateMethod\<close>, \<open>accessibility\<close>,
          return annotation\<close>
  | OtherMember

record class_node =
  cn_id :: "jsstring option"
  cn_superClass :: "jsstring option"           \<comment> \<open>the name when \<open>superClass\<close> is an identifier\<close>
  cn_implements :: "jsstring option list option"
  cn_body :: "class_member list"
  cn_loc :: "(nat \<times> nat) option"

record function_node =
  fnode_id :: "jsstring option"
  fnode_params :: "param_node list"
  fnode_async :: bool
  fnode_returnType :: "ts_type option"
  fnode_loc :: "(nat \<times> nat) option"

text \<open>
  A declarator of a variable declaration: the name when \<open>id\<close> is an identifier, and the
  initializer when it is an arrow function or a function expression.
\<close>

record declarator =
  decl_id :: "jsstring option"
  decl_init :: "function_node option"

datatype interface_member =
    TSPropertySignature "jsstring option" "bool option" "bool option" "ts_type option"
      \<comment> \<open>the key's name when an identifier, \<open>optional\<close>, \<open>readonly\<close>, annotation\<close>
  | TSMethodSignature "jsstring option" "param_node list option" "ts_type option"
  | OtherSignature

record interface_node =
  in_name :: jsstring
  in_extends :: "jsstring option list option"
  in_body :: "interface_member list"
  in_loc :: "(nat \<times> nat) option"

datatype import_specifier_node =
    ImportDefaultSpecifier jsstring
  | ImportSpecifier jsstring
  | ImportNamespaceSpecifier jsstring
  | OtherImportSpecifier

datatype parent_kind = Program | ExportDefaultParent | ExportNamedParent | OtherParent

text \<open>A node \<open>traverse\<close> hands to one of the visitors, with the kind of its parent.\<close>

datatype visit =
    ImportDeclaration jsstring "import_specifier_node list"
  | ClassDeclaration class_node parent_kind
  | FunctionDeclaration function_node parent_kind
  | VariableDeclaration "declarator list" parent_kind
  | TSInterfaceDeclaration interface_node parent_kind
  | ExportDefaultDeclaration "jsstring option"        \<comment> \<open>the declaration's name when an identifier\<close>
  | ExportNamedDeclaration "jsstring option list"     \<comment> \<open>each export specifier's exported name\<close>

record babel_comment =
  is_CommentLine :: bool
  comment_value :: jsstring
  comment_loc :: "(nat \<times> nat) option"

text \<open>
  What the libraries do with a text that parses: the comments of the file (\<open>None\<close> when
  \<open>ast.comments\<close> is not there), and the nodes the visitors are called with, in order,
  until \<open>traverse\<close> ends or raises.
\<close>

record babel_file =
  file_comments :: "babel_comment list option"
  visits :: "visit list"

text \<open>
  The libraries: from the text and whether the TypeScript plugin is on, the error
  \<open>parser.parse\<close> raises, or the file.
\<close>

type_synonym babel = "jsstring \<Rightarrow> bool \<Rightarrow> js_error + babel_file"

definition unknown :: jsstring where
  "unknown = js ''unknown''"

definition or_unknown :: "jsstring option \<Rightarrow> jsstring" where
  "or_unknown v = (case v of None \<Rightarrow> unknown | Some s \<Rightarrow> s)"

text \<open>\<open>extractTypeString\<close>\<close>

fun extractTypeString :: "ts_type \<Rightarrow> jsstring" where
  "extractTypeString TSStringKeyword = js ''string''"
| "extractTypeString TSNumberKeyword = js ''number''"
| "extractTypeString TSBooleanKeyword = js ''boolean''"
| "extractTypeString TSAnyKeyword = js ''any''"
| "extractTypeString TSVoidKeyword = js ''void''"
| "extractTypeString TSNullKeyword = js ''null''"
| "extractTypeString TSUndefinedKeyword = js ''undefined''"
| "extractTypeString TSUnknownKeyword = js ''unknown''"
| "extractTypeString TSNeverKeyword = js ''never''"
| "extractTypeString (TSTypeReference typeName params) =
     (case typeName of
        None \<Rightarrow> unknown
      | Some n \<Rightarrow>
          if params = [] then n
          else n @ js ''<'' @ join (js '', '') (map extractTypeString params) @ js ''>'')"
| "extractTypeString (TSArrayType elementType) = extractTypeString elementType @ js ''[]''"
| "extractTypeString (TSUnionType types) = join (js '' | '') (map extractTypeString types)"
| "extractTypeString (TSFunctionType parameters returnType) =
     js ''('' @ join (js '', '') (map (\<lambda>p. case p of None \<Rightarrow> js ''arg'' | Some n \<Rightarrow> n) parameters)
       @ js '') => ''
       @ (case returnType of None \<Rightarrow> js ''void'' | Some t \<Rightarrow> extractTypeString t)"
| "extractTypeString TSTypeLiteral = js ''object''"
| "extractTypeString TSOther = unknown"

definition false_default :: "bool option \<Rightarrow> bool" where
  "false_default v = (case v of None \<Rightarrow> False | Some b \<Rightarrow> b)"

text \<open>\<open>extractParams\<close>\<close>

fun extractParam :: "param_node \<Rightarrow> ParamInfo" where
  "extractParam (ParamIdentifier n optional annotation) =
     \<lparr> p_name = n, p_type = map_option extractTypeString annotation,
       p_isOptional = false_default optional, p_defaultValue = None \<rparr>"
| "extractParam (AssignmentPattern (Some n)) =
     \<lparr> p_name = n, p_type = None, p_isOptional = True, p_defaultValue = Some (js ''has default'') \<rparr>"
| "extractParam (RestElement (Some n)) =
     \<lparr> p_name = js ''...'' @ n, p_type = None, p_isOptional = False, p_defaultValue = None \<rparr>"
| "extractParam other =
     \<lparr> p_name = unknown, p_type = None, p_isOptional = False, p_defaultValue = None \<rparr>"

definition extractParams :: "param_node list \<Rightarrow> ParamInfo list" where
  "extractParams params = map extractParam params"

text \<open>
  The name of a class member: \<open>t.isIdentifier(key) ? key.name : t.isPrivateName(key) ?
  `#${key.id.name}` : 'unknown'\<close>.
\<close>

fun member_name :: "node_key \<Rightarrow> jsstring" where
  "member_name (Identifier n) = n"
| "member_name (PrivateName n) = js ''#'' @ n"
| "member_name OtherKey = unknown"

text \<open>
  \<open>/^\*+\s*/gm\<close>, and \<open>content.replace(pattern, '')\<close> for a pattern with the \<open>g\<close> flag:
  the text between the matches; after an empty match the search moves on by one code
  unit.
\<close>

definition starsRegex :: regex where
  "starsRegex = Seq [BolM, many1 (Chr (Lit 0x2A)), many (Chr Space)]"

lemma search_bounds:
  "search r i prev input = Some m \<Longrightarrow> i \<le> m_index m \<and> m_index m \<le> m_end m"
  by (induction input arbitrary: i prev)
    (auto simp: Let_def split: list.splits, fastforce)

function remove_all :: "regex \<Rightarrow> jsstring \<Rightarrow> nat \<Rightarrow> jsstring" where
  "remove_all r input lastIndex =
     (case exec r input lastIndex of
        None \<Rightarrow> drop lastIndex input
      | Some m \<Rightarrow>
          take (m_index m - lastIndex) (drop lastIndex input)
            @ (if m_end m = m_index m then
                 take 1 (drop (m_end m) input) @ remove_all r input (m_end m + 1)
               else remove_all r input (m_end m)))"
  by pat_completeness auto
termination
  by (relation "measure (\<lambda>(r, input, lastIndex). Suc (length input) - lastIndex)")
    (auto simp: exec_def split: if_splits dest!: search_bounds)

declare remove_all.simps [simp del]

text \<open>\<open>findAssociatedComments\<close>: the line numbers are compared as numbers.\<close>

definition findAssociatedComments :: "nat \<Rightarrow> CommentInfo list \<Rightarrow> jsstring list" where
  "findAssociatedComments line found =
     map (\<lambda>c. trim (remove_all starsRegex (comment_content c) 0))
       (filter (\<lambda>c. int (comment_endLine c) = int line - 1 \<or> int (comment_endLine c) = int line - 2)
          found)"

text \<open>\<open>node.loc?.start.line || 0\<close> and \<open>node.loc?.end.line || 0\<close>\<close>

definition start_line :: "(nat \<times> nat) option \<Rightarrow> nat" where
  "start_line loc = (case loc of None \<Rightarrow> 0 | Some l \<Rightarrow> fst l)"

definition end_line :: "(nat \<times> nat) option \<Rightarrow> nat" where
  "end_line loc = (case loc of None \<Rightarrow> 0 | Some l \<Rightarrow> snd l)"

text \<open>\<open>extractClassInfo\<close>: the members that are properties, and those that are methods.\<close>

fun member_properties :: "class_member \<Rightarrow> PropertyInfo list" where
  "member_properties (ClassProperty key readonly annotation) =
     [\<lparr> prop_name = member_name key, prop_type = map_option extractTypeString annotation,
        prop_isOptional = False, prop_isReadonly = false_default readonly \<rparr>]"
| "member_properties other = []"

fun member_methods :: "class_member \<Rightarrow> MethodInfo list" where
  "member_methods (ClassMethod key params is_async is_static is_private accessibility returnType) =
     [\<lparr> method_name = member_name key, method_params = extractParams params,
        method_returnType = map_option extractTypeString returnType,
        method_isAsync = is_async, method_isStatic = is_static,
        visibility = (if is_private then Private
                      else (case accessibility of None \<Rightarrow> Public | Some v \<Rightarrow> v)) \<rparr>]"
| "member_methods other = []"

definition extractClassInfo :: "class_node \<Rightarrow> CommentInfo list \<Rightarrow> ClassInfo" where
  "extractClassInfo node found =
     \<lparr> class_name = (case cn_id node of None \<Rightarrow> js ''Anonymous'' | Some n \<Rightarrow> n),
       superClass = cn_superClass node,
       class_implements = map_option (map or_unknown) (cn_implements node),
       class_properties = concat (map member_properties (cn_body node)),
       class_methods = concat (map member_methods (cn_body node)),
       class_comments = Some (findAssociatedComments (start_line (cn_loc node)) found),
       class_startLine = start_line (cn_loc node),
       class_endLine = end_line (cn_loc node) \<rparr>"

text \<open>\<open>extractFunctionInfo\<close> and \<open>extractArrowFunctionInfo\<close>, which differ in the name.\<close>

definition extractFunctionInfo :: "jsstring \<Rightarrow> function_node \<Rightarrow> CommentInfo list \<Rightarrow> FunctionInfo" where
  "extractFunctionInfo n node found =
     \<lparr> fn_name = n, fn_params = extractParams (fnode_params node),
       fn_returnType = map_option extractTypeString (fnode_returnType node),
       fn_isAsync = fnode_async node, fn_isExported = False,
       fn_comments = Some (findAssociatedComments (start_line (fnode_loc node)) found),
       fn_startLine = start_line (fnode_loc node),
       fn_endLine = end_line (fnode_loc node) \<rparr>"

text \<open>\<open>extractInterfaceInfo\<close>\<close>

fun signature_properties :: "interface_member \<Rightarrow> PropertyInfo list" where
  "signature_properties (TSPropertySignature key optional readonly annotation) =
     [\<lparr> prop_name = or_unknown key, prop_type = map_option extractTypeString annotation,
        prop_isOptional = false_default optional, prop_isReadonly = false_default readonly \<rparr>]"
| "signature_properties other = []"

fun signature_methods :: "interface_member \<Rightarrow> MethodSignature list" where
  "signature_methods (TSMethodSignature key parameters annotation) =
     [\<lparr> sig_name = or_unknown key,
        sig_params = (case parameters of None \<Rightarrow> [] | Some ps \<Rightarrow> extractParams ps),
        sig_returnType = map_option extractTypeString annotation \<rparr>]"
| "signature_methods other = []"

definition extractInterfaceInfo :: "interface_node \<Rightarrow> CommentInfo list \<Rightarrow> InterfaceInfo" where
  "extractInterfaceInfo node found =
     \<lparr> iface_name = in_name node,
       iface_extends = map_option (map or_unknown) (in_extends node),
       iface_properties = concat (map signature_properties (in_body node)),
       iface_methods = concat (map signature_methods (in_body node)),
       iface_comments = Some (findAssociatedComments (start_line (in_loc node)) found),
       iface_startLine = start_line (in_loc node),
       iface_endLine = end_line (in_loc node) \<rparr>"

text \<open>The comments of the file as \<open>CommentInfo\<close>.\<close>

definition comment_info :: "babel_comment \<Rightarrow> CommentInfo" where
  "comment_info c =
     \<lparr> comment_type = (if is_CommentLine c then line_comment
                        else if startsWith (comment_value c) (js ''*'') then jsdoc_comment
                        else block_comment),
       comment_content = trim (comment_value c),
       comment_startLine = start_line (comment_loc c),
       comment_endLine = end_line (comment_loc c) \<rparr>"

text \<open>The export a declaration's parent stands for, if it is an export.\<close>

definition export_of :: "parent_kind \<Rightarrow> jsstring \<Rightarrow> ExportType \<Rightarrow> ExportInfo list" where
  "export_of parent n kind =
     (if parent = ExportDefaultParent then
        [\<lparr> export_name = n, export_isDefault = True, export_kind = kind \<rparr>]
      else if parent = ExportNamedParent then
        [\<lparr> export_name = n, export_isDefault = False, export_kind = kind \<rparr>]
      else [])"

fun import_names :: "import_specifier_node \<Rightarrow> jsstring list" where
  "import_names (ImportDefaultSpecifier n) = [n]"
| "import_names (ImportSpecifier n) = [n]"
| "import_names (ImportNamespaceSpecifier n) = [js ''* as '' @ n]"
| "import_names OtherImportSpecifier = []"

fun is_default_import :: "import_specifier_node \<Rightarrow> bool" where
  "is_default_import (ImportDefaultSpecifier n) = True"
| "is_default_import other = False"

text \<open>
  The declarators of a top-level variable declaration that bind a function: the
  functions pushed and the exports pushed, in the order of the declarators.
\<close>

definition declared_functions :: "declarator list \<Rightarrow> CommentInfo list \<Rightarrow> FunctionInfo list" where
  "declared_functions decls found =
     concat (map (\<lambda>d. case (decl_id d, decl_init d) of
                         (Some n, Some init) \<Rightarrow> [extractFunctionInfo n init found]
                       | other \<Rightarrow> [])
               decls)"

text \<open>One call of a visitor: the metadata as the call leaves it.\<close>

fun visitor :: "CodeMetadata \<Rightarrow> visit \<Rightarrow> CodeMetadata" where
  "visitor md (ImportDeclaration src specs) =
     md\<lparr> md_imports := md_imports md @
           [\<lparr> import_source = src, import_specifiers = concat (map import_names specs),
              isDefault = list_ex is_default_import specs \<rparr>] \<rparr>"
| "visitor md (ClassDeclaration node parent) =
     (let info = extractClassInfo node (md_comments md)
      in md\<lparr> md_classes := md_classes md @ [info],
             md_exports := md_exports md @ export_of parent (class_name info) export_class \<rparr>)"
| "visitor md (FunctionDeclaration node parent) =
     (case fnode_id node of
        None \<Rightarrow> md
      | Some n \<Rightarrow>
          (let info = extractFunctionInfo n node (md_comments md)
           in md\<lparr> md_functions := md_functions md @ [info],
                  md_exports := md_exports md @ export_of parent (fn_name info) export_function \<rparr>))"
| "visitor md (VariableDeclaration decls parent) =
     (if parent \<noteq> Program \<and> parent \<noteq> ExportNamedParent then md
      else
        (let infos = declared_functions decls (md_comments md)
         in md\<lparr> md_functions := md_functions md @ infos,
                md_exports := md_exports md @
                  (if parent = ExportNamedParent then
                     map (\<lambda>info. \<lparr> export_name = fn_name info, export_isDefault = False,
                                     export_kind = export_function \<rparr>) infos
                   else []) \<rparr>))"
| "visitor md (TSInterfaceDeclaration node parent) =
     (let info = extractInterfaceInfo node (md_comments md)
      in md\<lparr> md_interfaces := md_interfaces md @ [info],
             md_exports := md_exports md @
               (if parent = ExportNamedParent then
                  [\<lparr> export_name = iface_name info, export_isDefault = False,
                     export_kind = export_interface \<rparr>]
                else []) \<rparr>)"
| "visitor md (ExportDefaultDeclaration declaration) =
     (case declaration of
        None \<Rightarrow> md
      | Some n \<Rightarrow>
          md\<lparr> md_exports := md_exports md @
                [\<lparr> export_name = n, export_isDefault = True, export_kind = export_variable \<rparr>] \<rparr>)"
| "visitor md (ExportNamedDeclaration specs) =
     md\<lparr> md_exports := md_exports md @
           concat (map (\<lambda>s. case s of
                               None \<Rightarrow> []
                             | Some n \<Rightarrow> [\<lparr> export_name = n, export_isDefault = False,
                                            export_kind = export_variable \<rparr>])
                     specs) \<rparr>"

text \<open>
  \<open>parseJavaScript\<close>: whatever is raised inside the \<open>try\<close> block is caught and logged,
  and the metadata is returned as it stands.
\<close>

definition parseJavaScript :: "babel \<Rightarrow> jsstring \<Rightarrow> jsstring \<Rightarrow> jsstring \<Rightarrow> CodeMetadata" where
  "parseJavaScript parse_file code fileName lang =
     (let isTypeScript = (lang = js ''typescript'' \<or> endsWith fileName (js ''.ts'')
                          \<or> endsWith fileName (js ''.tsx''));
          metadata = empty_metadata fileName lang code
      in case parse_file code isTypeScript of
           Inl e \<Rightarrow> metadata
         | Inr ast \<Rightarrow>
             foldl visitor
               (case file_comments ast of
                  None \<Rightarrow> metadata
                | Some cs \<Rightarrow> metadata\<lparr> md_comments := map comment_info cs \<rparr>)
               (visits ast))"

section \<open>The analyzer's entry point\<close>

text \<open>
  \<open>s.toLowerCase()\<close> on the letters \<open>A\<close> to \<open>Z\<close>. (JavaScript also maps letters
  outside ASCII; none of them maps to a letter of the five extensions of the table.)
\<close>

definition toLowerCase :: "jsstring \<Rightarrow> jsstring" where
  "toLowerCase s = map (\<lambda>c. if 0x41 \<le> c \<and> c \<le> 0x5A then c + 0x20 else c) s"

definition EXTENSION_MAP :: "(jsstring \<times> jsstring) list" where
  "EXTENSION_MAP =
     [(js ''.js'', js ''javascript''), (js ''.jsx'', js ''javascript''),
      (js ''.ts'', js ''typescript''), (js ''.tsx'', js ''typescript''),
      (js ''.py'', js ''python'')]"

definition SUPPORTED_LANGUAGES :: "jsstring list" where
  "SUPPORTED_LANGUAGES = [js ''javascript'', js ''typescript'', js ''python'']"

definition getLanguageFromFileName :: "jsstring \<Rightarrow> jsstring option" where
  "getLanguageFromFileName fileName =
     map_of EXTENSION_MAP (toLowerCase (slice_from fileName (lastIndexOf fileName 0x2E)))"

definition isLanguageSupported :: "jsstring \<Rightarrow> bool" where
  "isLanguageSupported lang = (lang \<in> set SUPPORTED_LANGUAGES)"

text \<open>
  \<open>parseCode(code, fileName, language?)\<close>: \<open>language || getLanguageFromFileName(fileName)\<close>
  picks the analyzer.
\<close>

definition parseCode ::
  "babel \<Rightarrow> jsstring \<Rightarrow> jsstring \<Rightarrow> jsstring option \<Rightarrow> CodeMetadata outcome" where
  "parseCode parse_file code fileName lang =
     (let detectedLanguage = (if truthy_str lang then lang else getLanguageFromFileName fileName)
      in if \<not> truthy_str detectedLanguage \<or> \<not> isLanguageSupported (the detectedLanguage) then
           Returns (empty_metadata fileName
                      (if truthy_str detectedLanguage then the detectedLanguage else unknown) code)
         else if the detectedLanguage = js ''javascript'' \<or> the detectedLanguage = js ''typescript''
           then Returns (parseJavaScript parse_file code fileName (the detectedLanguage))
         else if the detectedLanguage = js ''python'' then parsePython code fileName
         else Returns (empty_metadata fileName (the detectedLanguage) code))"

section \<open>Prompt templates\<close>

datatype DocumentType = requirements | design | api | test_doc

datatype InputType = code_input | text_input

text \<open>\<open>SYSTEM_PROMPTS\<close>: the four system instructions, as their UTF-16 code units.\<close>

definition system_requirements :: jsstring where
  "system_requirements =
     [0x4F60, 0x662F, 0x4E00, 0x4E2A, 0x4E13, 0x4E1A, 0x7684, 0x8F6F, 0x4EF6, 0x9700]
       @ [0x6C42, 0x5206, 0x6790, 0x5E08, 0x3002, 0x4F60, 0x7684, 0x4EFB, 0x52A1, 0x662F]
       @ [0x6839, 0x636E, 0x63D0, 0x4F9B, 0x7684, 0x4EE3, 0x7801, 0x6216, 0x63CF, 0x8FF0]
       @ [0xFF0C, 0x751F, 0x6210, 0x6E05, 0x6670, 0x3001, 0x5B8C, 0x6574, 0x7684, 0x8F6F]
       @ [0x4EF6, 0x9700, 0x6C42, 0x6587, 0x6863, 0x3002] @ js ''\<newline>\<newline>''
       @ [0x6587, 0x6863, 0x5E94, 0x5305, 0x542B, 0xFF1A] @ js ''\<newline>1. ''
       @ [0x9879, 0x76EE, 0x6982, 0x8FF0] @ js ''\<newline>2. ''
       @ [0x529F, 0x80FD, 0x9700, 0x6C42, 0x5217, 0x8868] @ js ''\<newline>3. ''
       @ [0x7528, 0x6237, 0x6545, 0x4E8B] @ js ''\<newline>4. ''
       @ [0x975E, 0x529F, 0x80FD, 0x9700, 0x6C42, 0xFF08, 0x5982, 0x6709, 0xFF09]
       @ js ''\<newline>5. '' @ [0x4E1A, 0x52A1, 0x89C4, 0x5219] @ js ''\<newline>\<newline>''
       @ [0x8BF7, 0x4F7F, 0x7528] @ js '' Markdown ''
       @ [0x683C, 0x5F0F, 0xFF0C, 0x786E, 0x4FDD, 0x6587, 0x6863, 0x4E13, 0x4E1A, 0x3001]
       @ [0x6613, 0x8BFB, 0x3002]"

definition system_design :: jsstring where
  "system_design =
     [0x4F60, 0x662F, 0x4E00, 0x4E2A, 0x8D44, 0x6DF1, 0x7684, 0x8F6F, 0x4EF6, 0x67B6]
       @ [0x6784, 0x5E08, 0x3002, 0x4F60, 0x7684, 0x4EFB, 0x52A1, 0x662F, 0x6839, 0x636E]
       @ [0x63D0, 0x4F9B, 0x7684, 0x4EE3, 0x7801, 0x6216, 0x63CF, 0x8FF0, 0xFF0C, 0x751F]
       @ [0x6210, 0x4E13, 0x4E1A, 0x7684, 0x8F6F, 0x4EF6, 0x8BBE, 0x8BA1, 0x6587, 0x6863] @ [0x3002]
       @ js ''\<newline>\<newline>'' @ [0x6587, 0x6863, 0x5E94, 0x5305, 0x542B, 0xFF1A]
       @ js ''\<newline>1. '' @ [0x7CFB, 0x7EDF, 0x6982, 0x8FF0] @ js ''\<newline>2. ''
       @ [0x67B6, 0x6784, 0x8BBE, 0x8BA1] @ js ''\<newline>3. '' @ [0x6A21, 0x5757, 0x8BBE, 0x8BA1]
       @ js ''\<newline>4. '' @ [0x7C7B] @ js ''/'' @ [0x7EC4, 0x4EF6, 0x8BBE, 0x8BA1]
       @ js ''\<newline>5. '' @ [0x6570, 0x636E, 0x6D41, 0x7A0B] @ js ''\<newline>6. ''
       @ [0x63A5, 0x53E3, 0x8BBE, 0x8BA1] @ js ''\<newline>\<newline>''
       @ [0x5982, 0x679C, 0x9002, 0x7528, 0xFF0C, 0x8BF7, 0x4F7F, 0x7528] @ js '' Mermaid ''
       @ [0x8BED, 0x6CD5, 0x6DFB, 0x52A0, 0x67B6, 0x6784, 0x56FE, 0x6216, 0x6D41, 0x7A0B]
       @ [0x56FE, 0x3002, 0x8BF7, 0x4F7F, 0x7528] @ js '' Markdown '' @ [0x683C, 0x5F0F, 0x3002]"

definition system_api :: jsstring where
  "system_api =
     [0x4F60, 0x662F, 0x4E00, 0x4E2A] @ js ''API''
       @ [0x6587, 0x6863, 0x4E13, 0x5BB6, 0x3002, 0x4F60, 0x7684, 0x4EFB, 0x52A1, 0x662F]
       @ [0x6839, 0x636E, 0x63D0, 0x4F9B, 0x7684, 0x4EE3, 0x7801, 0x6216, 0x63CF, 0x8FF0]
       @ [0xFF0C, 0x751F, 0x6210, 0x8BE6, 0x7EC6, 0x7684] @ js ''API''
       @ [0x63A5, 0x53E3, 0x6587, 0x6863, 0x3002] @ js ''\<newline>\<newline>''
       @ [0x6587, 0x6863, 0x5E94, 0x5305, 0x542B, 0xFF1A] @ js ''\<newline>1. API ''
       @ [0x6982, 0x8FF0] @ js ''\<newline>2. '' @ [0x63A5, 0x53E3, 0x5217, 0x8868]
       @ js ''\<newline>3. ''
       @ [0x6BCF, 0x4E2A, 0x63A5, 0x53E3, 0x7684, 0x8BE6, 0x7EC6, 0x8BF4, 0x660E, 0xFF1A]
       @ js ''\<newline>   - '' @ [0x63A5, 0x53E3, 0x8DEF, 0x5F84] @ js ''\<newline>   - ''
       @ [0x8BF7, 0x6C42, 0x65B9, 0x6CD5] @ js ''\<newline>   - ''
       @ [0x8BF7, 0x6C42, 0x53C2, 0x6570] @ js ''\<newline>   - ''
       @ [0x54CD, 0x5E94, 0x683C, 0x5F0F] @ js ''\<newline>   - ''
       @ [0x793A, 0x4F8B, 0x4EE3, 0x7801] @ js ''\<newline>4. ''
       @ [0x9519, 0x8BEF, 0x7801, 0x8BF4, 0x660E] @ js ''\<newline>\<newline>''
       @ [0x8BF7, 0x4F7F, 0x7528] @ js '' Markdown ''
       @ [0x683C, 0x5F0F, 0xFF0C, 0x5FC5, 0x8981, 0x65F6, 0x4F7F, 0x7528, 0x8868, 0x683C]
       @ [0x5C55, 0x793A, 0x53C2, 0x6570, 0x4FE1, 0x606F, 0x3002]"

definition system_test :: jsstring where
  "system_test =
     [0x4F60, 0x662F, 0x4E00, 0x4E2A, 0x8F6F, 0x4EF6, 0x6D4B, 0x8BD5, 0x4E13, 0x5BB6]
       @ [0x3002, 0x4F60, 0x7684, 0x4EFB, 0x52A1, 0x662F, 0x6839, 0x636E, 0x63D0, 0x4F9B]
       @ [0x7684, 0x4EE3, 0x7801, 0x6216, 0x63CF, 0x8FF0, 0xFF0C, 0x751F, 0x6210, 0x5B8C]
       @ [0x6574, 0x7684, 0x6D4B, 0x8BD5, 0x6587, 0x6863, 0x3002] @ js ''\<newline>\<newline>''
       @ [0x6587, 0x6863, 0x5E94, 0x5305, 0x542B, 0xFF1A] @ js ''\<newline>1. ''
       @ [0x6D4B, 0x8BD5, 0x6982, 0x8FF0] @ js ''\<newline>2. '' @ [0x6D4B, 0x8BD5, 0x8303, 0x56F4]
       @ js ''\<newline>3. '' @ [0x6D4B, 0x8BD5, 0x7528, 0x4F8B, 0x5217, 0x8868, 0xFF1A]
       @ js ''\<newline>   - '' @ [0x7528, 0x4F8B] @ js ''ID\<newline>   - ''
       @ [0x6D4B, 0x8BD5, 0x573A, 0x666F] @ js ''\<newline>   - ''
       @ [0x524D, 0x7F6E, 0x6761, 0x4EF6] @ js ''\<newline>   - ''
       @ [0x6D4B, 0x8BD5, 0x6B65, 0x9AA4] @ js ''\<newline>   - ''
       @ [0x9884, 0x671F, 0x7ED3, 0x679C] @ js ''\<newline>4. ''
       @ [0x8FB9, 0x754C, 0x6761, 0x4EF6, 0x6D4B, 0x8BD5] @ js ''\<newline>5. ''
       @ [0x5F02, 0x5E38, 0x60C5, 0x51B5, 0x6D4B, 0x8BD5] @ js ''\<newline>\<newline>''
       @ [0x8BF7, 0x4F7F, 0x7528] @ js '' Markdown ''
       @ [0x683C, 0x5F0F, 0xFF0C, 0x4F7F, 0x7528, 0x8868, 0x683C, 0x5C55, 0x793A, 0x6D4B]
       @ [0x8BD5, 0x7528, 0x4F8B, 0x3002]"

fun SYSTEM_PROMPTS :: "DocumentType \<Rightarrow> jsstring" where
  "SYSTEM_PROMPTS requirements = system_requirements"
| "SYSTEM_PROMPTS design = system_design"
| "SYSTEM_PROMPTS api = system_api"
| "SYSTEM_PROMPTS test_doc = system_test"

text \<open>\<open>getTaskDescription\<close>\<close>

fun getTaskDescription :: "DocumentType \<Rightarrow> jsstring" where
  "getTaskDescription requirements =
     [0x8BF7, 0x6839, 0x636E, 0x4EE5, 0x4E0B, 0x5185, 0x5BB9, 0x751F, 0x6210, 0x4E00, 0x4EFD, 0x4E13, 0x4E1A, 0x7684] @ js ''**'' @ [0x8F6F, 0x4EF6, 0x9700, 0x6C42, 0x6587, 0x6863] @ js ''**'' @ [0x3002]"
| "getTaskDescription design =
     [0x8BF7, 0x6839, 0x636E, 0x4EE5, 0x4E0B, 0x5185, 0x5BB9, 0x751F, 0x6210, 0x4E00, 0x4EFD, 0x4E13, 0x4E1A, 0x7684] @ js ''**'' @ [0x8F6F, 0x4EF6, 0x8BBE, 0x8BA1, 0x6587, 0x6863] @ js ''**'' @ [0x3002]"
| "getTaskDescription api =
     [0x8BF7, 0x6839, 0x636E, 0x4EE5, 0x4E0B, 0x5185, 0x5BB9, 0x751F, 0x6210, 0x4E00, 0x4EFD, 0x8BE6, 0x7EC6, 0x7684] @ js ''**API'' @ [0x63A5, 0x53E3, 0x6587, 0x6863] @ js ''**'' @ [0x3002]"
| "getTaskDescription test_doc =
     [0x8BF7, 0x6839, 0x636E, 0x4EE5, 0x4E0B, 0x5185, 0x5BB9, 0x751F, 0x6210, 0x4E00, 0x4EFD, 0x5B8C, 0x6574, 0x7684] @ js ''**'' @ [0x8F6F, 0x4EF6, 0x6D4B, 0x8BD5, 0x6587, 0x6863] @ js ''**'' @ [0x3002]"

text \<open>\<open>getOutputRequirements\<close>\<close>

definition output_requirements :: jsstring where
  "output_requirements =
     js ''\<newline>1. '' @ [0x4F7F, 0x7528] @ js '' Markdown '' @ [0x683C, 0x5F0F]
       @ js ''\<newline>2. ''
       @ [0x5305, 0x542B, 0x9879, 0x76EE, 0x6982, 0x8FF0, 0x3001, 0x529F, 0x80FD, 0x9700]
       @ [0x6C42, 0x3001, 0x7528, 0x6237, 0x6545, 0x4E8B] @ js ''\<newline>3. ''
       @ [0x9700, 0x6C42, 0x63CF, 0x8FF0, 0x6E05, 0x6670, 0x3001, 0x53EF, 0x6D4B, 0x91CF]
       @ js ''\<newline>4. ''
       @ [0x4E3A, 0x6BCF, 0x4E2A, 0x529F, 0x80FD, 0x9700, 0x6C42, 0x5206, 0x914D, 0x4F18]
       @ [0x5148, 0x7EA7, 0xFF08, 0x9AD8] @ js ''/'' @ [0x4E2D] @ js ''/'' @ [0x4F4E, 0xFF09]
       @ js ''\<newline>5. '' @ [0x4F7F, 0x7528, 0x7F16, 0x53F7, 0x4FBF, 0x4E8E, 0x8FFD, 0x8E2A]"

definition output_design :: jsstring where
  "output_design =
     js ''\<newline>1. '' @ [0x4F7F, 0x7528] @ js '' Markdown '' @ [0x683C, 0x5F0F]
       @ js ''\<newline>2. ''
       @ [0x5305, 0x542B, 0x7CFB, 0x7EDF, 0x67B6, 0x6784, 0x3001, 0x6A21, 0x5757, 0x8BBE]
       @ [0x8BA1, 0x3001, 0x7C7B, 0x8BBE, 0x8BA1] @ js ''\<newline>3. '' @ [0x4F7F, 0x7528]
       @ js '' Mermaid ''
       @ [0x8BED, 0x6CD5, 0x6DFB, 0x52A0, 0x67B6, 0x6784, 0x56FE, 0x6216, 0x7C7B, 0x56FE]
       @ js ''\<newline>4. ''
       @ [0x8BF4, 0x660E, 0x5404, 0x6A21, 0x5757, 0x4E4B, 0x95F4, 0x7684, 0x4F9D, 0x8D56]
       @ [0x5173, 0x7CFB] @ js ''\<newline>5. ''
       @ [0x5305, 0x542B, 0x8BBE, 0x8BA1, 0x51B3, 0x7B56, 0x548C, 0x7406, 0x7531, 0x8BF4] @ [0x660E]"

definition output_api :: jsstring where
  "output_api =
     js ''\<newline>1. '' @ [0x4F7F, 0x7528] @ js '' Markdown '' @ [0x683C, 0x5F0F]
       @ js ''\<newline>2. ''
       @ [0x6BCF, 0x4E2A, 0x63A5, 0x53E3, 0x5305, 0x542B, 0x5B8C, 0x6574, 0x7684, 0x53C2]
       @ [0x6570, 0x8BF4, 0x660E] @ js ''\<newline>3. ''
       @ [0x4F7F, 0x7528, 0x8868, 0x683C, 0x5C55, 0x793A, 0x53C2, 0x6570, 0x4FE1, 0x606F]
       @ js ''\<newline>4. ''
       @ [0x63D0, 0x4F9B, 0x8BF7, 0x6C42, 0x548C, 0x54CD, 0x5E94, 0x7684, 0x793A, 0x4F8B]
       @ js ''\<newline>5. '' @ [0x5305, 0x542B, 0x9519, 0x8BEF, 0x5904, 0x7406, 0x8BF4, 0x660E]"

definition output_test :: jsstring where
  "output_test =
     js ''\<newline>1. '' @ [0x4F7F, 0x7528] @ js '' Markdown '' @ [0x683C, 0x5F0F]
       @ js ''\<newline>2. ''
       @ [0x6D4B, 0x8BD5, 0x7528, 0x4F8B, 0x4F7F, 0x7528, 0x8868, 0x683C, 0x5F62, 0x5F0F]
       @ js ''\<newline>3. ''
       @ [0x5305, 0x542B, 0x6B63, 0x5E38, 0x6D41, 0x7A0B, 0x548C, 0x5F02, 0x5E38, 0x6D41]
       @ [0x7A0B, 0x6D4B, 0x8BD5] @ js ''\<newline>4. ''
       @ [0x8986, 0x76D6, 0x8FB9, 0x754C, 0x6761, 0x4EF6] @ js ''\<newline>5. ''
       @ [0x6BCF, 0x4E2A, 0x7528, 0x4F8B, 0x6709, 0x660E, 0x786E, 0x7684, 0x9884, 0x671F]
       @ [0x7ED3, 0x679C]"

fun getOutputRequirements :: "DocumentType \<Rightarrow> jsstring" where
  "getOutputRequirements requirements = output_requirements"
| "getOutputRequirements design = output_design"
| "getOutputRequirements api = output_api"
| "getOutputRequirements test_doc = output_test"

text \<open>\<open>getDocTypeName\<close>\<close>

fun getDocTypeName :: "DocumentType \<Rightarrow> jsstring" where
  "getDocTypeName requirements = [0x9700, 0x6C42, 0x6587, 0x6863]"
| "getDocTypeName design = [0x8BBE, 0x8BA1, 0x6587, 0x6863]"
| "getDocTypeName api = js ''API'' @ [0x6587, 0x6863]"
| "getDocTypeName test_doc = [0x6D4B, 0x8BD5, 0x6587, 0x6863]"

text \<open>
  \<open>generateMetadataSummary\<close>: the lines pushed for a class, a function and an
  interface, and the summary.
\<close>

definition class_summary :: "ClassInfo \<Rightarrow> jsstring list" where
  "class_summary cls =
     (js ''  - '' @ [0x60] @ class_name cls @ [0x60]
        @ (if truthy_str (superClass cls) then js '' ('' @ [0x7EE7, 0x627F, 0x81EA] @ js '' '' @ the (superClass cls) @ js '')'' else []))
     # (if class_methods cls \<noteq> [] then
          [js ''    - '' @ [0x65B9, 0x6CD5] @ js '': '' @ join (js '', '') (map method_name (class_methods cls))]
        else [])"

definition function_summary :: "FunctionInfo \<Rightarrow> jsstring" where
  "function_summary fn =
     js ''  - '' @ [0x60] @ fn_name fn @ js ''('' @ join (js '', '') (map p_name (fn_params fn)) @ js '')''
       @ [0x60]
       @ (if truthy_str (fn_returnType fn) then js '' '' @ [0x2192] @ js '' '' @ the (fn_returnType fn) else [])"

definition interface_summary :: "InterfaceInfo \<Rightarrow> jsstring" where
  "interface_summary iface = js ''  - '' @ [0x60] @ iface_name iface @ [0x60]"

definition generateMetadataSummary :: "CodeMetadata \<Rightarrow> jsstring" where
  "generateMetadataSummary metadata =
     join [0x0A]
       ([js ''- **'' @ [0x6587, 0x4EF6, 0x540D] @ js ''**: '' @ md_fileName metadata,
         js ''- **'' @ [0x7F16, 0x7A0B, 0x8BED, 0x8A00] @ js ''**: '' @ md_language metadata]
        @ (if md_classes metadata \<noteq> [] then
             (js ''- **'' @ [0x7C7B, 0x5B9A, 0x4E49] @ js ''**: '' @ show_nat (length (md_classes metadata)) @ js '' '' @ [0x4E2A])
             # concat (map class_summary (md_classes metadata))
           else [])
        @ (if md_functions metadata \<noteq> [] then
             (js ''- **'' @ [0x51FD, 0x6570, 0x5B9A, 0x4E49] @ js ''**: '' @ show_nat (length (md_functions metadata)) @ js '' '' @ [0x4E2A])
             # map function_summary (md_functions metadata)
           else [])
        @ (if md_interfaces metadata \<noteq> [] then
             (js ''- **'' @ [0x63A5, 0x53E3, 0x5B9A, 0x4E49] @ js ''**: '' @ show_nat (length (md_interfaces metadata)) @ js '' '' @ [0x4E2A])
             # map interface_summary (md_interfaces metadata)
           else [])
        @ (if md_imports metadata \<noteq> [] then
             [js ''- **'' @ [0x6A21, 0x5757, 0x5BFC, 0x5165] @ js ''**: '' @ show_nat (length (md_imports metadata)) @ js '' '' @ [0x4E2A]]
           else []))"

text \<open>The headings of the user prompt's sections.\<close>

definition code_heading :: jsstring where
  "code_heading = js ''## '' @ [0x4EE3, 0x7801, 0x5185, 0x5BB9]"

definition structure_heading :: jsstring where
  "structure_heading = js ''## '' @ [0x4EE3, 0x7801, 0x7ED3, 0x6784, 0x5206, 0x6790]"

definition description_heading :: jsstring where
  "description_heading = js ''## '' @ [0x9700, 0x6C42, 0x63CF, 0x8FF0]"

definition context_heading :: jsstring where
  "context_heading = js ''## '' @ [0x8865, 0x5145, 0x8BF4, 0x660E]"

definition output_heading :: jsstring where
  "output_heading = js ''## '' @ [0x8F93, 0x51FA, 0x8981, 0x6C42]"

text \<open>\<open>generateUserPrompt\<close>: the parts pushed, joined by line feeds.\<close>

definition generateUserPrompt ::
  "DocumentType \<Rightarrow> InputType \<Rightarrow> jsstring \<Rightarrow> CodeMetadata option \<Rightarrow> jsstring option \<Rightarrow> jsstring" where
  "generateUserPrompt docType inputType content metadata additionalContext =
     join [0x0A]
       ([getTaskDescription docType, []]
        @ (if inputType = code_input then
             [code_heading,
              [0x60, 0x60, 0x60] @ (case metadata of None \<Rightarrow> [] | Some md \<Rightarrow> md_language md),
              content,
              [0x60, 0x60, 0x60],
              []]
             @ (case metadata of
                  None \<Rightarrow> []
                | Some md \<Rightarrow> [structure_heading, generateMetadataSummary md, []])
           else [description_heading, content, []])
        @ (if truthy_str additionalContext then [context_heading, the additionalContext, []] else [])
        @ [output_heading, getOutputRequirements docType])"

section \<open>Prompt builder\<close>

record GenerateRequest =
  req_type :: InputType
  req_docType :: DocumentType
  req_content :: jsstring
  req_fileName :: "jsstring option"
  req_language :: "jsstring option"
  req_additionalContext :: "jsstring option"

record BuiltPrompt =
  systemPrompt :: jsstring
  userPrompt :: jsstring
  prompt_metadata :: "CodeMetadata option"

text \<open>
  \<open>PromptBuilder.buildFromRequest\<close>. The analyzer is called when the request is code
  and has a file name; what it throws is not caught here.
\<close>

definition buildFromRequest :: "babel \<Rightarrow> PromptBuilder \<Rightarrow> GenerateRequest \<Rightarrow> BuiltPrompt outcome" where
  "buildFromRequest parse_file this request =
     bind (if req_type request = code_input \<and> truthy_str (req_fileName request) then
             bind (parseCode parse_file (truncateCode this (req_content request))
                     (the (req_fileName request)) (req_language request))
               (\<lambda>md. Returns (Some md))
           else Returns None)
       (\<lambda>metadata.
          Returns
            \<lparr> systemPrompt = SYSTEM_PROMPTS (req_docType request),
              userPrompt =
                generateUserPrompt (req_docType request) (req_type request)
                  (if req_type request = code_input then truncateCode this (req_content request)
                   else req_content request)
                  metadata (req_additionalContext request),
              prompt_metadata = metadata \<rparr>)"

section \<open>The mock generator\<close>

text \<open>\<open>getMockContent\<close>: the canned documents, as their UTF-16 code units.\<close>

definition mock_requirements :: jsstring where
  "mock_requirements =
     js ''# '' @ [0x8F6F, 0x4EF6, 0x9700, 0x6C42, 0x6587, 0x6863]
       @ js ''\<newline>\<newline>## 1. '' @ [0x9879, 0x76EE, 0x6982, 0x8FF0]
       @ js ''\<newline>\<newline>'' @ [0x672C, 0x9879, 0x76EE, 0x662F, 0x4E00, 0x4E2A]
       @ js '' AI ''
       @ [0x9A71, 0x52A8, 0x7684, 0x6587, 0x6863, 0x751F, 0x6210, 0x7CFB, 0x7EDF, 0xFF0C]
       @ [0x65E8, 0x5728, 0x5E2E, 0x52A9, 0x5F00, 0x53D1, 0x8005, 0x81EA, 0x52A8, 0x751F]
       @ [0x6210, 0x8F6F, 0x4EF6, 0x5DE5, 0x7A0B, 0x6587, 0x6863, 0x3002]
       @ js ''\<newline>\<newline>## 2. '' @ [0x529F, 0x80FD, 0x9700, 0x6C42]
       @ js ''\<newline>\<newline>### 2.1 '' @ [0x4EE3, 0x7801, 0x5206, 0x6790, 0x529F, 0x80FD]
       @ js ''\<newline>- **'' @ [0x4F18, 0x5148, 0x7EA7] @ js ''**: '' @ [0x9AD8]
       @ js ''\<newline>- **'' @ [0x63CF, 0x8FF0] @ js ''**: ''
       @ [0x7CFB, 0x7EDF, 0x80FD, 0x591F, 0x89E3, 0x6790, 0x7528, 0x6237, 0x4E0A, 0x4F20]
       @ [0x7684, 0x6E90, 0x4EE3, 0x7801, 0x6587, 0x4EF6] @ js ''\<newline>- **''
       @ [0x9A8C, 0x6536, 0x6807, 0x51C6] @ js ''**: '' @ [0x652F, 0x6301] @ js '' JavaScript''
       @ [0x3001] @ js ''TypeScript'' @ [0x3001] @ js ''Python ''
       @ [0x7B49, 0x4E3B, 0x6D41, 0x8BED, 0x8A00] @ js ''\<newline>\<newline>### 2.2 ''
       @ [0x6587, 0x6863, 0x751F, 0x6210, 0x529F, 0x80FD] @ js ''\<newline>- **''
       @ [0x4F18, 0x5148, 0x7EA7] @ js ''**: '' @ [0x9AD8] @ js ''\<newline>- **''
       @ [0x63CF, 0x8FF0] @ js ''**: '' @ [0x57FA, 0x4E8E] @ js '' AI ''
       @ [0x5927, 0x6A21, 0x578B, 0x81EA, 0x52A8, 0x751F, 0x6210, 0x6587, 0x6863]
       @ js ''\<newline>- **'' @ [0x9A8C, 0x6536, 0x6807, 0x51C6] @ js ''**: ''
       @ [0x652F, 0x6301, 0x9700, 0x6C42, 0x6587, 0x6863, 0x3001, 0x8BBE, 0x8BA1, 0x6587]
       @ [0x6863, 0x3001] @ js ''API'' @ [0x6587, 0x6863, 0x3001, 0x6D4B, 0x8BD5, 0x6587, 0x6863]
       @ js ''\<newline>\<newline>## 3. '' @ [0x7528, 0x6237, 0x6545, 0x4E8B]
       @ js ''\<newline>\<newline>**US-001**: ''
       @ [0x4F5C, 0x4E3A, 0x5F00, 0x53D1, 0x8005, 0xFF0C, 0x6211, 0x5E0C, 0x671B, 0x4E0A]
       @ [0x4F20, 0x4EE3, 0x7801, 0x6587, 0x4EF6, 0x540E, 0x81EA, 0x52A8, 0x751F, 0x6210]
       @ js ''API''
       @ [0x6587, 0x6863, 0xFF0C, 0x4EE5, 0x4FBF, 0x51CF, 0x5C11, 0x6587, 0x6863, 0x7F16]
       @ [0x5199, 0x65F6, 0x95F4, 0x3002] @ js ''\<newline>\<newline>**US-002**: ''
       @ [0x4F5C, 0x4E3A, 0x9879, 0x76EE, 0x7ECF, 0x7406, 0xFF0C, 0x6211, 0x5E0C, 0x671B]
       @ [0x6839, 0x636E, 0x9700, 0x6C42, 0x63CF, 0x8FF0, 0x751F, 0x6210, 0x89C4, 0x8303]
       @ [0x7684, 0x9700, 0x6C42, 0x6587, 0x6863, 0xFF0C, 0x4EE5, 0x4FBF, 0x7EDF, 0x4E00]
       @ [0x56E2, 0x961F, 0x6587, 0x6863, 0x6807, 0x51C6, 0x3002]
       @ js ''\<newline>\<newline>## 4. '' @ [0x975E, 0x529F, 0x80FD, 0x9700, 0x6C42]
       @ js ''\<newline>\<newline>- ''
       @ [0x7CFB, 0x7EDF, 0x54CD, 0x5E94, 0x65F6, 0x95F4, 0x5E94, 0x5C0F, 0x4E8E] @ js '' 30 ''
       @ [0x79D2] @ js ''\<newline>- '' @ [0x652F, 0x6301, 0x6700, 0x5927] @ js '' 100KB ''
       @ [0x7684, 0x4EE3, 0x7801, 0x6587, 0x4EF6] @ js ''\<newline>- ''
       @ [0x754C, 0x9762, 0x5E94, 0x652F, 0x6301, 0x4E2D, 0x6587]"

definition mock_design :: jsstring where
  "mock_design =
     js ''# '' @ [0x8F6F, 0x4EF6, 0x8BBE, 0x8BA1, 0x6587, 0x6863]
       @ js ''\<newline>\<newline>## 1. '' @ [0x7CFB, 0x7EDF, 0x6982, 0x8FF0]
       @ js ''\<newline>\<newline>'' @ [0x672C, 0x7CFB, 0x7EDF, 0x91C7, 0x7528] @ js '' Next.js ''
       @ [0x5168, 0x6808, 0x67B6, 0x6784, 0xFF0C, 0x524D, 0x540E, 0x7AEF, 0x4E00, 0x4F53]
       @ [0x5316, 0x5F00, 0x53D1, 0x3002] @ js ''\<newline>\<newline>## 2. ''
       @ [0x7CFB, 0x7EDF, 0x67B6, 0x6784] @ js ''\<newline>\<newline>'' @ [0x0060, 0x0060, 0x0060]
       @ js ''mermaid\<newline>graph TB\<newline>    subgraph Frontend['' @ [0x524D, 0x7AEF, 0x5C42]
       @ js '']\<newline>        UI['' @ [0x7528, 0x6237, 0x754C, 0x9762]
       @ js '']\<newline>        Upload['' @ [0x6587, 0x4EF6, 0x4E0A, 0x4F20]
       @ js '']\<newline>        Preview['' @ [0x6587, 0x6863, 0x9884, 0x89C8]
       @ js '']\<newline>    end\<newline>    \<newline>    subgraph Backend[''
       @ [0x540E, 0x7AEF, 0x5C42]
       @ js '']\<newline>        API[API Routes]\<newline>        Parser[''
       @ [0x4EE3, 0x7801, 0x89E3, 0x6790, 0x5668] @ js '']\<newline>        Generator[''
       @ [0x6587, 0x6863, 0x751F, 0x6210, 0x5668]
       @ js '']\<newline>    end\<newline>    \<newline>    subgraph External[''
       @ [0x5916, 0x90E8, 0x670D, 0x52A1] @ js '']\<newline>        LLM[''
       @ [0x5927, 0x6A21, 0x578B]
       @ js ''API]\<newline>    end\<newline>    \<newline>    UI --> API\<newline>    Upload --> API\<newline>    API --> Parser\<newline>    Parser --> Generator\<newline>    Generator --> LLM\<newline>    LLM --> Preview\<newline>''
       @ [0x0060, 0x0060, 0x0060] @ js ''\<newline>\<newline>## 3. ''
       @ [0x6A21, 0x5757, 0x8BBE, 0x8BA1] @ js ''\<newline>\<newline>### 3.1 ''
       @ [0x4EE3, 0x7801, 0x89E3, 0x6790, 0x6A21, 0x5757] @ js ''\<newline>- ''
       @ [0x804C, 0x8D23, 0xFF1A, 0x89E3, 0x6790, 0x6E90, 0x4EE3, 0x7801, 0xFF0C, 0x63D0]
       @ [0x53D6, 0x7ED3, 0x6784, 0x4FE1, 0x606F] @ js ''\<newline>- '' @ [0x4F9D, 0x8D56, 0xFF1A]
       @ js ''@babel/parser, tree-sitter\<newline>\<newline>### 3.2 Prompt ''
       @ [0x5DE5, 0x7A0B, 0x6A21, 0x5757] @ js ''\<newline>- ''
       @ [0x804C, 0x8D23, 0xFF1A, 0x6784, 0x5EFA, 0x9AD8, 0x8D28, 0x91CF, 0x7684]
       @ js '' Prompt\<newline>- ''
       @ [0x4F9D, 0x8D56, 0xFF1A, 0x4EE3, 0x7801, 0x89E3, 0x6790, 0x6A21, 0x5757]
       @ js ''\<newline>\<newline>### 3.3 LLM '' @ [0x9002, 0x914D, 0x5668, 0x6A21, 0x5757]
       @ js ''\<newline>- '' @ [0x804C, 0x8D23, 0xFF1A, 0x5C01, 0x88C5, 0x5927, 0x6A21, 0x578B]
       @ js '' API '' @ [0x8C03, 0x7528] @ js ''\<newline>- ''
       @ [0x4F9D, 0x8D56, 0xFF1A, 0x667A, 0x8C31] @ js '' GLM / ''
       @ [0x6587, 0x5FC3, 0x4E00, 0x8A00] @ js '' API''"

definition mock_api :: jsstring where
  "mock_api =
     js ''# API '' @ [0x63A5, 0x53E3, 0x6587, 0x6863] @ js ''\<newline>\<newline>## 1. ''
       @ [0x6982, 0x8FF0] @ js ''\<newline>\<newline>''
       @ [0x672C, 0x6587, 0x6863, 0x63CF, 0x8FF0, 0x4E86, 0x6587, 0x6863, 0x751F, 0x6210]
       @ [0x7CFB, 0x7EDF, 0x7684] @ js '' REST API '' @ [0x63A5, 0x53E3, 0x3002]
       @ js ''\<newline>\<newline>## 2. '' @ [0x63A5, 0x53E3, 0x5217, 0x8868]
       @ js ''\<newline>\<newline>### 2.1 '' @ [0x89E3, 0x6790, 0x4EE3, 0x7801]
       @ js ''\<newline>\<newline>**'' @ [0x8BF7, 0x6C42] @ js ''**\<newline>- **''
       @ [0x8DEF, 0x5F84] @ js ''**: '' @ [0x0060] @ js ''POST /api/parse-code'' @ [0x0060]
       @ js ''\<newline>- **Content-Type**: '' @ [0x0060] @ js ''application/json'' @ [0x0060]
       @ js ''\<newline>\<newline>**'' @ [0x53C2, 0x6570] @ js ''**\<newline>\<newline>| ''
       @ [0x53C2, 0x6570, 0x540D] @ js '' | '' @ [0x7C7B, 0x578B] @ js '' | '' @ [0x5FC5, 0x586B]
       @ js '' | '' @ [0x8BF4, 0x660E]
       @ js '' |\<newline>|-------|------|-----|------|\<newline>| code | string | '' @ [0x662F]
       @ js '' | '' @ [0x6E90, 0x4EE3, 0x7801, 0x5185, 0x5BB9]
       @ js '' |\<newline>| fileName | string | '' @ [0x662F] @ js '' | ''
       @ [0x6587, 0x4EF6, 0x540D] @ js '' |\<newline>\<newline>**''
       @ [0x54CD, 0x5E94, 0x793A, 0x4F8B] @ js ''**\<newline>'' @ [0x0060, 0x0060, 0x0060]
       @ js ''json\<newline>{\<newline>  '' @ [0x0022] @ js ''success'' @ [0x0022]
       @ js '': true,\<newline>  '' @ [0x0022] @ js ''data'' @ [0x0022] @ js '': {\<newline>    ''
       @ [0x0022] @ js ''classes'' @ [0x0022] @ js '': [...],\<newline>    '' @ [0x0022]
       @ js ''functions'' @ [0x0022] @ js '': [...],\<newline>    '' @ [0x0022] @ js ''imports''
       @ [0x0022] @ js '': [...]\<newline>  }\<newline>}\<newline>'' @ [0x0060, 0x0060, 0x0060]
       @ js ''\<newline>\<newline>### 2.2 '' @ [0x751F, 0x6210, 0x6587, 0x6863]
       @ js ''\<newline>\<newline>**'' @ [0x8BF7, 0x6C42] @ js ''**\<newline>- **''
       @ [0x8DEF, 0x5F84] @ js ''**: '' @ [0x0060] @ js ''POST /api/generate-doc'' @ [0x0060]
       @ js ''\<newline>- **Content-Type**: '' @ [0x0060] @ js ''application/json'' @ [0x0060]
       @ js ''\<newline>\<newline>**'' @ [0x53C2, 0x6570] @ js ''**\<newline>\<newline>| ''
       @ [0x53C2, 0x6570, 0x540D] @ js '' | '' @ [0x7C7B, 0x578B] @ js '' | '' @ [0x5FC5, 0x586B]
       @ js '' | '' @ [0x8BF4, 0x660E]
       @ js '' |\<newline>|-------|------|-----|------|\<newline>| type | string | '' @ [0x662F]
       @ js '' | '' @ [0x8F93, 0x5165, 0x7C7B, 0x578B]
       @ js '': code/text |\<newline>| docType | string | '' @ [0x662F] @ js '' | ''
       @ [0x6587, 0x6863, 0x7C7B, 0x578B] @ js '' |\<newline>| content | string | '' @ [0x662F]
       @ js '' | '' @ [0x5185, 0x5BB9] @ js '' |''"

definition mock_test :: jsstring where
  "mock_test =
     js ''# '' @ [0x8F6F, 0x4EF6, 0x6D4B, 0x8BD5, 0x6587, 0x6863]
       @ js ''\<newline>\<newline>## 1. '' @ [0x6D4B, 0x8BD5, 0x6982, 0x8FF0]
       @ js ''\<newline>\<newline>''
       @ [0x672C, 0x6587, 0x6863, 0x5B9A, 0x4E49, 0x4E86, 0x6587, 0x6863, 0x751F, 0x6210]
       @ [0x7CFB, 0x7EDF, 0x7684, 0x6D4B, 0x8BD5, 0x7528, 0x4F8B, 0x3002]
       @ js ''\<newline>\<newline>## 2. '' @ [0x6D4B, 0x8BD5, 0x8303, 0x56F4]
       @ js ''\<newline>\<newline>- '' @ [0x4EE3, 0x7801, 0x89E3, 0x6790, 0x529F, 0x80FD]
       @ js ''\<newline>- '' @ [0x6587, 0x6863, 0x751F, 0x6210, 0x529F, 0x80FD]
       @ js ''\<newline>- '' @ [0x7528, 0x6237, 0x754C, 0x9762, 0x529F, 0x80FD]
       @ js ''\<newline>\<newline>## 3. '' @ [0x6D4B, 0x8BD5, 0x7528, 0x4F8B]
       @ js ''\<newline>\<newline>| '' @ [0x7528, 0x4F8B] @ js ''ID | '' @ [0x6A21, 0x5757]
       @ js '' | '' @ [0x573A, 0x666F] @ js '' | '' @ [0x524D, 0x7F6E, 0x6761, 0x4EF6] @ js '' | ''
       @ [0x6D4B, 0x8BD5, 0x6B65, 0x9AA4] @ js '' | '' @ [0x9884, 0x671F, 0x7ED3, 0x679C]
       @ js '' |\<newline>|-------|------|-----|---------|---------|---------|\<newline>| TC-001 | ''
       @ [0x4EE3, 0x7801, 0x89E3, 0x6790] @ js '' | '' @ [0x89E3, 0x6790] @ js ''JS''
       @ [0x6587, 0x4EF6] @ js '' | '' @ [0x7CFB, 0x7EDF, 0x6B63, 0x5E38, 0x8FD0, 0x884C]
       @ js '' | 1.'' @ [0x4E0A, 0x4F20] @ js ''JS'' @ [0x6587, 0x4EF6] @ js '' 2.''
       @ [0x70B9, 0x51FB, 0x89E3, 0x6790] @ js '' | ''
       @ [0x6210, 0x529F, 0x63D0, 0x53D6, 0x7C7B, 0x548C, 0x51FD, 0x6570, 0x4FE1, 0x606F]
       @ js '' |\<newline>| TC-002 | '' @ [0x4EE3, 0x7801, 0x89E3, 0x6790] @ js '' | ''
       @ [0x89E3, 0x6790, 0x7A7A, 0x6587, 0x4EF6] @ js '' | ''
       @ [0x7CFB, 0x7EDF, 0x6B63, 0x5E38, 0x8FD0, 0x884C] @ js '' | 1.''
       @ [0x4E0A, 0x4F20, 0x7A7A, 0x6587, 0x4EF6] @ js '' 2.'' @ [0x70B9, 0x51FB, 0x89E3, 0x6790]
       @ js '' | '' @ [0x63D0, 0x793A, 0x6587, 0x4EF6, 0x4E3A, 0x7A7A]
       @ js '' |\<newline>| TC-003 | '' @ [0x6587, 0x6863, 0x751F, 0x6210] @ js '' | ''
       @ [0x751F, 0x6210] @ js ''API'' @ [0x6587, 0x6863] @ js '' | ''
       @ [0x5DF2, 0x89E3, 0x6790, 0x4EE3, 0x7801] @ js '' | 1.'' @ [0x9009, 0x62E9] @ js ''API''
       @ [0x6587, 0x6863] @ js '' 2.'' @ [0x70B9, 0x51FB, 0x751F, 0x6210] @ js '' | ''
       @ [0x6210, 0x529F, 0x751F, 0x6210, 0x6587, 0x6863] @ js '' |\<newline>| TC-004 | ''
       @ [0x6587, 0x6863, 0x751F, 0x6210] @ js '' | '' @ [0x65E0, 0x7F51, 0x7EDC, 0x8FDE, 0x63A5]
       @ js '' | '' @ [0x65AD, 0x5F00, 0x7F51, 0x7EDC] @ js '' | 1.''
       @ [0x70B9, 0x51FB, 0x751F, 0x6210] @ js '' | ''
       @ [0x663E, 0x793A, 0x7F51, 0x7EDC, 0x9519, 0x8BEF, 0x63D0, 0x793A]
       @ js '' |\<newline>\<newline>## 4. '' @ [0x8FB9, 0x754C, 0x6D4B, 0x8BD5]
       @ js ''\<newline>\<newline>- '' @ [0x8D85, 0x5927, 0x6587, 0x4EF6, 0xFF08] @ js ''>100KB''
       @ [0xFF09, 0x5904, 0x7406] @ js ''\<newline>- ''
       @ [0x7279, 0x6B8A, 0x5B57, 0x7B26, 0x5904, 0x7406] @ js ''\<newline>- ''
       @ [0x5E76, 0x53D1, 0x8BF7, 0x6C42, 0x5904, 0x7406]"

fun getMockContent :: "DocumentType \<Rightarrow> jsstring" where
  "getMockContent requirements = mock_requirements"
| "getMockContent design = mock_design"
| "getMockContent api = mock_api"
| "getMockContent test_doc = mock_test"

record GenerateResult =
  result_id :: jsstring
  result_docType :: DocumentType
  result_title :: jsstring
  result_content :: jsstring
  result_metadata :: "CodeMetadata option"
  result_createdAt :: jsstring
  result_inputType :: InputType

text \<open>
  \<open>for (const word of words) { await ...; onChunk(word); }\<close>: the chunks handed to the
  callback so far, and from the words that are left the chunks handed over in the end,
  with the error the callback threw, if it did. The callback is required here.
\<close>

fun emit_words ::
  "(nat \<Rightarrow> jsval \<Rightarrow> js_error option) \<Rightarrow> jsval list \<Rightarrow> jsstring list \<Rightarrow> jsval list \<times> js_error option" where
  "emit_words onChunk handed [] = (handed, None)"
| "emit_words onChunk handed (word # rest) =
     (case onChunk (length handed) (JStr word) of
        Some e \<Rightarrow> (handed @ [JStr word], Some e)
      | None \<Rightarrow> emit_words onChunk (handed @ [JStr word]) rest)"

text \<open>
  \<open>MockDocGenerator.generateStream\<close>: \<open>uuid\<close> and \<open>now\<close> are what \<open>uuidv4()\<close> and
  \<open>new Date().toISOString()\<close> return. It yields the result or the error, and the chunks
  the callback received.
\<close>

definition mock_generateStream ::
  "jsstring \<Rightarrow> jsstring \<Rightarrow> GenerateRequest \<Rightarrow> (nat \<Rightarrow> jsval \<Rightarrow> js_error option)
     \<Rightarrow> (js_error + GenerateResult) \<times> jsval list" where
  "mock_generateStream uuid now request onChunk =
     (let content = getMockContent (req_docType request);
          words = split_units content
      in case emit_words onChunk [] words of
           (handed, Some e) \<Rightarrow> (Inl e, handed)
         | (handed, None) \<Rightarrow>
             (Inr \<lparr> result_id = uuid, result_docType = req_docType request,
                    result_title = [0x793A, 0x4F8B] @ getDocTypeName (req_docType request),
                    result_content = content, result_metadata = None,
                    result_createdAt = now, result_inputType = req_type request \<rparr>,
              handed))"

section \<open>Streamed content and delivered chunks\<close>

text \<open>The accumulated text is the concatenation of the chunks handed to the callback.\<close>

definition in_step :: "stream_state \<Rightarrow> bool" where
  "in_step st = (fullContent st = concat (map to_string (calls st)))"

section \<open>Sample engines and provider frames\<close>

text \<open>
  An engine for worked examples: its \<open>JSON.parse\<close> knows the texts of the table below
  and rejects every other text. \<open>quoted s\<close> is \<open>s\<close> in double quotes.
\<close>

definition quoted :: "string \<Rightarrow> jsstring" where
  "quoted s = [0x22] @ js s @ [0x22]"

definition zhipu_frame_Hel :: jsstring where
  "zhipu_frame_Hel =
     js ''{'' @ quoted ''choices'' @ js '':[{'' @ quoted ''delta'' @ js '':{'' @ quoted ''content''
       @ js '':'' @ quoted ''Hel'' @ js ''}}]}''"

definition zhipu_frame_lo :: jsstring where
  "zhipu_frame_lo =
     js ''{'' @ quoted ''choices'' @ js '':[{'' @ quoted ''delta'' @ js '':{'' @ quoted ''content''
       @ js '':'' @ quoted ''lo'' @ js ''}}]}''"

definition oauth_frame_Hel :: jsstring where
  "oauth_frame_Hel = js ''{'' @ quoted ''result'' @ js '':'' @ quoted ''Hel'' @ js ''}''"

definition oauth_frame_lo :: jsstring where
  "oauth_frame_lo = js ''{'' @ quoted ''result'' @ js '':'' @ quoted ''lo'' @ js ''}''"

definition token_body :: jsstring where
  "token_body =
     js ''{'' @ quoted ''access_token'' @ js '':'' @ quoted ''t0k'' @ js '','' @ quoted ''expires_in''
       @ js '':2592000}''"

definition completion_body :: jsstring where
  "completion_body = js ''{'' @ quoted ''result'' @ js '':'' @ quoted ''Hello'' @ js ''}''"

definition xfyun_frame_Hel :: jsstring where
  "xfyun_frame_Hel =
     js ''{'' @ quoted ''header'' @ js '':{'' @ quoted ''code'' @ js '':0,'' @ quoted ''status''
       @ js '':1},'' @ quoted ''payload'' @ js '':{'' @ quoted ''choices'' @ js '':{'' @ quoted ''text''
       @ js '':[{'' @ quoted ''content'' @ js '':'' @ quoted ''Hel'' @ js ''}]}}}''"

definition xfyun_frame_lo :: jsstring where
  "xfyun_frame_lo =
     js ''{'' @ quoted ''header'' @ js '':{'' @ quoted ''code'' @ js '':0,'' @ quoted ''status''
       @ js '':2},'' @ quoted ''payload'' @ js '':{'' @ quoted ''choices'' @ js '':{'' @ quoted ''text''
       @ js '':[{'' @ quoted ''content'' @ js '':'' @ quoted ''lo'' @ js ''}]}}}''"

definition delta_of :: "string \<Rightarrow> jsval" where
  "delta_of s =
     JObj [(js ''choices'', JArr [JObj [(js ''delta'', JObj [(js ''content'', JStr (js s))])]])]"

definition xfyun_value :: "int \<Rightarrow> string \<Rightarrow> jsval" where
  "xfyun_value st s =
     JObj [(js ''header'', JObj [(js ''code'', JNum 0), (js ''status'', JNum st)]),
           (js ''payload'', JObj [(js ''choices'',
              JObj [(js ''text'', JArr [JObj [(js ''content'', JStr (js s))]])])])]"

definition sample_json :: "(jsstring \<times> jsval) list" where
  "sample_json =
     [(zhipu_frame_Hel, delta_of ''Hel''),
      (zhipu_frame_lo, delta_of ''lo''),
      (oauth_frame_Hel, JObj [(js ''result'', JStr (js ''Hel''))]),
      (oauth_frame_lo, JObj [(js ''result'', JStr (js ''lo''))]),
      (token_body, JObj [(js ''access_token'', JStr (js ''t0k'')), (js ''expires_in'', JNum 2592000)]),
      (completion_body, JObj [(js ''result'', JStr (js ''Hello''))]),
      (xfyun_frame_Hel, xfyun_value 1 ''Hel''),
      (xfyun_frame_lo, xfyun_value 2 ''lo'')]"

definition sample_engine :: engine where
  "sample_engine =
     \<lparr> JSON_parse = (\<lambda>s. case map_of sample_json s of
                             None \<Rightarrow> Inl (js ''Unexpected token'')
                           | Some v \<Rightarrow> Inr v),
       StringToNumber = (\<lambda>s. None) \<rparr>"

text \<open>
  The message V8 gives the \<open>SyntaxError\<close> of \<open>JSON.parse\<close> for a short text that is
  not JSON, from Node.js 20 on: \<open>Unexpected token\<close>, the first code unit in single
  quotes, then the text in double quotes and \<open>is not valid JSON\<close>. And an engine that
  answers every text so; only its answer to a text that is not JSON is used.
\<close>

definition not_valid_json :: "jsstring \<Rightarrow> jsstring" where
  "not_valid_json s =
     js ''Unexpected token '' @ [0x27] @ take 1 s @ [0x27] @ js '', '' @ [0x22] @ s @ [0x22]
       @ js '' is not valid JSON''"

definition quoting_engine :: engine where
  "quoting_engine = \<lparr> JSON_parse = (\<lambda>s. Inl (not_valid_json s)), StringToNumber = (\<lambda>s. None) \<rparr>"

text \<open>A callback that returns, and an SSE response with the given reads.\<close>

definition quiet :: "nat \<Rightarrow> jsval \<Rightarrow> js_error option" where
  "quiet n chunk = None"

definition streaming :: "jsstring list \<Rightarrow> js_error + http_response" where
  "streaming pieces =
     Inr \<lparr> ok = True, status = 200, body_text = [], body_reads = Some (map Chunk pieces) \<rparr>"

definition answering :: "jsstring \<Rightarrow> js_error + http_response" where
  "answering answer = Inr \<lparr> ok = True, status = 200, body_text = answer, body_reads = None \<rparr>"

text \<open>A request, a configuration of the token-exchanging adapter and its environment.\<close>

definition sample_request :: GenerateRequest where
  "sample_request =
     \<lparr> req_type = text_input, req_docType = api, req_content = js ''an API'', req_fileName = None,
       req_language = None, req_additionalContext = None \<rparr>"

definition sample_config :: LLMConfig where
  "sample_config =
     \<lparr> provider = ernie, apiKey = js ''key:secret'', model = None, secretKey = None, appId = None,
       apiSecret = None \<rparr>"

definition sample_io :: "int \<Rightarrow> js_error + http_response \<Rightarrow> generate_io" where
  "sample_io now chat =
     \<lparr> token_answers = \<lparr> now_at_check = now, exchange_response = answering token_body,
                          now_at_store = now + 40 \<rparr>,
       chat_response = chat \<rparr>"

section \<open>Inputs of the analyzer and of the prompt builder\<close>

text \<open>A Babel that rejects every text. The Python analyzer does not call it.\<close>

definition rejecting :: babel where
  "rejecting code isTypeScript = Inl (SyntaxError (js ''Unexpected token''))"

text \<open>The class of the specification's scenario.\<close>

definition scenario_source :: jsstring where
  "scenario_source = js ''class Foo(Bar):\<newline>    def __init__(self):\<newline>        self.x = 1\<newline>''"

text \<open>
  A Python docstring with nothing between its quotes (six U+0022), alone and as the
  docstring of a function.
\<close>

definition empty_docstring :: jsstring where
  "empty_docstring = [0x22, 0x22, 0x22, 0x22, 0x22, 0x22]"

definition documented_function :: jsstring where
  "documented_function = js ''def f():\<newline>    '' @ empty_docstring @ js ''\<newline>    return 1\<newline>''"

text \<open>A module of one function, what the analyzer returns for it, and a code request for it.\<close>

definition small_module :: jsstring where
  "small_module = js ''def f(a):\<newline>    return a\<newline>''"

definition small_module_metadata :: CodeMetadata where
  "small_module_metadata =
     \<lparr> md_fileName = js ''f.py'', md_language = js ''python'', md_classes = [],
       md_functions =
         [\<lparr> fn_name = js ''f'',
            fn_params = [\<lparr> p_name = js ''a'', p_type = None, p_isOptional = False,
                           p_defaultValue = None \<rparr>],
            fn_returnType = None, fn_isAsync = False, fn_isExported = True, fn_comments = None,
            fn_startLine = 1, fn_endLine = 3 \<rparr>],
       md_interfaces = [], md_imports = [], md_exports = [], md_comments = [],
       rawCode = small_module \<rparr>"

definition code_request :: "jsstring option \<Rightarrow> GenerateRequest" where
  "code_request name =
     \<lparr> req_type = code_input, req_docType = api, req_content = small_module, req_fileName = name,
       req_language = None, req_additionalContext = None \<rparr>"

section \<open>Properties of the string operations\<close>

lemma lastIndexOf_bounds: "-1 \<le> lastIndexOf s c \<and> lastIndexOf s c < int (length s)"
  by (induction s) (auto simp: Let_def)

lemma slice_zero: "0 \<le> m \<Longrightarrow> slice s 0 m = take (nat m) s"
  by (simp add: slice_def slice_index_def min_def)

lemma split_on_nonempty: "split_on c s \<noteq> []"
  by (induction s) (auto split: list.splits)

lemma split_on_no_sep: "c \<notin> set a \<Longrightarrow> split_on c a = [a]"
  by (induction a) auto

lemma split_on_append: "c \<notin> set a \<Longrightarrow> split_on c (a @ c # rest) = a # split_on c rest"
  by (induction a) auto

lemma split_on_parts: "p \<in> set (split_on c s) \<Longrightarrow> c \<notin> set p"
  by (induction s arbitrary: p) (auto split: if_splits list.splits)

lemma split_on_join: "join [c] (split_on c s) = s"
proof (induction s)
  case Nil
  show ?case by simp
next
  case (Cons x xs)
  obtain p ps where ps: "split_on c xs = p # ps"
    using split_on_nonempty[of c xs] by (cases "split_on c xs") auto
  show ?case
  proof (cases "x = c")
    case True
    with Cons ps show ?thesis by simp
  next
    case False
    with Cons ps show ?thesis by (cases ps) auto
  qed
qed

lemma split_on_three:
  "length (split_on c s) = 3 \<longleftrightarrow>
     (\<exists>a k t. s = a @ c # k @ c # t \<and> c \<notin> set a \<and> c \<notin> set k \<and> c \<notin> set t)"
proof
  assume l: "length (split_on c s) = 3"
  then obtain a k t where p: "split_on c s = [a, k, t]"
    by (auto simp: length_Suc_conv numeral_3_eq_3)
  have "s = join [c] [a, k, t]" using split_on_join[of c s] p by simp
  moreover have "c \<notin> set a" "c \<notin> set k" "c \<notin> set t"
    using split_on_parts[of _ c s] p by auto
  ultimately show "\<exists>a k t. s = a @ c # k @ c # t \<and> c \<notin> set a \<and> c \<notin> set k \<and> c \<notin> set t"
    by auto
next
  assume "\<exists>a k t. s = a @ c # k @ c # t \<and> c \<notin> set a \<and> c \<notin> set k \<and> c \<notin> set t"
  then show "length (split_on c s) = 3"
    by (auto simp: split_on_append split_on_no_sep)
qed

lemma indexOf_unit: "indexOf s [c] \<noteq> None \<longleftrightarrow> c \<in> set s"
  by (induction s) (auto simp: startsWith_def)

lemma includes_colon: "js_includes s (js '':'') \<longleftrightarrow> 0x3A \<in> set s"
  using indexOf_unit[of s "0x3A"] by (simp add: js_includes_def js_def)

section \<open>Truncation stays within the budget\<close>

lemma length_truncation_marker: "length truncation_marker = 21"
  by (simp add: truncation_marker_def js_def)

text \<open>
  Claim C5, as stated, at a negative budget: with \<open>maxCodeLength = -1\<close> the three code units
  \<open>abc\<close> are over the budget, \<open>slice(0, -1)\<close> keeps \<open>ab\<close>, and the result is 23 code
  units long, more than the budget plus the 21 of the marker.
\<close>

theorem truncateCode_negative_budget:
  "\<not> int (length (truncateCode (new_PromptBuilder (default_config\<lparr>maxCodeLength := Some (- 1)\<rparr>))
                      (js ''abc'')))
       \<le> - 1 + int (length truncation_marker)"
  by (simp add: truncateCode_def new_PromptBuilder_def default_config_def js_def slice_def
      slice_index_def Let_def truncation_marker_def)

text \<open>
  Claim C5, amended: for a budget that is not negative (the default is 50000), code within the
  budget is returned unchanged; code longer than the budget becomes a prefix of at most
  budget-many code units of it followed by the truncation marker, so the result is at
  most the budget plus the marker long and ends with the marker.
\<close>

theorem truncateCode_budget:
  assumes "0 \<le> cfg_maxCodeLength this"
  shows "cfg_maxCodeLength (new_PromptBuilder default_config) = 50000
       \<and> (int (length code) \<le> cfg_maxCodeLength this \<longrightarrow> truncateCode this code = code)
       \<and> (cfg_maxCodeLength this < int (length code) \<longrightarrow>
            int (length (truncateCode this code))
              \<le> cfg_maxCodeLength this + int (length truncation_marker)
          \<and> endsWith (truncateCode this code) truncation_marker
          \<and> (\<exists>k. int k \<le> cfg_maxCodeLength this
                 \<and> truncateCode this code = take k code @ truncation_marker))"
proof (intro conjI impI)
  show "cfg_maxCodeLength (new_PromptBuilder default_config) = 50000"
    by (simp add: new_PromptBuilder_def default_config_def)
next
  assume "int (length code) \<le> cfg_maxCodeLength this"
  then show "truncateCode this code = code" by (simp add: truncateCode_def)
next
  assume over: "cfg_maxCodeLength this < int (length code)"
  define m where "m = nat (cfg_maxCodeLength this)"
  define truncated where "truncated = take m code"
  define n where "n = lastIndexOf truncated 0x0A"
  have tr: "slice code 0 (cfg_maxCodeLength this) = truncated"
    using assms by (simp add: slice_zero truncated_def m_def)
  have len_tr: "length truncated = m"
    using over assms by (simp add: truncated_def m_def)
  have nb: "n < int m"
    using lastIndexOf_bounds[of truncated "0x0A"] len_tr by (simp add: n_def)
  have res: "truncateCode this code =
      (if n > 0 then take (nat n) truncated else truncated) @ truncation_marker"
    using over tr by (simp add: truncateCode_def Let_def n_def slice_zero)
  have pre: "(if n > 0 then take (nat n) truncated else truncated)
      = take (if n > 0 then nat n else m) code"
    using nb by (auto simp: truncated_def min_def)
  have kb: "int (if n > 0 then nat n else m) \<le> cfg_maxCodeLength this"
    using nb assms by (auto simp: m_def)
  show "\<exists>k. int k \<le> cfg_maxCodeLength this
      \<and> truncateCode this code = take k code @ truncation_marker"
    using res pre kb by metis
  show "int (length (truncateCode this code))
      \<le> cfg_maxCodeLength this + int (length truncation_marker)"
    using res pre kb by (auto simp: min_def)
  show "endsWith (truncateCode this code) truncation_marker"
    unfolding res by (simp add: endsWith_def)
qed

theorem truncateCode_budget_witness:
  "(0::int) \<le> cfg_maxCodeLength (new_PromptBuilder (default_config\<lparr>maxCodeLength := Some 5\<rparr>))
   \<and> truncateCode (new_PromptBuilder (default_config\<lparr>maxCodeLength := Some 5\<rparr>))
        (js ''ab\<newline>cdefg'') = js ''ab'' @ truncation_marker
   \<and> endsWith (truncateCode (new_PromptBuilder (default_config\<lparr>maxCodeLength := Some 5\<rparr>))
        (js ''ab\<newline>cdefg'')) truncation_marker
   \<and> truncateCode (new_PromptBuilder (default_config\<lparr>maxCodeLength := Some 5\<rparr>))
        (js ''abcde'') = js ''abcde''"
  using truncateCode_budget
    [of "new_PromptBuilder (default_config\<lparr>maxCodeLength := Some 5\<rparr>)" "js ''ab\<newline>cdefg''"]
  by (simp add: truncateCode_def new_PromptBuilder_def default_config_def js_def slice_def
      slice_index_def Let_def endsWith_def)

section \<open>Backend C resolves its credentials or fails\<close>

lemma format_error_names_format: "js_includes xfyun_format_error xfyun_format"
  by (simp add: js_includes_def xfyun_format_error_def xfyun_format_def js_def startsWith_def)

lemma missing_error_names_format: "js_includes xfyun_missing_error xfyun_format"
  by (simp add: js_includes_def xfyun_missing_error_def xfyun_format_def js_def startsWith_def)

text \<open>
  Claim C8. \<open>parseConfig\<close>, which is all the constructor does and makes no request, returns
  credentials exactly when the three separate fields are all non-empty, or the
  \<open>apiKey\<close> field is three colon-free parts joined by two colons. The separate fields
  win when both forms are there; the joined form yields its three parts. In every other
  case it fails with an \<open>Error\<close> whose message contains the expected format
  \<open>APPID:APIKey:APISecret\<close>.
\<close>

theorem parseConfig_resolves:
  "((\<exists>creds. parseConfig config = Inr creds) \<longleftrightarrow>
      separate_fields config \<or>
      (\<exists>a k t. apiKey config = a @ 0x3A # k @ 0x3A # t
          \<and> 0x3A \<notin> set a \<and> 0x3A \<notin> set k \<and> 0x3A \<notin> set t))
   \<and> (separate_fields config \<longrightarrow>
        parseConfig config = Inr \<lparr> xf_appId = the (appId config), xf_apiKey = apiKey config,
                                   xf_apiSecret = the (apiSecret config) \<rparr>)
   \<and> (\<not> separate_fields config \<and> apiKey config = a @ 0x3A # k @ 0x3A # t
          \<and> 0x3A \<notin> set a \<and> 0x3A \<notin> set k \<and> 0x3A \<notin> set t \<longrightarrow>
        parseConfig config = Inr \<lparr> xf_appId = a, xf_apiKey = k, xf_apiSecret = t \<rparr>)
   \<and> ((\<nexists>creds. parseConfig config = Inr creds) \<longrightarrow>
        (\<exists>msg. parseConfig config = Inl (Error msg) \<and> js_includes msg xfyun_format))"
proof -
  let ?triple = "\<exists>a k t. apiKey config = a @ 0x3A # k @ 0x3A # t
          \<and> 0x3A \<notin> set a \<and> 0x3A \<notin> set k \<and> 0x3A \<notin> set t"
  have t3: "?triple \<longleftrightarrow> length (split_on 0x3A (apiKey config)) = 3"
    using split_on_three[of "0x3A" "apiKey config"] by simp
  have tc: "?triple \<Longrightarrow> 0x3A \<in> set (apiKey config)" by auto
  have parts: "\<not> separate_fields config \<and> apiKey config = a @ 0x3A # k @ 0x3A # t
          \<and> 0x3A \<notin> set a \<and> 0x3A \<notin> set k \<and> 0x3A \<notin> set t \<longrightarrow>
        parseConfig config = Inr \<lparr> xf_appId = a, xf_apiKey = k, xf_apiSecret = t \<rparr>"
    by (auto simp: parseConfig_def separate_fields_def Let_def includes_colon
        split_on_append split_on_no_sep)
  have rest: "((\<exists>creds. parseConfig config = Inr creds) \<longleftrightarrow> separate_fields config \<or> ?triple)
   \<and> (separate_fields config \<longrightarrow>
        parseConfig config = Inr \<lparr> xf_appId = the (appId config), xf_apiKey = apiKey config,
                                   xf_apiSecret = the (apiSecret config) \<rparr>)
   \<and> ((\<nexists>creds. parseConfig config = Inr creds) \<longrightarrow>
        (\<exists>msg. parseConfig config = Inl (Error msg) \<and> js_includes msg xfyun_format))"
  proof (cases "separate_fields config")
    case True
    then show ?thesis by (simp add: parseConfig_def separate_fields_def)
  next
    case sep: False
    show ?thesis
    proof (cases "?triple")
      case True
      then have "apiKey config \<noteq> []" "js_includes (apiKey config) (js '':'')"
        using tc by (auto simp: includes_colon)
      with True sep show ?thesis
        unfolding t3 by (auto simp: parseConfig_def separate_fields_def Let_def)
    next
      case False
      with sep show ?thesis
        unfolding t3
        by (auto simp: parseConfig_def separate_fields_def Let_def
              format_error_names_format missing_error_names_format)
    qed
  qed
  from rest parts show ?thesis by blast
qed

theorem parseConfig_resolves_witness:
  "parseConfig \<lparr> provider = xfyun, apiKey = js ''12345678:abcdefgh:ijklmnop'', model = None,
       secretKey = None, appId = None, apiSecret = None \<rparr>
     = Inr \<lparr> xf_appId = js ''12345678'', xf_apiKey = js ''abcdefgh'', xf_apiSecret = js ''ijklmnop'' \<rparr>
   \<and> parseConfig \<lparr> provider = xfyun, apiKey = js ''k'', model = None,
       secretKey = None, appId = Some (js ''a''), apiSecret = Some (js ''s'') \<rparr>
     = Inr \<lparr> xf_appId = js ''a'', xf_apiKey = js ''k'', xf_apiSecret = js ''s'' \<rparr>
   \<and> (\<exists>msg. parseConfig \<lparr> provider = xfyun, apiKey = js ''a:b'', model = None,
       secretKey = None, appId = None, apiSecret = None \<rparr> = Inl (Error msg)
       \<and> js_includes msg xfyun_format)"
proof (intro conjI)
  let ?c1 = "\<lparr> provider = xfyun, apiKey = js ''12345678:abcdefgh:ijklmnop'', model = None,
       secretKey = None, appId = None, apiSecret = None \<rparr>"
  let ?c2 = "\<lparr> provider = xfyun, apiKey = js ''k'', model = None,
       secretKey = None, appId = Some (js ''a''), apiSecret = Some (js ''s'') \<rparr>"
  let ?c3 = "\<lparr> provider = xfyun, apiKey = js ''a:b'', model = None,
       secretKey = None, appId = None, apiSecret = None \<rparr>"
  show "parseConfig ?c1 = Inr \<lparr> xf_appId = js ''12345678'', xf_apiKey = js ''abcdefgh'',
      xf_apiSecret = js ''ijklmnop'' \<rparr>"
    using parseConfig_resolves[of ?c1 "js ''12345678''" "js ''abcdefgh''" "js ''ijklmnop''"]
    by (simp add: separate_fields_def truthy_str_def js_def)
  show "parseConfig ?c2 = Inr \<lparr> xf_appId = js ''a'', xf_apiKey = js ''k'', xf_apiSecret = js ''s'' \<rparr>"
    using parseConfig_resolves[of ?c2]
    by (simp add: separate_fields_def truthy_str_def js_def)
  have "\<nexists>creds. parseConfig ?c3 = Inr creds"
    by (simp add: parseConfig_def truthy_str_def js_def js_includes_def startsWith_def Let_def)
  then show "\<exists>msg. parseConfig ?c3 = Inl (Error msg) \<and> js_includes msg xfyun_format"
    using parseConfig_resolves[of ?c3] by blast
qed

section \<open>The extracted block is the indentation-bounded range\<close>

lemma block_scan_takeWhile: "block_scan k ls = takeWhile (in_block k) ls"
  by (induction ls) (auto simp: in_block_def)

text \<open>
  Claim C3. For a valid 0-based header index, \<open>extractPythonBlock\<close> returns the \<open>n \<ge> 1\<close>
  consecutive lines that start at the header. Every line after the header in that range
  is blank or indented strictly deeper than the header, so no scanned blank line is
  left out and no non-blank line at or below the header's indent is in the block but
  the header. When the range stops before the end of the input, the line right after it
  is non-blank and indented no deeper than the header: it ends the block and is not
  part of it.
\<close>

theorem extractPythonBlock_range:
  assumes "startIndex < length lines"
  shows "\<exists>n. extractPythonBlock lines startIndex = Inr (take n (drop startIndex lines))
           \<and> 1 \<le> n \<and> startIndex + n \<le> length lines
           \<and> hd (take n (drop startIndex lines)) = lines ! startIndex
           \<and> (\<forall>j. 1 \<le> j \<and> j < n \<longrightarrow>
                  blank (lines ! (startIndex + j))
                  \<or> indent_of (lines ! startIndex) < indent_of (lines ! (startIndex + j)))
           \<and> (startIndex + n < length lines \<longrightarrow>
                  \<not> blank (lines ! (startIndex + n))
                  \<and> indent_of (lines ! (startIndex + n)) \<le> indent_of (lines ! startIndex))"
proof -
  define k where "k = indent_of (lines ! startIndex)"
  define rest where "rest = drop (Suc startIndex) lines"
  define m where "m = length (takeWhile (in_block k) rest)"
  have dr: "drop startIndex lines = lines ! startIndex # rest"
    using assms by (simp add: rest_def Cons_nth_drop_Suc)
  have m_le: "m \<le> length rest" by (simp add: m_def length_takeWhile_le)
  have tw: "takeWhile (in_block k) rest = take m rest"
    unfolding m_def by (rule takeWhile_eq_take)
  have res: "extractPythonBlock lines startIndex = Inr (take (Suc m) (drop startIndex lines))"
  proof -
    have "drop (startIndex + 1) lines = rest" by (simp add: rest_def)
    then have "block_scan k (drop (startIndex + 1) lines) = take m rest"
      by (simp only: block_scan_takeWhile tw)
    then show ?thesis
      using assms by (simp add: extractPythonBlock_def Let_def dr k_def)
  qed
  have nth_rest: "\<And>j. j < length rest \<Longrightarrow> rest ! j = lines ! (startIndex + Suc j)"
    by (simp add: rest_def)
  have inside: "\<And>j. 1 \<le> j \<and> j < Suc m \<Longrightarrow> in_block k (lines ! (startIndex + j))"
  proof -
    fix j assume j: "1 \<le> j \<and> j < Suc m"
    then obtain i where i: "j = Suc i" "i < m" by (cases j) auto
    have "in_block k (takeWhile (in_block k) rest ! i)"
      using i(2) by (metis m_def nth_mem set_takeWhileD)
    moreover have "takeWhile (in_block k) rest ! i = rest ! i"
      using i(2) by (simp add: m_def takeWhile_nth)
    ultimately show "in_block k (lines ! (startIndex + j))"
      using i m_le nth_rest[of i] by simp
  qed
  have stop: "startIndex + Suc m < length lines
      \<Longrightarrow> \<not> in_block k (lines ! (startIndex + Suc m))"
  proof -
    assume "startIndex + Suc m < length lines"
    then have lt: "m < length rest" by (simp add: rest_def)
    then have "\<not> in_block k (rest ! m)" unfolding m_def by (rule nth_length_takeWhile)
    then show ?thesis using lt nth_rest[of m] by simp
  qed
  have len: "startIndex + Suc m \<le> length lines"
    using m_le assms by (simp add: rest_def)
  show ?thesis
    apply (rule exI[of _ "Suc m"])
    using res len inside stop dr
    by (auto simp: in_block_def k_def)
qed

theorem extractPythonBlock_range_witness:
  "(1::nat) < length [js ''x = 0'', js ''class A:'', js ''    a = 1'', js '''', js ''    b = 2'',
        js ''y = 2'', js ''    z'']
   \<and> extractPythonBlock [js ''x = 0'', js ''class A:'', js ''    a = 1'', js '''', js ''    b = 2'',
        js ''y = 2'', js ''    z''] 1
       = Inr [js ''class A:'', js ''    a = 1'', js '''', js ''    b = 2'']"
  using extractPythonBlock_range
    [of 1 "[js ''x = 0'', js ''class A:'', js ''    a = 1'', js '''', js ''    b = 2'',
        js ''y = 2'', js ''    z'']"]
  by (simp add: extractPythonBlock_def Let_def js_def indent_of_def blank_def trim_def
      isWhiteSpace_def)

section \<open>Evaluation\<close>

text \<open>The definitions unfolded to run the functions on a concrete input.\<close>

lemmas ev_str = js_def isWhiteSpace_def isWordChar_def isLineTerminator_def trim_def
  slice_def slice_from_def slice_index_def startsWith_def endsWith_def js_includes_def
  truthy_str_def Let_def quoted_def

lemmas ev_stream = stream_lines_def finish_def sse_stream_def initial_stream_def deliver_def
  get_def opt_get_def or_else_def nullish_def streaming_def answering_def quiet_def
  sample_engine_def sample_json_def delta_of_def xfyun_value_def
  zhipu_frame_Hel_def zhipu_frame_lo_def oauth_frame_Hel_def oauth_frame_lo_def token_body_def
  completion_body_def xfyun_frame_Hel_def xfyun_frame_lo_def cannot_read_def

lemmas ev_oauth = oauth_generateDocStream_def oauth_generateDoc_def oauth_completion_def
  getAccessToken_def new_ErnieAdapter_def sample_config_def sample_io_def before_expiry_def
  getModelEndpoint_def modelEndpoints_def oauth_line_def oauth_frame_def usage_of_def
  exchanges_def

lemmas ev_regex = lits_def many1_def many_def maybe_def lazy_many_def
  repeat.simps rest_of_def caps_of_def set_cap_def clear_caps_def exec_def match_first_def
  regex_test_def group_of_def group_text_def exec_loop.simps

lemmas ev_py = simpleImportRegex_def fromImportRegex_def asRegex_def import_specifier_def
  extractPythonImports_def line_comments_def docstringRegex_def docstring_content_def
  extractPythonComments_def paramRegex_def parsePythonParams_def def_pattern_def methodRegex_def
  or_undefined_def method_visibility_def extractClassMethods_def initRegex_def leadingSpaceRegex_def
  indentRegex_def defRegex_def assigned_def selfPropRegex_def classPropRegex_def property_of_def
  extractClassProperties_def extractDocstring_def docstring_comments_def classRegex_def bases_of_def
  extractPythonClasses_def funcRegex_def indentedRegex_def extractPythonFunctions_def parsePython_def
  line_of_def empty_metadata_def extractPythonBlock_def indent_of_def blank_def

lemmas ev_entry = parseCode_def getLanguageFromFileName_def toLowerCase_def EXTENSION_MAP_def
  SUPPORTED_LANGUAGES_def isLanguageSupported_def

section \<open>Streaming: the content is what the callback received\<close>

lemma in_step_initial: "in_step initial_stream"
  by (simp add: in_step_def initial_stream_def)

lemma deliver_in_step:
  "deliver (Some f) st content = (st1, r) \<Longrightarrow> in_step st \<Longrightarrow> in_step st1"
  by (auto simp: in_step_def deliver_def Let_def)

lemma in_step_usage: "in_step (st\<lparr>usage := u\<rparr>) = in_step st"
  by (simp add: in_step_def)

lemma zhipu_frame_in_step:
  "in_step st \<Longrightarrow> in_step (zhipu_frame eng (Some f) st data)"
  by (auto simp: zhipu_frame_def Let_def in_step_usage dest: deliver_in_step
      split: sum.splits prod.splits option.splits)

lemma zhipu_line_in_step:
  "in_step st \<Longrightarrow> in_step (fst (zhipu_line eng (Some f) st line))"
  by (simp add: zhipu_line_def Let_def zhipu_frame_in_step)

lemma ernie_catch_fst: "fst (ernie_catch st e) = st"
  by (simp add: ernie_catch_def)

lemma ernie_frame_in_step:
  "in_step st \<Longrightarrow> in_step (fst (ernie_frame eng (Some f) st data))"
  by (auto simp: ernie_frame_def Let_def in_step_usage ernie_catch_fst dest: deliver_in_step
      split: sum.splits prod.splits option.splits)

lemma ernie_line_in_step:
  "in_step st \<Longrightarrow> in_step (fst (ernie_line eng (Some f) st line))"
  by (simp add: ernie_line_def Let_def ernie_frame_in_step)

lemma oauth_frame_in_step:
  "in_step st \<Longrightarrow> in_step (fst (oauth_frame eng (Some f) st data))"
  by (auto simp: oauth_frame_def Let_def in_step_usage ernie_catch_fst dest: deliver_in_step
      split: sum.splits prod.splits option.splits)

lemma oauth_line_in_step:
  "in_step st \<Longrightarrow> in_step (fst (oauth_line eng (Some f) st line))"
  by (simp add: oauth_line_def oauth_frame_in_step)

lemma for_each_line_in_step:
  assumes "\<And>st line. in_step st \<Longrightarrow> in_step (fst (hdl st line))"
  shows "in_step st \<Longrightarrow> in_step (fst (for_each_line hdl st lines))"
proof (induction lines arbitrary: st)
  case Nil
  then show ?case by simp
next
  case (Cons line rest)
  obtain st1 r where h: "hdl st line = (st1, r)" by (cases "hdl st line")
  have "in_step st1" using assms[OF Cons.prems, of line] h by simp
  then show ?case using Cons.IH[of st1] h by (cases r) auto
qed

lemma read_loop_in_step:
  assumes "\<And>st line. in_step st \<Longrightarrow> in_step (fst (hdl st line))"
  shows "in_step st \<Longrightarrow> in_step (fst (read_loop hdl st reads))"
proof (induction reads arbitrary: st)
  case Nil
  then show ?case by simp
next
  case (Cons rd rest)
  show ?case
  proof (cases rd)
    case (ReadFails e)
    then show ?thesis using Cons.prems by simp
  next
    case (Chunk piece)
    obtain st1 r where h: "for_each_line hdl st (stream_lines piece) = (st1, r)"
      by (cases "for_each_line hdl st (stream_lines piece)")
    have "in_step st1"
      using for_each_line_in_step[of hdl st "stream_lines piece", OF assms Cons.prems] h by simp
    then show ?thesis using Cons.IH[of st1] h Chunk by (cases r) auto
  qed
qed

lemma sse_stream_content:
  assumes "\<And>st line. in_step st \<Longrightarrow> in_step (fst (hdl st line))"
    and "sse_stream prefix hdl fetched = (Inr response, chunks)"
  shows "resp_content response = JStr (concat (map to_string chunks))"
proof -
  from assms(2) obtain reads where
    fin: "finish (read_loop hdl initial_stream reads) = (Inr response, chunks)"
    by (auto simp: sse_stream_def split: sum.splits if_splits option.splits)
  obtain st r where rl: "read_loop hdl initial_stream reads = (st, r)"
    by (cases "read_loop hdl initial_stream reads")
  have "in_step st"
    using read_loop_in_step[of hdl initial_stream reads, OF assms(1) in_step_initial] rl by simp
  then show ?thesis
    using fin rl by (cases r) (auto simp: finish_def in_step_def)
qed

lemma xfyun_payload_in_step:
  "in_step (stream st) \<Longrightarrow> in_step (stream (xfyun_payload eng (Some f) st response header))"
  by (auto simp: xfyun_payload_def Let_def in_step_usage dest: deliver_in_step
      split: sum.splits prod.splits option.splits)

lemma xfyun_event_in_step:
  "in_step (stream st) \<Longrightarrow> in_step (stream (xfyun_event eng (Some f) st ev))"
  by (cases ev) (auto simp: xfyun_message_def xfyun_payload_in_step split: sum.splits)

lemma xfyun_payload_settled:
  "settled st = None \<Longrightarrow> settled (xfyun_payload eng onChunk st response header) = Some (Inr r)
    \<Longrightarrow> resp_content r = JStr (fullContent (stream (xfyun_payload eng onChunk st response header)))"
  by (auto simp: xfyun_payload_def Let_def split: sum.splits prod.splits option.splits if_splits)

lemma xfyun_event_settled:
  "settled st = None \<Longrightarrow> settled (xfyun_event eng onChunk st ev) = Some (Inr r)
    \<Longrightarrow> resp_content r = JStr (fullContent (stream (xfyun_event eng onChunk st ev)))"
  by (cases ev) (auto simp: xfyun_message_def xfyun_payload_settled split: sum.splits if_splits)

lemma xfyun_events_content:
  "in_step (stream st) \<Longrightarrow> settled st = None
    \<Longrightarrow> xfyun_events eng (Some f) st events = (Some (Inr r), chunks)
    \<Longrightarrow> resp_content r = JStr (concat (map to_string chunks))"
proof (induction events arbitrary: st)
  case Nil
  then show ?case by simp
next
  case (Cons ev rest)
  let ?st1 = "xfyun_event eng (Some f) st ev"
  have s1: "in_step (stream ?st1)" using Cons.prems(1) by (rule xfyun_event_in_step)
  show ?case
  proof (cases "settled ?st1")
    case None
    then show ?thesis using Cons.IH[of ?st1, OF s1 None] Cons.prems(3) by (simp add: Let_def)
  next
    case (Some res)
    then have "res = Inr r" "chunks = calls (stream ?st1)"
      using Cons.prems(3) by (auto simp: Let_def)
    then show ?thesis
      using xfyun_event_settled[OF Cons.prems(2), of eng "Some f" ev r] Some s1
      by (simp add: in_step_def)
  qed
qed

lemma emit_words_chunks:
  "emit_words f handed ws = (out, None) \<Longrightarrow> out = handed @ map JStr ws"
proof (induction ws arbitrary: handed)
  case Nil
  then show ?case by simp
next
  case (Cons w ws)
  from Cons.prems have "emit_words f (handed @ [JStr w]) ws = (out, None)"
    by (auto split: option.splits)
  from Cons.IH[OF this] show ?case by simp
qed

lemma concat_units: "concat (map to_string (map JStr (split_units s))) = s"
  by (induction s) (auto simp: split_units_def)

section \<open>The returned content and the delivered chunks\<close>

lemma emit_words_quiet: "emit_words quiet handed ws = (handed @ map JStr ws, None)"
  by (induction ws arbitrary: handed) (auto simp: quiet_def)

text \<open>
  Claim C9. When a streaming method is given a callback and returns a result, the
  result's content is the concatenation, in order, of the chunks the callback was handed
  during the call (each chunk as the text \<open>fullContent += chunk\<close> appends). This holds
  for the mock generator, whose chunks are the single code units of the canned document,
  for the streaming method of the GLM adapter, of both revisions of the ERNIE adapter,
  and of the Spark adapter.
\<close>

theorem streamed_content_is_chunks:
  "(mock_generateStream uuid now request f = (Inr result, chunks) \<longrightarrow>
      result_content result = getMockContent (req_docType request)
      \<and> chunks = map (\<lambda>c. JStr [c]) (result_content result)
      \<and> concat (map to_string chunks) = result_content result)
   \<and> (zhipu_generateDocStream eng (Some f) fetched = (Inr response, chunks) \<longrightarrow>
        resp_content response = JStr (concat (map to_string chunks)))
   \<and> (ernie_generateDocStream eng (Some f) fetched = (Inr response, chunks) \<longrightarrow>
        resp_content response = JStr (concat (map to_string chunks)))
   \<and> (fst (oauth_generateDocStream eng (Some f) io this) = (Inr response, chunks) \<longrightarrow>
        resp_content response = JStr (concat (map to_string chunks)))
   \<and> (xfyun_generateDocStream eng (Some f) setup events = (Some (Inr response), chunks) \<longrightarrow>
        resp_content response = JStr (concat (map to_string chunks)))"
proof (intro conjI impI)
  assume m: "mock_generateStream uuid now request f = (Inr result, chunks)"
  let ?content = "getMockContent (req_docType request)"
  from m have e: "emit_words f [] (split_units ?content) = (chunks, None)"
    and c: "result_content result = ?content"
    by (auto simp: mock_generateStream_def Let_def split: prod.splits option.splits)
  from emit_words_chunks[OF e] have ch: "chunks = map JStr (split_units ?content)" by simp
  show "result_content result = ?content" by (rule c)
  show "chunks = map (\<lambda>c. JStr [c]) (result_content result)"
    using ch c by (simp add: split_units_def)
  show "concat (map to_string chunks) = result_content result"
    using ch c concat_units[of ?content] by simp
next
  assume "zhipu_generateDocStream eng (Some f) fetched = (Inr response, chunks)"
  then show "resp_content response = JStr (concat (map to_string chunks))"
    unfolding zhipu_generateDocStream_def
    by (rule sse_stream_content[rotated]) (rule zhipu_line_in_step)
next
  assume "ernie_generateDocStream eng (Some f) fetched = (Inr response, chunks)"
  then show "resp_content response = JStr (concat (map to_string chunks))"
    unfolding ernie_generateDocStream_def
    by (rule sse_stream_content[rotated]) (rule ernie_line_in_step)
next
  assume a: "fst (oauth_generateDocStream eng (Some f) io this) = (Inr response, chunks)"
  then have "sse_stream ernie_failure (oauth_line eng (Some f)) (chat_response io)
      = (Inr response, chunks)"
    by (auto simp: oauth_generateDocStream_def split: prod.splits sum.splits)
  then show "resp_content response = JStr (concat (map to_string chunks))"
    by (rule sse_stream_content[rotated]) (rule oauth_line_in_step)
next
  assume "xfyun_generateDocStream eng (Some f) setup events = (Some (Inr response), chunks)"
  then have "xfyun_events eng (Some f) xfyun_initial events = (Some (Inr response), chunks)"
    by (auto simp: xfyun_generateDocStream_def split: option.splits)
  then show "resp_content response = JStr (concat (map to_string chunks))"
    by (rule xfyun_events_content[rotated 2])
      (simp_all add: xfyun_initial_def in_step_initial)
qed

lemma zhipu_hello:
  "zhipu_generateDocStream sample_engine (Some quiet)
      (streaming [js ''data: '' @ zhipu_frame_Hel @ js ''\<newline>\<newline>data: '' @ zhipu_frame_lo
                    @ js ''\<newline>\<newline>'', js ''data: [DONE]\<newline>\<newline>''])
    = (Inr \<lparr> resp_content = JStr (js ''Hello''), resp_usage = None \<rparr>,
       [JStr (js ''Hel''), JStr (js ''lo'')])"
  by (simp add: zhipu_generateDocStream_def zhipu_line_def zhipu_frame_def ev_str ev_stream)

lemma mock_run:
  "mock_generateStream (js ''id-1'') (js ''2024-01-01T00:00:00.000Z'') sample_request quiet
    = (Inr \<lparr> result_id = js ''id-1'', result_docType = api,
             result_title = [0x793A, 0x4F8B] @ getDocTypeName api,
             result_content = mock_api, result_metadata = None,
             result_createdAt = js ''2024-01-01T00:00:00.000Z'', result_inputType = text_input \<rparr>,
       map (\<lambda>c. JStr [c]) mock_api)"
  by (simp add: mock_generateStream_def sample_request_def emit_words_quiet split_units_def
      Let_def comp_def)

lemma ernie_run:
  "ernie_generateDocStream sample_engine (Some quiet)
      (streaming [js ''data: '' @ zhipu_frame_Hel @ js ''\<newline>'', js ''data: '' @ zhipu_frame_lo])
    = (Inr \<lparr> resp_content = JStr (js ''Hello''), resp_usage = None \<rparr>,
       [JStr (js ''Hel''), JStr (js ''lo'')])"
  by (simp add: ernie_generateDocStream_def ernie_line_def ernie_frame_def ev_str ev_stream)

lemma oauth_run:
  "fst (oauth_generateDocStream sample_engine (Some quiet)
      (sample_io 1000 (streaming [js ''data: '' @ oauth_frame_Hel @ js ''\<newline>data: '' @ oauth_frame_lo]))
      (new_ErnieAdapter sample_config))
    = (Inr \<lparr> resp_content = JStr (js ''Hello''), resp_usage = None \<rparr>,
       [JStr (js ''Hel''), JStr (js ''lo'')])"
  by (simp add: ev_oauth ev_str ev_stream)

lemma xfyun_run:
  "xfyun_generateDocStream sample_engine (Some quiet) None
      [WsOpen, WsMessage xfyun_frame_Hel, WsMessage xfyun_frame_lo, WsClose]
    = (Some (Inr \<lparr> resp_content = JStr (js ''Hello''), resp_usage = None \<rparr>),
       [JStr (js ''Hel''), JStr (js ''lo'')])"
  by (simp add: xfyun_generateDocStream_def xfyun_initial_def xfyun_message_def xfyun_payload_def
      number_positive_def ev_str ev_stream)

theorem streamed_content_is_chunks_witness:
  "snd (mock_generateStream (js ''id-1'') (js ''2024-01-01T00:00:00.000Z'') sample_request quiet)
     = map (\<lambda>c. JStr [c]) mock_api
   \<and> zhipu_generateDocStream sample_engine (Some quiet)
        (streaming [js ''data: '' @ zhipu_frame_Hel @ js ''\<newline>\<newline>data: '' @ zhipu_frame_lo
                      @ js ''\<newline>\<newline>'', js ''data: [DONE]\<newline>\<newline>''])
     = (Inr \<lparr> resp_content = JStr (js ''Hello''), resp_usage = None \<rparr>,
        [JStr (js ''Hel''), JStr (js ''lo'')])
   \<and> ernie_generateDocStream sample_engine (Some quiet)
        (streaming [js ''data: '' @ zhipu_frame_Hel @ js ''\<newline>'', js ''data: '' @ zhipu_frame_lo])
     = (Inr \<lparr> resp_content = JStr (js ''Hello''), resp_usage = None \<rparr>,
        [JStr (js ''Hel''), JStr (js ''lo'')])
   \<and> fst (oauth_generateDocStream sample_engine (Some quiet)
        (sample_io 1000 (streaming [js ''data: '' @ oauth_frame_Hel @ js ''\<newline>data: '' @ oauth_frame_lo]))
        (new_ErnieAdapter sample_config))
     = (Inr \<lparr> resp_content = JStr (js ''Hello''), resp_usage = None \<rparr>,
        [JStr (js ''Hel''), JStr (js ''lo'')])
   \<and> xfyun_generateDocStream sample_engine (Some quiet) None
        [WsOpen, WsMessage xfyun_frame_Hel, WsMessage xfyun_frame_lo, WsClose]
     = (Some (Inr \<lparr> resp_content = JStr (js ''Hello''), resp_usage = None \<rparr>),
        [JStr (js ''Hel''), JStr (js ''lo'')])
   \<and> concat (map to_string [JStr (js ''Hel''), JStr (js ''lo'')]) = js ''Hello''"
  using streamed_content_is_chunks
    [where eng = sample_engine and f = quiet and uuid = "js ''id-1''"
       and now = "js ''2024-01-01T00:00:00.000Z''" and request = sample_request
       and fetched = "streaming [js ''data: '' @ zhipu_frame_Hel @ js ''\<newline>'', js ''data: '' @ zhipu_frame_lo]"
       and response = "\<lparr> resp_content = JStr (js ''Hello''), resp_usage = None \<rparr>"
       and chunks = "[JStr (js ''Hel''), JStr (js ''lo'')]"]
    mock_run zhipu_hello ernie_run oauth_run xfyun_run
  by (simp add: js_def)

section \<open>Lines of a stream that do not parse\<close>

text \<open>
  Where such lines are skipped. A line that starts with \<open>data: \<close> and whose payload is
  \<open>[DONE]\<close> or does not parse is skipped by the GLM adapter: no error, the state (the
  accumulated content and the chunks delivered) is unchanged, and the loop goes on with
  the next line. The ERNIE adapter skips such a line in the same way when the payload is
  \<open>[DONE]\<close> or the message of the parse error does not contain the marker of its API
  errors; its token-exchanging revision, which has no \<open>[DONE]\<close> test, when the payload
  does not parse and the message does not contain the marker.
\<close>

lemma unparsable_frames_are_skipped:
  assumes "startsWith line (js ''data: '')"
    and "slice_from line 6 = js ''[DONE]'' \<or> JSON_parse eng (slice_from line 6) = Inl msg"
  shows "zhipu_line eng onChunk st line = (st, None)
       \<and> for_each_line (zhipu_line eng onChunk) st (line # rest)
           = for_each_line (zhipu_line eng onChunk) st rest
       \<and> (slice_from line 6 = js ''[DONE]'' \<or> \<not> js_includes msg ernie_marker \<longrightarrow>
            ernie_line eng onChunk st line = (st, None)
            \<and> for_each_line (ernie_line eng onChunk) st (line # rest)
                = for_each_line (ernie_line eng onChunk) st rest)
       \<and> (JSON_parse eng (slice_from line 6) = Inl msg \<and> \<not> js_includes msg ernie_marker \<longrightarrow>
            oauth_line eng onChunk st line = (st, None)
            \<and> for_each_line (oauth_line eng onChunk) st (line # rest)
                = for_each_line (oauth_line eng onChunk) st rest)"
proof -
  have a: "zhipu_line eng onChunk st line = (st, None)"
    using assms by (auto simp: zhipu_line_def zhipu_frame_def Let_def)
  have b: "slice_from line 6 = js ''[DONE]'' \<or> \<not> js_includes msg ernie_marker
      \<Longrightarrow> ernie_line eng onChunk st line = (st, None)"
    using assms by (auto simp: ernie_line_def ernie_frame_def ernie_catch_def Let_def)
  have c: "JSON_parse eng (slice_from line 6) = Inl msg \<and> \<not> js_includes msg ernie_marker
      \<Longrightarrow> oauth_line eng onChunk st line = (st, None)"
    using assms(1) by (auto simp: oauth_line_def oauth_frame_def ernie_catch_def)
  show ?thesis using a b c by simp
qed

lemma unparsable_frames_are_skipped_example:
  "startsWith (js ''data: oops'') (js ''data: '')
   \<and> JSON_parse sample_engine (slice_from (js ''data: oops'') 6) = Inl (js ''Unexpected token'')
   \<and> \<not> js_includes (js ''Unexpected token'') ernie_marker
   \<and> zhipu_line sample_engine (Some quiet) initial_stream (js ''data: oops'') = (initial_stream, None)
   \<and> ernie_line sample_engine (Some quiet) initial_stream (js ''data: oops'') = (initial_stream, None)
   \<and> oauth_line sample_engine (Some quiet) initial_stream (js ''data: oops'') = (initial_stream, None)
   \<and> zhipu_line sample_engine (Some quiet) initial_stream (js ''data: [DONE]'') = (initial_stream, None)
   \<and> ernie_line sample_engine (Some quiet) initial_stream (js ''data: [DONE]'') = (initial_stream, None)"
proof -
  have p: "startsWith (js ''data: oops'') (js ''data: '')"
    "startsWith (js ''data: [DONE]'') (js ''data: '')"
    by (simp_all add: ev_str)
  have q: "JSON_parse sample_engine (slice_from (js ''data: oops'') 6) = Inl (js ''Unexpected token'')"
    by (simp add: ev_str ev_stream)
  have d: "slice_from (js ''data: [DONE]'') 6 = js ''[DONE]''"
    by (simp add: ev_str)
  have n: "\<not> js_includes (js ''Unexpected token'') ernie_marker"
    by (simp add: ev_str ernie_marker_def)
  from unparsable_frames_are_skipped[OF p(1) disjI2[OF q],
      where onChunk = "Some quiet" and st = initial_stream and rest = "[]"]
    unparsable_frames_are_skipped[OF p(2) disjI1[OF d],
      where eng = sample_engine and msg = "[]" and onChunk = "Some quiet" and st = initial_stream
        and rest = "[]"]
    p q n d
  show ?thesis by simp
qed

text \<open>
  Claim C10. The ERNIE adapter does not skip every line whose payload is not valid JSON.
  Its \<open>catch\<close> rethrows each error whose message contains the marker of the adapter's
  own API errors, and it tests the \<open>SyntaxError\<close> of \<open>JSON.parse\<close> in the same way:
  when the message of the parse error contains the marker, the error leaves the line
  loop and ends the call, in both revisions of the adapter, where the comment in the
  \<open>catch\<close> says that other parse errors are ignored and where the GLM adapter skips the
  same line. V8 quotes the text in the message, so on Node.js 20 and later the line
  \<open>data: \<close> followed by the marker is such a line.
\<close>

theorem ernie_rethrows_marked_parse_error:
  assumes "startsWith line (js ''data: '')"
    and "slice_from line 6 \<noteq> js ''[DONE]''"
    and "JSON_parse eng (slice_from line 6) = Inl msg"
    and "js_includes msg ernie_marker"
  shows "ernie_line eng onChunk st line = (st, Some (SyntaxError msg))
       \<and> for_each_line (ernie_line eng onChunk) st (line # rest) = (st, Some (SyntaxError msg))
       \<and> finish (for_each_line (ernie_line eng onChunk) st (line # rest))
           = (Inl (SyntaxError msg), calls st)
       \<and> oauth_line eng onChunk st line = (st, Some (SyntaxError msg))
       \<and> for_each_line (oauth_line eng onChunk) st (line # rest) = (st, Some (SyntaxError msg))
       \<and> zhipu_line eng onChunk st line = (st, None)
       \<and> for_each_line (zhipu_line eng onChunk) st (line # rest)
           = for_each_line (zhipu_line eng onChunk) st rest"
  using assms
  by (simp add: ernie_line_def ernie_frame_def oauth_line_def oauth_frame_def ernie_catch_def
      zhipu_line_def zhipu_frame_def finish_def)

theorem ernie_rethrows_marked_parse_error_witness:
  "JSON_parse quoting_engine ernie_marker = Inl (not_valid_json ernie_marker)
   \<and> js_includes (not_valid_json ernie_marker) ernie_marker
   \<and> ernie_line quoting_engine (Some quiet) initial_stream (js ''data: '' @ ernie_marker)
       = (initial_stream, Some (SyntaxError (not_valid_json ernie_marker)))
   \<and> ernie_generateDocStream quoting_engine (Some quiet) (streaming [js ''data: '' @ ernie_marker])
       = (Inl (SyntaxError (not_valid_json ernie_marker)), [])
   \<and> zhipu_generateDocStream quoting_engine (Some quiet) (streaming [js ''data: '' @ ernie_marker])
       = (Inr \<lparr> resp_content = JStr [], resp_usage = None \<rparr>, [])"
proof -
  let ?line = "js ''data: '' @ ernie_marker"
  have payload: "slice_from ?line 6 = ernie_marker"
    by (simp add: ev_str)
  have prefix: "startsWith ?line (js ''data: '')"
    by (simp add: ev_str)
  have other: "slice_from ?line 6 \<noteq> js ''[DONE]''"
    unfolding payload by (simp add: ernie_marker_def js_def)
  have parsed: "JSON_parse quoting_engine (slice_from ?line 6) = Inl (not_valid_json ernie_marker)"
    unfolding payload by (simp add: quoting_engine_def)
  have marked: "js_includes (not_valid_json ernie_marker) ernie_marker"
    by (simp add: not_valid_json_def ernie_marker_def ev_str)
  have lines: "stream_lines ?line = [?line]"
    by (simp add: stream_lines_def ernie_marker_def ev_str)
  note run = ernie_rethrows_marked_parse_error[OF prefix other parsed marked,
      where onChunk = "Some quiet" and st = initial_stream and rest = "[]"]
  let ?error = "SyntaxError (not_valid_json ernie_marker)"
  have thrown: "for_each_line (ernie_line quoting_engine (Some quiet)) initial_stream [?line]
      = (initial_stream, Some ?error)"
    using run by (simp only:)
  have skipped: "for_each_line (zhipu_line quoting_engine (Some quiet)) initial_stream [?line]
      = (initial_stream, None)"
    using run by (simp only: for_each_line.simps(1))
  have "read_loop (ernie_line quoting_engine (Some quiet)) initial_stream [Chunk ?line]
      = (initial_stream, Some ?error)"
    by (simp only: read_loop.simps lines thrown prod.case option.case)
  then have ernie: "ernie_generateDocStream quoting_engine (Some quiet) (streaming [?line])
      = (Inl ?error, [])"
    by (simp add: ernie_generateDocStream_def sse_stream_def streaming_def finish_def
        initial_stream_def)
  have "read_loop (zhipu_line quoting_engine (Some quiet)) initial_stream [Chunk ?line]
      = (initial_stream, None)"
    by (simp only: read_loop.simps lines skipped prod.case option.case)
  then have zhipu: "zhipu_generateDocStream quoting_engine (Some quiet) (streaming [?line])
      = (Inr \<lparr> resp_content = JStr [], resp_usage = None \<rparr>, [])"
    by (simp add: zhipu_generateDocStream_def sse_stream_def streaming_def finish_def
        initial_stream_def)
  have line: "ernie_line quoting_engine (Some quiet) initial_stream ?line
      = (initial_stream, Some ?error)"
    using run by (simp only:)
  have "JSON_parse quoting_engine ernie_marker = Inl (not_valid_json ernie_marker)"
    using parsed unfolding payload .
  with marked line ernie zhipu show ?thesis by (simp only: simp_thms)
qed

section \<open>The access token of the ERNIE adapter is cached\<close>

lemma split_two:
  "c \<notin> set a \<Longrightarrow> c \<notin> set b \<Longrightarrow> split_on c (a @ c # b) = [a, b]"
  by (induction a) (auto simp: split_on_no_sep)

lemma truthy_own_prop_get: "truthy (own_prop data k) \<Longrightarrow> get data k' = Inr (own_prop data k')"
  by (cases data) (auto simp: get_def)

lemma exchange_caches:
  assumes "apiKey (ernie_config this) = key @ 0x3A # secret" "key \<noteq> []" "secret \<noteq> []"
      "0x3A \<notin> set key" "0x3A \<notin> set secret"
    and "\<not> (truthy (accessToken this) \<and> before_expiry (now_at_check io) (tokenExpiry this))"
    and "exchange_response io = Inr response" "ok response"
      "JSON_parse eng (body_text response) = Inr data"
      "truthy (own_prop data (js ''access_token''))"
  shows "getAccessToken eng io this =
           (Inr (own_prop data (js ''access_token'')),
            this\<lparr> accessToken := own_prop data (js ''access_token''),
                  tokenExpiry := map_option (\<lambda>lifetime. now_at_store io + (lifetime - 300) * 1000)
                                   (to_number eng (own_prop data (js ''expires_in''))) \<rparr>,
            [TokenExchange key secret])"
  using assms split_two[of "0x3A" key secret]
    truthy_own_prop_get[of data "js ''access_token''" "js ''access_token''"]
  by (simp add: getAccessToken_def Let_def truthy_str_def)

lemma cached_token_reused:
  assumes "truthy (accessToken this)" "tokenExpiry this = Some expiry" "now_at_check io < expiry"
  shows "getAccessToken eng io this = (Inr (accessToken this), this, [])"
  using assms by (simp add: getAccessToken_def before_expiry_def)

text \<open>
  Claim C7. An adapter is created with credentials \<open>key:secret\<close>, and the first
  \<open>generateDoc\<close> on it exchanges them for a token the provider declares valid for
  \<open>lifetime\<close> seconds. Then the adapter holds that token with the expiry
  \<open>Date.now()\<close> at the exchange plus \<open>(lifetime - 300) * 1000\<close> milliseconds, and a
  second \<open>generateDoc\<close> that checks the clock ahead of that expiry sends the completion
  with the cached token and no exchange: the two calls send exactly one credential
  exchange. A \<open>generateDocStream\<close> in the window sends none either.
\<close>

theorem token_cached_for_its_lifetime:
  assumes "apiKey config = key @ 0x3A # secret" "key \<noteq> []" "secret \<noteq> []"
      "0x3A \<notin> set key" "0x3A \<notin> set secret"
    and "exchange_response (token_answers io1) = Inr response" "ok response"
      "JSON_parse eng (body_text response) = Inr data"
      "truthy (own_prop data (js ''access_token''))"
      "to_number eng (own_prop data (js ''expires_in'')) = Some lifetime"
    and "oauth_generateDoc eng io1 (new_ErnieAdapter config) = (r1, this1, sent1)"
    and "now_at_check (token_answers io2) < now_at_store (token_answers io1) + (lifetime - 300) * 1000"
    and "oauth_generateDoc eng io2 this1 = (r2, this2, sent2)"
  shows "accessToken this1 = own_prop data (js ''access_token'')
       \<and> tokenExpiry this1 = Some (now_at_store (token_answers io1) + (lifetime - 300) * 1000)
       \<and> sent1 = [TokenExchange key secret, Completion (getModelEndpoint this1) (accessToken this1)]
       \<and> sent2 = [Completion (getModelEndpoint this1) (accessToken this1)]
       \<and> this2 = this1
       \<and> exchanges (sent1 @ sent2) = 1
       \<and> exchanges (snd (snd (oauth_generateDocStream eng onChunk io2 this1))) = 0"
proof -
  let ?fresh = "new_ErnieAdapter config"
  let ?token = "own_prop data (js ''access_token'')"
  let ?expiry = "now_at_store (token_answers io1) + (lifetime - 300) * 1000"
  have first: "getAccessToken eng (token_answers io1) ?fresh =
      (Inr ?token, ?fresh\<lparr> accessToken := ?token, tokenExpiry := Some ?expiry \<rparr>,
       [TokenExchange key secret])"
    using exchange_caches[of ?fresh key secret "token_answers io1" response eng data] assms(1-10)
    by (simp add: new_ErnieAdapter_def)
  have this1: "this1 = ?fresh\<lparr> accessToken := ?token, tokenExpiry := Some ?expiry \<rparr>"
    and sent1: "sent1 = [TokenExchange key secret, Completion (getModelEndpoint this1) ?token]"
    using assms(11) first by (auto simp: oauth_generateDoc_def)
  have second: "getAccessToken eng (token_answers io2) this1 = (Inr ?token, this1, [])"
    using cached_token_reused[of this1 ?expiry "token_answers io2" eng] assms(9,12) this1 by simp
  have sent2: "sent2 = [Completion (getModelEndpoint this1) ?token]" and this2: "this2 = this1"
    using assms(13) second by (auto simp: oauth_generateDoc_def)
  have stream: "exchanges (snd (snd (oauth_generateDocStream eng onChunk io2 this1))) = 0"
    using second by (simp add: oauth_generateDocStream_def exchanges_def)
  show ?thesis
    using this1 sent1 sent2 this2 stream by (simp add: exchanges_def)
qed

theorem token_cached_for_its_lifetime_witness:
  "tokenExpiry (fst (snd (oauth_generateDoc sample_engine (sample_io 1000 (answering completion_body))
       (new_ErnieAdapter sample_config)))) = Some 2591701040
   \<and> exchanges (snd (snd (oauth_generateDoc sample_engine (sample_io 1000 (answering completion_body))
       (new_ErnieAdapter sample_config)))
      @ snd (snd (oauth_generateDoc sample_engine (sample_io 2591701039 (answering completion_body))
          (fst (snd (oauth_generateDoc sample_engine (sample_io 1000 (answering completion_body))
             (new_ErnieAdapter sample_config))))))) = 1
   \<and> fst (oauth_generateDoc sample_engine (sample_io 2591701039 (answering completion_body))
          (fst (snd (oauth_generateDoc sample_engine (sample_io 1000 (answering completion_body))
             (new_ErnieAdapter sample_config)))))
      = Inr \<lparr> resp_content = JStr (js ''Hello''), resp_usage = None \<rparr>"
proof -
  let ?io1 = "sample_io 1000 (answering completion_body)"
  let ?io2 = "sample_io 2591701039 (answering completion_body)"
  let ?first = "oauth_generateDoc sample_engine ?io1 (new_ErnieAdapter sample_config)"
  let ?second = "oauth_generateDoc sample_engine ?io2 (fst (snd ?first))"
  have cred: "apiKey sample_config = js ''key'' @ 0x3A # js ''secret''" "js ''key'' \<noteq> []"
    "js ''secret'' \<noteq> []" "0x3A \<notin> set (js ''key'')" "0x3A \<notin> set (js ''secret'')"
    by (simp_all add: sample_config_def js_def)
  have ex: "exchange_response (token_answers ?io1)
      = Inr \<lparr> ok = True, status = 200, body_text = token_body, body_reads = None \<rparr>"
    "ok \<lparr> ok = True, status = 200, body_text = token_body, body_reads = None \<rparr>"
    by (simp_all add: sample_io_def answering_def)
  have parsed: "JSON_parse sample_engine
        (body_text \<lparr> ok = True, status = 200, body_text = token_body, body_reads = None \<rparr>)
      = Inr (JObj [(js ''access_token'', JStr (js ''t0k'')), (js ''expires_in'', JNum 2592000)])"
    by (simp add: ev_str ev_stream)
  have tok: "truthy (own_prop (JObj [(js ''access_token'', JStr (js ''t0k'')),
        (js ''expires_in'', JNum 2592000)]) (js ''access_token''))"
    "to_number sample_engine (own_prop (JObj [(js ''access_token'', JStr (js ''t0k'')),
        (js ''expires_in'', JNum 2592000)]) (js ''expires_in'')) = Some 2592000"
    by (simp_all add: js_def)
  have window: "now_at_check (token_answers ?io2)
      < now_at_store (token_answers ?io1) + (2592000 - 300) * 1000"
    by (simp add: sample_io_def)
  have run: "fst ?second = Inr \<lparr> resp_content = JStr (js ''Hello''), resp_usage = None \<rparr>"
    by (simp add: ev_oauth ev_str ev_stream)
  from token_cached_for_its_lifetime[OF cred ex parsed tok _ window,
      of "fst ?first" "fst (snd ?first)" "snd (snd ?first)" "fst ?second" "fst (snd ?second)"
         "snd (snd ?second)" None]
  have "tokenExpiry (fst (snd ?first))
        = Some (now_at_store (token_answers ?io1) + (2592000 - 300) * 1000)
      \<and> exchanges (snd (snd ?first) @ snd (snd ?second)) = 1"
    by (simp add: exchanges_def)
  then show ?thesis using run by (simp add: sample_io_def)
qed

section \<open>The analyzer on concrete files\<close>

lemma language_of_foo_py: "getLanguageFromFileName (js ''foo.py'') = Some (js ''python'')"
  by (simp add: ev_entry ev_str)

text \<open>
  Claim C1. Analyzing the scenario's class in a file named \<open>foo.py\<close> returns one class
  \<open>Foo\<close> with \<open>superClass\<close> \<open>Bar\<close>, one property \<open>x\<close> and one method \<open>__init__\<close>, as
  the specification says, but the method's visibility is \<open>protected\<close>, not \<open>public\<close>:
  \<open>__init__\<close> ends with two underscores, so it is not \<open>private\<close>, and it starts with an
  underscore, which the next test turns into \<open>protected\<close>.
\<close>

theorem scenario_init_is_protected:
  "parseCode rejecting scenario_source (js ''foo.py'') None = Returns
     \<lparr> md_fileName = js ''foo.py'', md_language = js ''python'',
       md_classes =
         [\<lparr> class_name = js ''Foo'', superClass = Some (js ''Bar''), class_implements = None,
            class_properties =
              [\<lparr> prop_name = js ''x'', prop_type = None, prop_isOptional = False,
                 prop_isReadonly = False \<rparr>],
            class_methods =
              [\<lparr> method_name = js ''__init__'', method_params = [], method_returnType = None,
                 method_isAsync = False, method_isStatic = False, visibility = Protected \<rparr>],
            class_comments = None, class_startLine = 1, class_endLine = 4 \<rparr>],
       md_functions = [], md_interfaces = [], md_imports = [], md_exports = [], md_comments = [],
       rawCode = scenario_source \<rparr>"
  by (simp add: scenario_source_def ev_entry ev_str ev_regex ev_py)

theorem scenario_init_is_protected_witness:
  "\<exists>md. parseCode rejecting scenario_source (js ''foo.py'') None = Returns md
     \<and> map (\<lambda>c. (class_name c, superClass c)) (md_classes md) = [(js ''Foo'', Some (js ''Bar''))]
     \<and> map prop_name (concat (map class_properties (md_classes md))) = [js ''x'']
     \<and> map (\<lambda>m. (method_name m, visibility m)) (concat (map class_methods (md_classes md)))
         = [(js ''__init__'', Protected)]"
  using scenario_init_is_protected by simp

text \<open>
  Claim C2. \<open>parseCode\<close> throws on a Python text that holds an empty docstring: the
  pattern of \<open>extractPythonComments\<close> matches the six quotes with an empty first group
  and no second group, and \<open>(match[1] || match[2]).trim()\<close> reads \<open>trim\<close> of
  \<open>undefined\<close>. Nothing on the way to \<open>parseCode\<close>'s caller catches the \<open>TypeError\<close>.
\<close>

theorem parseCode_throws_on_empty_docstring:
  "parseCode rejecting empty_docstring (js ''a.py'') None
     = Throws (TypeError (cannot_read (js ''undefined'') (js ''trim'')))"
  by (simp add: empty_docstring_def ev_entry ev_str ev_regex ev_py)

theorem parseCode_throws_on_empty_docstring_witness:
  "\<not> (\<exists>md. parseCode rejecting empty_docstring (js ''a.py'') None = Returns md)"
  using parseCode_throws_on_empty_docstring by simp

text \<open>
  Claim C4. For the supported language \<open>python\<close>, given as the request's language,
  the analysis of a function whose docstring is empty returns no metadata: it ends with
  a \<open>TypeError\<close>.
\<close>

theorem analysis_of_python_does_not_return:
  "isLanguageSupported (js ''python'')
   \<and> parseCode rejecting documented_function (js ''f.txt'') (Some (js ''python''))
       = Throws (TypeError (cannot_read (js ''undefined'') (js ''trim'')))"
  by (simp add: documented_function_def empty_docstring_def ev_entry ev_str ev_regex ev_py)

theorem analysis_of_python_does_not_return_witness:
  "\<not> (\<exists>md. parseCode rejecting documented_function (js ''f.txt'') (Some (js ''python''))
               = Returns md)"
  using analysis_of_python_does_not_return by simp

text \<open>
  Where the analyzer does degrade as specified: a file whose language is unknown, and
  JavaScript or TypeScript that Babel rejects, give the metadata with empty collections
  and the text kept.
\<close>

lemma parseCode_unsupported:
  assumes "\<not> truthy_str lang" "getLanguageFromFileName fileName = None"
  shows "parseCode parse_file code fileName lang = Returns (empty_metadata fileName unknown code)"
  using assms by (simp add: parseCode_def truthy_str_def)

lemma parseCode_babel_fails:
  assumes "lang = Some (js ''javascript'') \<or> lang = Some (js ''typescript'')"
    and "\<And>ts. parse_file code ts = Inl e"
  shows "parseCode parse_file code fileName lang = Returns (empty_metadata fileName (the lang) code)"
  using assms
  by (auto simp: parseCode_def truthy_str_def isLanguageSupported_def SUPPORTED_LANGUAGES_def
      parseJavaScript_def Let_def js_def)

section \<open>Line ranges of the Python analyzer\<close>

lemma exec_loop_items:
  "exec_loop r input body lastIndex = Returns items
     \<Longrightarrow> (\<And>m x. body m = Returns (Some x) \<Longrightarrow> P x)
     \<Longrightarrow> \<forall>x\<in>set items. P x"
proof (induction r input body lastIndex arbitrary: items rule: exec_loop.induct)
  case (1 r input body lastIndex)
  show ?case
  proof (cases "exec r input lastIndex")
    case None
    with "1.prems"(1) show ?thesis by (simp add: exec_loop.simps)
  next
    case (Some m)
    with "1.prems"(1) obtain item rest where
      b: "body m = Returns item" and e: "\<not> m_end m \<le> lastIndex"
      and l: "exec_loop r input body (m_end m) = Returns rest"
      and i: "items = (case item of None \<Rightarrow> rest | Some x \<Rightarrow> x # rest)"
      by (subst (asm) exec_loop.simps) (auto split: outcome.splits if_splits)
    from "1.IH"[OF Some b e l "1.prems"(2)] have "\<forall>x\<in>set rest. P x" by simp
    with i b "1.prems"(2) show ?thesis by (cases item) auto
  qed
qed

lemma length_split_on: "length (split_on c s) = Suc (length (filter (\<lambda>x. x = c) s))"
  by (induction s) (auto split: list.splits)

lemma line_of_mono: "i \<le> j \<Longrightarrow> line_of code i \<le> line_of code j"
proof -
  assume "i \<le> j"
  then have "take j code = take i code @ take (j - i) (drop i code)"
    by (metis le_add_diff_inverse take_add)
  then show ?thesis by (simp add: line_of_def length_split_on)
qed

lemma block_end: "extractPythonBlock lines i = Inr block \<Longrightarrow> n \<le> n + length block - 1"
  by (auto simp: extractPythonBlock_def Let_def split: if_splits)

lemma bind_Returns: "bind a f = Returns y \<Longrightarrow> \<exists>x. a = Returns x \<and> f x = Returns y"
  by (cases a) auto

lemma lifted_Returns: "lifted r = Returns x \<Longrightarrow> r = Inr x"
  by (cases r) auto

lemma python_classes_ordered:
  assumes "extractPythonClasses code lines = Returns classes"
  shows "\<forall>c\<in>set classes. class_startLine c \<le> class_endLine c"
  using assms unfolding extractPythonClasses_def
  by (rule exec_loop_items)
    (auto simp: Let_def dest!: bind_Returns lifted_Returns block_end)

lemma python_functions_ordered:
  assumes "extractPythonFunctions code lines = Returns found_functions"
  shows "\<forall>f\<in>set found_functions. fn_startLine f \<le> fn_endLine f"
  using assms unfolding extractPythonFunctions_def
  by (rule exec_loop_items)
    (auto simp: Let_def dest!: bind_Returns lifted_Returns block_end split: if_splits)

lemma python_comments_ordered:
  assumes "extractPythonComments code lines = Returns comments"
  shows "\<forall>c\<in>set comments. comment_startLine c \<le> comment_endLine c"
proof -
  from assms obtain blocks where
    b: "exec_loop docstringRegex code
          (\<lambda>m. bind (docstring_content m)
                  (\<lambda>content. Returns (Some
                     \<lparr> comment_type = block_comment, comment_content = content,
                       comment_startLine = line_of code (m_index m),
                       comment_endLine = line_of code (m_index m + length (m_text m)) \<rparr>))) 0
        = Returns blocks"
    and c: "comments = line_comments lines @ blocks"
    unfolding extractPythonComments_def by (auto dest!: bind_Returns)
  have "\<forall>c\<in>set blocks. comment_startLine c \<le> comment_endLine c"
    using b by (rule exec_loop_items) (auto dest!: bind_Returns simp: line_of_mono)
  moreover have "\<forall>c\<in>set (line_comments lines). comment_startLine c \<le> comment_endLine c"
    by (auto simp: line_comments_def Let_def split: if_splits)
  ultimately show ?thesis using c by auto
qed

text \<open>
  Whenever the Python analyzer returns, every class, function and comment of its metadata
  starts no later than it ends: a class or function ends \<open>length block - 1\<close> lines after
  its header, and a docstring's end index is not before its start.
\<close>

lemma python_entities_ordered:
  assumes "parsePython code fileName = Returns md"
  shows "(\<forall>c\<in>set (md_classes md). class_startLine c \<le> class_endLine c)
       \<and> (\<forall>f\<in>set (md_functions md). fn_startLine f \<le> fn_endLine f)
       \<and> (\<forall>c\<in>set (md_comments md). comment_startLine c \<le> comment_endLine c)
       \<and> md_interfaces md = [] \<and> rawCode md = code"
proof -
  from assms obtain found_imports comments classes found_functions where
    "extractPythonComments code (split_on 0x0A code) = Returns comments"
    "extractPythonClasses code (split_on 0x0A code) = Returns classes"
    "extractPythonFunctions code (split_on 0x0A code) = Returns found_functions"
    and "md = (empty_metadata fileName (js ''python'') code)
             \<lparr> md_imports := found_imports, md_comments := comments, md_classes := classes,
               md_functions := found_functions \<rparr>"
    unfolding parsePython_def Let_def by (auto dest!: bind_Returns)
  then show ?thesis
    using python_comments_ordered python_classes_ordered python_functions_ordered
    by (simp add: empty_metadata_def)
qed

section \<open>The prompt of a code request\<close>

lemma includes_append: "js_includes (a @ p @ b) p"
proof (induction a)
  case Nil
  have "startsWith (p @ b) p" by (simp add: startsWith_def)
  then show ?case by (cases "p @ b") (auto simp: js_includes_def)
next
  case (Cons x a)
  then show ?case by (auto simp: js_includes_def)
qed

lemma join_append:
  "xs \<noteq> [] \<Longrightarrow> ys \<noteq> [] \<Longrightarrow> join sep (xs @ ys) = join sep xs @ sep @ join sep ys"
proof (induction sep xs rule: join.induct)
  case (2 sep p)
  then show ?case by (cases ys) auto
qed auto

lemma includes_join_block:
  assumes "xs \<noteq> []" "ms \<noteq> []" "ys \<noteq> []"
  shows "js_includes (join sep (xs @ ms @ ys)) (join sep ms)"
proof -
  have "join sep (xs @ ms @ ys) = (join sep xs @ sep) @ join sep ms @ (sep @ join sep ys)"
    using assms by (simp add: join_append)
  then show ?thesis using includes_append by metis
qed

lemma small_module_analysis:
  "parseCode rejecting small_module (js ''f.py'') None = Returns small_module_metadata"
  by (simp add: small_module_metadata_def small_module_def ev_entry ev_str ev_regex ev_py)

lemma small_module_fits:
  "truncateCode (new_PromptBuilder default_config) small_module = small_module"
  by (simp add: truncateCode_def new_PromptBuilder_def default_config_def small_module_def js_def)

text \<open>
  Claim C6, as stated, fails for a code request without a file name: \<open>buildFromRequest\<close>
  calls the analyzer only when \<open>type === 'code' && fileName\<close>, so the prompt it builds
  carries no metadata and its user prompt has no structure section.
\<close>

theorem build_skips_unnamed_code:
  "req_type (code_request None) = code_input
   \<and> buildFromRequest rejecting (new_PromptBuilder default_config) (code_request None) = Returns
       \<lparr> systemPrompt = system_api,
         userPrompt = generateUserPrompt api code_input small_module None None,
         prompt_metadata = None \<rparr>
   \<and> \<not> js_includes (generateUserPrompt api code_input small_module None None) structure_heading"
proof -
  have "buildFromRequest rejecting (new_PromptBuilder default_config) (code_request None) = Returns
       \<lparr> systemPrompt = system_api,
         userPrompt = generateUserPrompt api code_input small_module None None,
         prompt_metadata = None \<rparr>"
    by (simp add: buildFromRequest_def code_request_def truthy_str_def truncateCode_def
        new_PromptBuilder_def default_config_def small_module_def js_def)
  moreover have
    "\<not> js_includes (generateUserPrompt api code_input small_module None None) structure_heading"
    by (simp add: generateUserPrompt_def structure_heading_def code_heading_def output_heading_def
        output_api_def small_module_def ev_str)
  ultimately show ?thesis by (simp add: code_request_def)
qed

text \<open>
  A code request with a non-empty file name, when the analyzer returns for it: the
  result, and the two sections of the user prompt that hold the code and the summary.
\<close>

lemma named_code_is_analyzed:
  assumes "req_type request = code_input"
    and "req_fileName request = Some name" and "name \<noteq> []"
    and "parseCode parse_file (truncateCode this (req_content request)) name (req_language request)
           = Returns md"
  shows "buildFromRequest parse_file this request = Returns
           \<lparr> systemPrompt = SYSTEM_PROMPTS (req_docType request),
             userPrompt =
               generateUserPrompt (req_docType request) code_input
                 (truncateCode this (req_content request)) (Some md) (req_additionalContext request),
             prompt_metadata = Some md \<rparr>
       \<and> js_includes
           (generateUserPrompt (req_docType request) code_input
              (truncateCode this (req_content request)) (Some md) (req_additionalContext request))
           (code_heading @ [0x0A] @ ([0x60, 0x60, 0x60] @ md_language md) @ [0x0A]
              @ truncateCode this (req_content request))
       \<and> js_includes
           (generateUserPrompt (req_docType request) code_input
              (truncateCode this (req_content request)) (Some md) (req_additionalContext request))
           (structure_heading @ [0x0A] @ generateMetadataSummary md)"
proof -
  let ?code = "truncateCode this (req_content request)"
  let ?ctx = "req_additionalContext request"
  let ?tail = "(if truthy_str ?ctx then [context_heading, the ?ctx, []] else [])
                 @ [output_heading, getOutputRequirements (req_docType request)]"
  let ?prompt = "generateUserPrompt (req_docType request) code_input ?code (Some md) ?ctx"
  have built: "buildFromRequest parse_file this request = Returns
      \<lparr> systemPrompt = SYSTEM_PROMPTS (req_docType request), userPrompt = ?prompt,
        prompt_metadata = Some md \<rparr>"
    using assms by (simp add: buildFromRequest_def truthy_str_def)
  let ?head = "[getTaskDescription (req_docType request), []]"
  let ?block = "[code_heading, [0x60, 0x60, 0x60] @ md_language md, ?code]"
  let ?fence = "[[0x60, 0x60, 0x60], []]"
  let ?summary = "[structure_heading, generateMetadataSummary md]"
  have parts: "?prompt = join [0x0A] (?head @ ?block @ (?fence @ ?summary @ ([] # ?tail)))"
    "?prompt = join [0x0A] ((?head @ ?block @ ?fence) @ ?summary @ ([] # ?tail))"
    by (simp_all add: generateUserPrompt_def)
  have "js_includes (join [0x0A] (?head @ ?block @ (?fence @ ?summary @ ([] # ?tail))))
      (join [0x0A] ?block)"
    by (rule includes_join_block) simp_all
  moreover have "join [0x0A] ?block
      = code_heading @ [0x0A] @ ([0x60, 0x60, 0x60] @ md_language md) @ [0x0A] @ ?code"
    by simp
  ultimately have first: "js_includes ?prompt
      (code_heading @ [0x0A] @ ([0x60, 0x60, 0x60] @ md_language md) @ [0x0A] @ ?code)"
    by (simp only: parts(1))
  have "js_includes (join [0x0A] ((?head @ ?block @ ?fence) @ ?summary @ ([] # ?tail)))
      (join [0x0A] ?summary)"
    by (rule includes_join_block) simp_all
  moreover have "join [0x0A] ?summary = structure_heading @ [0x0A] @ generateMetadataSummary md"
    by simp
  ultimately have second:
    "js_includes ?prompt (structure_heading @ [0x0A] @ generateMetadataSummary md)"
    by (simp only: parts(2))
  show ?thesis using built first second by (simp only: simp_thms)
qed

text \<open>
  A code request whose file name is absent or empty: the analyzer is not called, and the
  user prompt is made of the task description, the code section, the additional context
  if there is one, and the output requirements.
\<close>

lemma unnamed_code_is_not_analyzed:
  assumes "req_type request = code_input" and "\<not> truthy_str (req_fileName request)"
  shows "buildFromRequest parse_file this request = Returns
           \<lparr> systemPrompt = SYSTEM_PROMPTS (req_docType request),
             userPrompt =
               join [0x0A]
                 ([getTaskDescription (req_docType request), [], code_heading, [0x60, 0x60, 0x60],
                   truncateCode this (req_content request), [0x60, 0x60, 0x60], []]
                  @ (if truthy_str (req_additionalContext request)
                     then [context_heading, the (req_additionalContext request), []] else [])
                  @ [output_heading, getOutputRequirements (req_docType request)]),
             prompt_metadata = None \<rparr>"
proof -
  have "buildFromRequest parse_file this request = Returns
      \<lparr> systemPrompt = SYSTEM_PROMPTS (req_docType request),
        userPrompt = generateUserPrompt (req_docType request) code_input
          (truncateCode this (req_content request)) None (req_additionalContext request),
        prompt_metadata = None \<rparr>"
    using assms by (simp add: buildFromRequest_def)
  moreover have "generateUserPrompt (req_docType request) code_input
      (truncateCode this (req_content request)) None (req_additionalContext request)
    = join [0x0A]
        ([getTaskDescription (req_docType request), [], code_heading, [0x60, 0x60, 0x60],
          truncateCode this (req_content request), [0x60, 0x60, 0x60], []]
         @ (if truthy_str (req_additionalContext request)
            then [context_heading, the (req_additionalContext request), []] else [])
         @ [output_heading, getOutputRequirements (req_docType request)])"
    by (simp add: generateUserPrompt_def)
  ultimately show ?thesis by (simp only:)
qed

text \<open>
  Claim C6, amended. For a code request with a non-empty file name, \<open>buildFromRequest\<close>
  calls the analyzer on the truncated content, with the request's file name and
  language. When the analyzer returns metadata, the built prompt carries that metadata,
  and its user prompt holds the truncated code under the code heading, fenced with the
  metadata's language, and the summary of the metadata under the structure heading.
  For every code request whose file name is absent or empty, the analyzer is not called:
  the built prompt carries no metadata, and its user prompt is the task description,
  the code section with the truncated code, the additional context if there is one, and
  the output requirements, with no structure section.
\<close>

theorem build_analyzes_exactly_named_code:
  assumes "req_type request = code_input"
  shows "(req_fileName request = Some name \<and> name \<noteq> []
          \<and> parseCode parse_file (truncateCode this (req_content request)) name
                (req_language request) = Returns md \<longrightarrow>
            buildFromRequest parse_file this request = Returns
              \<lparr> systemPrompt = SYSTEM_PROMPTS (req_docType request),
                userPrompt =
                  generateUserPrompt (req_docType request) code_input
                    (truncateCode this (req_content request)) (Some md)
                    (req_additionalContext request),
                prompt_metadata = Some md \<rparr>
            \<and> js_includes
                (generateUserPrompt (req_docType request) code_input
                   (truncateCode this (req_content request)) (Some md)
                   (req_additionalContext request))
                (code_heading @ [0x0A] @ ([0x60, 0x60, 0x60] @ md_language md) @ [0x0A]
                   @ truncateCode this (req_content request))
            \<and> js_includes
                (generateUserPrompt (req_docType request) code_input
                   (truncateCode this (req_content request)) (Some md)
                   (req_additionalContext request))
                (structure_heading @ [0x0A] @ generateMetadataSummary md))
       \<and> (\<not> truthy_str (req_fileName request) \<longrightarrow>
            buildFromRequest parse_file this request = Returns
              \<lparr> systemPrompt = SYSTEM_PROMPTS (req_docType request),
                userPrompt =
                  join [0x0A]
                    ([getTaskDescription (req_docType request), [], code_heading,
                      [0x60, 0x60, 0x60], truncateCode this (req_content request),
                      [0x60, 0x60, 0x60], []]
                     @ (if truthy_str (req_additionalContext request)
                        then [context_heading, the (req_additionalContext request), []] else [])
                     @ [output_heading, getOutputRequirements (req_docType request)]),
                prompt_metadata = None \<rparr>)"
proof (intro conjI impI)
  assume named: "req_fileName request = Some name \<and> name \<noteq> []
      \<and> parseCode parse_file (truncateCode this (req_content request)) name
            (req_language request) = Returns md"
  then have n: "req_fileName request = Some name" "name \<noteq> []"
    "parseCode parse_file (truncateCode this (req_content request)) name (req_language request)
       = Returns md"
    by simp_all
  from named_code_is_analyzed[OF assms n]
  show "buildFromRequest parse_file this request = Returns
      \<lparr> systemPrompt = SYSTEM_PROMPTS (req_docType request),
        userPrompt =
          generateUserPrompt (req_docType request) code_input
            (truncateCode this (req_content request)) (Some md)
            (req_additionalContext request),
        prompt_metadata = Some md \<rparr>"
    and "js_includes
        (generateUserPrompt (req_docType request) code_input
           (truncateCode this (req_content request)) (Some md)
           (req_additionalContext request))
        (code_heading @ [0x0A] @ ([0x60, 0x60, 0x60] @ md_language md) @ [0x0A]
           @ truncateCode this (req_content request))"
    and "js_includes
        (generateUserPrompt (req_docType request) code_input
           (truncateCode this (req_content request)) (Some md)
           (req_additionalContext request))
        (structure_heading @ [0x0A] @ generateMetadataSummary md)"
    by (simp_all only: simp_thms)
next
  assume "\<not> truthy_str (req_fileName request)"
  with assms show "buildFromRequest parse_file this request = Returns
      \<lparr> systemPrompt = SYSTEM_PROMPTS (req_docType request),
        userPrompt =
          join [0x0A]
            ([getTaskDescription (req_docType request), [], code_heading,
              [0x60, 0x60, 0x60], truncateCode this (req_content request),
              [0x60, 0x60, 0x60], []]
             @ (if truthy_str (req_additionalContext request)
                then [context_heading, the (req_additionalContext request), []] else [])
             @ [output_heading, getOutputRequirements (req_docType request)]),
        prompt_metadata = None \<rparr>"
    by (rule unnamed_code_is_not_analyzed)
qed

theorem build_analyzes_exactly_named_code_witness:
  "buildFromRequest rejecting (new_PromptBuilder default_config) (code_request (Some (js ''f.py'')))
     = Returns
         \<lparr> systemPrompt = system_api,
           userPrompt = generateUserPrompt api code_input small_module (Some small_module_metadata) None,
           prompt_metadata = Some small_module_metadata \<rparr>
   \<and> js_includes
       (generateUserPrompt api code_input small_module (Some small_module_metadata) None)
       (structure_heading @ [0x0A] @ generateMetadataSummary small_module_metadata)
   \<and> buildFromRequest rejecting (new_PromptBuilder default_config) (code_request None)
     = Returns
         \<lparr> systemPrompt = system_api,
           userPrompt =
             join [0x0A]
               [getTaskDescription api, [], code_heading, [0x60, 0x60, 0x60], small_module,
                [0x60, 0x60, 0x60], [], output_heading, output_api],
           prompt_metadata = None \<rparr>"
proof -
  let ?request = "code_request (Some (js ''f.py''))"
  let ?unnamed = "code_request None"
  let ?builder = "new_PromptBuilder default_config"
  have request: "req_type ?request = code_input" "req_type ?unnamed = code_input"
    by (simp_all add: code_request_def)
  have name: "js ''f.py'' \<noteq> []"
    by (simp add: js_def)
  have analysis: "parseCode rejecting (truncateCode ?builder (req_content ?request)) (js ''f.py'')
      (req_language ?request) = Returns small_module_metadata"
    by (simp add: code_request_def small_module_fits small_module_analysis)
  have named: "req_fileName ?request = Some (js ''f.py'') \<and> js ''f.py'' \<noteq> []
      \<and> parseCode rejecting (truncateCode ?builder (req_content ?request)) (js ''f.py'')
            (req_language ?request) = Returns small_module_metadata"
    using name analysis by (simp add: code_request_def)
  have unnamed: "\<not> truthy_str (req_fileName ?unnamed)"
    by (simp add: code_request_def truthy_str_def)
  have fields: "req_docType ?request = api" "req_content ?request = small_module"
    "req_additionalContext ?request = None" "req_docType ?unnamed = api"
    "req_content ?unnamed = small_module" "req_additionalContext ?unnamed = None"
    by (simp_all add: code_request_def)
  have none: "\<not> truthy_str None"
    by (simp add: truthy_str_def)
  from build_analyzes_exactly_named_code[OF request(1),
      where name = "js ''f.py''" and parse_file = rejecting and this = ?builder
        and md = small_module_metadata]
    named
  have a: "buildFromRequest rejecting ?builder ?request = Returns
      \<lparr> systemPrompt = system_api,
        userPrompt = generateUserPrompt api code_input small_module (Some small_module_metadata) None,
        prompt_metadata = Some small_module_metadata \<rparr>
    \<and> js_includes
       (generateUserPrompt api code_input small_module (Some small_module_metadata) None)
       (structure_heading @ [0x0A] @ generateMetadataSummary small_module_metadata)"
    by (simp only: fields small_module_fits simp_thms SYSTEM_PROMPTS.simps)
  from build_analyzes_exactly_named_code[OF request(2),
      where parse_file = rejecting and this = ?builder]
    unnamed
  have b: "buildFromRequest rejecting ?builder ?unnamed = Returns
      \<lparr> systemPrompt = system_api,
        userPrompt =
          join [0x0A]
            [getTaskDescription api, [], code_heading, [0x60, 0x60, 0x60], small_module,
             [0x60, 0x60, 0x60], [], output_heading, output_api],
        prompt_metadata = None \<rparr>"
    by (simp only: fields small_module_fits simp_thms SYSTEM_PROMPTS.simps none if_False
        append.simps getOutputRequirements.simps)
  from a b show ?thesis by (simp only: simp_thms)
qed

end
